(* ===== verification/Prelude.thy ===== *)
theory Prelude
  imports Complex_Main "HOL-Library.Multiset"
begin

text \<open>
  Shared vocabulary of the development: the time scale used for every instant of the
  integration (integer microseconds, Python's \<open>datetime\<close> resolution), the
  named collections that the component theories fill, and generic facts on lists and
  sorted sequences that several components use (the resolver's forward scan with
  \<open>break\<close>, the sort performed on every fetch, the fold behind \<open>min\<close>/\<open>max\<close>).
\<close>

named_theorems py_simps "evaluation rules of the model of Python builtins and values"
named_theorems wf_simps "unfolding rules of the well-formedness predicates of the cache"

section \<open>Time scale\<close>

text \<open>
  An instant is an integer number of microseconds since 1970-01-01T00:00:00Z (the
  resolution of Python's \<open>datetime\<close>). A wall-clock reading of a civil time zone is on
  the same scale: microseconds since 1970-01-01T00:00:00 of that zone's calendar.
\<close>

type_synonym instant = int
type_synonym wall = int

definition usec_per_sec :: int where
  "usec_per_sec = 1000000"

definition day_usec :: int where
  "day_usec = 86400 * usec_per_sec"

declare usec_per_sec_def [py_simps]

lemma day_usec_val [py_simps]: "day_usec = 86400000000"
  by (simp add: day_usec_def usec_per_sec_def)

lemma day_usec_pos [simp]: "0 < day_usec"
  by (simp add: day_usec_val)

section \<open>Sorted sequences\<close>

text \<open>
  On a sequence sorted by a key, the elements whose key is at most a bound form a prefix:
  the forward scan that stops at the first larger key sees exactly the elements a full
  filter would keep.
\<close>

lemma takeWhile_le_eq_filter:
  "sorted (map f xs) \<Longrightarrow> takeWhile (\<lambda>x. f x \<le> t) xs = filter (\<lambda>x. f x \<le> t) xs"
proof (induction xs)
  case Nil
  then show ?case by simp
next
  case (Cons x xs)
  show ?case
  proof (cases "f x \<le> t")
    case True
    with Cons show ?thesis by simp
  next
    case False
    with Cons.prems have "\<forall>y\<in>set xs. \<not> f y \<le> t"
      by fastforce
    with False show ?thesis by simp
  qed
qed

section \<open>Folds behind Python's min and max\<close>

text \<open>
  CPython's \<open>min\<close> keeps its first argument and replaces the current value by an item
  exactly when the item compares smaller (\<open>max\<close>: larger). On a linear order the result
  is the least (greatest) element.
\<close>

definition fold_min :: "'a::linorder list \<Rightarrow> 'a \<Rightarrow> 'a" where
  "fold_min xs x = fold (\<lambda>y m. if y < m then y else m) xs x"

definition fold_max :: "'a::linorder list \<Rightarrow> 'a \<Rightarrow> 'a" where
  "fold_max xs x = fold (\<lambda>y m. if m < y then y else m) xs x"

lemma fold_min_eq_Min: "fold_min xs x = Min (insert x (set xs))"
proof (induction xs arbitrary: x)
  case Nil
  then show ?case by (simp add: fold_min_def)
next
  case (Cons y xs)
  have "fold_min (y # xs) x = fold_min xs (if y < x then y else x)"
    by (simp add: fold_min_def)
  also have "\<dots> = Min (insert (if y < x then y else x) (set xs))"
    by (rule Cons.IH)
  also have "\<dots> = Min (insert x (set (y # xs)))"
    by (cases "set xs = {}") (auto simp: min_def insert_commute)
  finally show ?case .
qed

lemma fold_max_eq_Max: "fold_max xs x = Max (insert x (set xs))"
proof (induction xs arbitrary: x)
  case Nil
  then show ?case by (simp add: fold_max_def)
next
  case (Cons y xs)
  have "fold_max (y # xs) x = fold_max xs (if x < y then y else x)"
    by (simp add: fold_max_def)
  also have "\<dots> = Max (insert (if x < y then y else x) (set xs))"
    by (rule Cons.IH)
  also have "\<dots> = Max (insert x (set (y # xs)))"
    by (cases "set xs = {}") (auto simp: max_def insert_commute)
  finally show ?case .
qed

section \<open>Options and sums\<close>

lemma sum_case_Inr_iff:
  "(case r of Inl e \<Rightarrow> Inl e | Inr v \<Rightarrow> f v) = Inr w \<longleftrightarrow> (\<exists>v. r = Inr v \<and> f v = Inr w)"
  by (cases r) auto

end
