(* ===== verification/PyValues.thy ===== *)
theory PyValues
  imports Prelude
begin

text \<open>
  The Python values the integration handles: the decoded JSON body of the provider's
  reply (\<open>response.json()\<close>, a tree of lists, dicts, strings, numbers, booleans and
  \<open>None\<close>), the exceptions the code raises or catches, and the builtins it applies to
  these values: truthiness (\<open>if not data\<close>, \<open>if last_item\<close>), subscripting
  (\<open>item["DateTime"]\<close>), \<open>dict.get\<close>, \<open>float(...)\<close> and \<open>min\<close>/\<open>max\<close>.
  JSON numbers are kept as the exact rational value of the double they decode to, which
  is all the code observes of them: it compares them and returns them unchanged.
\<close>

section \<open>Exceptions\<close>

text \<open>
  The exceptions raised on the code paths of \<^verbatim>\<open>spothinta_api.py\<close>. Failures of the
  HTTP call itself (\<open>requests.get\<close>, \<open>raise_for_status\<close>, \<open>response.json()\<close>) are all
  \<open>RequestException\<close>s, caught in \<open>fetch_data\<close>; they are modelled with the reply in
  theory \<open>Fetch\<close>, not here.
\<close>

datatype pyexc = KeyError | TypeError | ValueError | AttributeError

section \<open>Decoded JSON values\<close>

text \<open>
  A JSON object is kept as the list of its members in document order; \<open>json.loads\<close>
  builds a dict in which a later duplicate key overwrites an earlier one.
\<close>

datatype json =
    JNull
  | JBool bool
  | JNum rat
  | JStr string
  | JArr "json list"
  | JObj "(string \<times> json) list"

text \<open>\<open>bool(x)\<close>: empty containers, empty strings, zero, \<open>False\<close> and \<open>None\<close> are false.\<close>

fun py_truthy :: "json \<Rightarrow> bool" where
  "py_truthy JNull = False"
| "py_truthy (JBool b) = b"
| "py_truthy (JNum r) = (r \<noteq> 0)"
| "py_truthy (JStr s) = (s \<noteq> [])"
| "py_truthy (JArr xs) = (xs \<noteq> [])"
| "py_truthy (JObj kvs) = (kvs \<noteq> [])"

text \<open>The dict built by \<open>json.loads\<close> from an object's members: the last member with a key wins.\<close>

definition obj_lookup :: "(string \<times> json) list \<Rightarrow> string \<Rightarrow> json option" where
  "obj_lookup kvs k = map_of (rev kvs) k"

text \<open>\<open>x[k]\<close> with a string key: \<open>KeyError\<close> on a dict without the key, \<open>TypeError\<close> on
  every other JSON value (lists, strings and numbers are not indexable by a string).\<close>

fun py_subscript :: "json \<Rightarrow> string \<Rightarrow> pyexc + json" where
  "py_subscript (JObj kvs) k = (case obj_lookup kvs k of None \<Rightarrow> Inl KeyError | Some v \<Rightarrow> Inr v)"
| "py_subscript _ k = Inl TypeError"

text \<open>\<open>x.get(k)\<close>: \<open>None\<close> both for a missing key and for a member whose value is JSON
  \<open>null\<close>; \<open>AttributeError\<close> on a value that is not a dict.\<close>

fun py_get :: "json \<Rightarrow> string \<Rightarrow> pyexc + json option" where
  "py_get (JObj kvs) k = Inr (case obj_lookup kvs k of Some JNull \<Rightarrow> None | v \<Rightarrow> v)"
| "py_get _ k = Inl AttributeError"

section \<open>Digits and \<open>float()\<close>\<close>

definition is_digit :: "char \<Rightarrow> bool" where
  "is_digit c \<longleftrightarrow> (48::nat) \<le> of_char c \<and> of_char c \<le> (57::nat)"

definition digit_val :: "char \<Rightarrow> nat" where
  "digit_val c = of_char c - 48"

definition digits_nat :: "char list \<Rightarrow> nat" where
  "digits_nat cs = foldl (\<lambda>n c. 10 * n + digit_val c) 0 cs"

text \<open>A non-empty run of ASCII digits, read as a decimal number.\<close>

definition parse_num :: "char list \<Rightarrow> nat option" where
  "parse_num cs = (if cs \<noteq> [] \<and> list_all is_digit cs then Some (digits_nat cs) else None)"

text \<open>
  \<open>float(s)\<close> on a string, for plain decimal literals: an optional sign, digits, an
  optional fraction, at least one digit in all. Python's \<open>float\<close> also accepts
  surrounding blanks, exponents, underscores and \<open>inf\<close>/\<open>nan\<close>; the model raises
  \<open>ValueError\<close> for those, so it under-approximates the strings that convert. The
  provider sends prices as JSON numbers, never as strings.
\<close>

definition parse_decimal :: "string \<Rightarrow> rat option" where
  "parse_decimal s =
     (let neg = (s \<noteq> [] \<and> hd s = CHR ''-'');
          body = (if s \<noteq> [] \<and> (hd s = CHR ''-'' \<or> hd s = CHR ''+'') then tl s else s);
          ip = takeWhile is_digit body;
          rest = dropWhile is_digit body;
          sg = (if neg then -1 else 1 :: rat)
      in case rest of
           [] \<Rightarrow> (if ip = [] then None else Some (sg * of_nat (digits_nat ip)))
         | c # fp \<Rightarrow>
             (if c = CHR ''.'' \<and> list_all is_digit fp \<and> (ip \<noteq> [] \<or> fp \<noteq> [])
              then Some (sg * (of_nat (digits_nat ip) + of_nat (digits_nat fp) / 10 ^ length fp))
              else None))"

text \<open>\<open>float(x)\<close>: numbers convert to themselves, booleans to 1 and 0, strings by parsing
  (\<open>ValueError\<close> when they do not parse), and \<open>None\<close>, lists and dicts raise
  \<open>TypeError\<close>.\<close>

fun py_float :: "json \<Rightarrow> pyexc + rat" where
  "py_float (JNum r) = Inr r"
| "py_float (JBool b) = Inr (if b then 1 else 0)"
| "py_float (JStr s) = (case parse_decimal s of None \<Rightarrow> Inl ValueError | Some r \<Rightarrow> Inr r)"
| "py_float JNull = Inl TypeError"
| "py_float (JArr xs) = Inl TypeError"
| "py_float (JObj kvs) = Inl TypeError"

section \<open>\<open>min\<close> and \<open>max\<close> of a list\<close>

text \<open>\<open>min(xs)\<close>, \<open>max(xs)\<close>: \<open>ValueError\<close> on an empty list, otherwise the fold of
  theory \<open>Prelude\<close>.\<close>

definition py_min :: "rat list \<Rightarrow> pyexc + rat" where
  "py_min xs = (case xs of [] \<Rightarrow> Inl ValueError | x # rest \<Rightarrow> Inr (fold_min rest x))"

definition py_max :: "rat list \<Rightarrow> pyexc + rat" where
  "py_max xs = (case xs of [] \<Rightarrow> Inl ValueError | x # rest \<Rightarrow> Inr (fold_max rest x))"

section \<open>Lemmas\<close>

lemma py_subscript_Inr_iff:
  "py_subscript it k = Inr v \<longleftrightarrow> (\<exists>kvs. it = JObj kvs \<and> obj_lookup kvs k = Some v)"
  by (cases it) (auto split: option.splits)

lemma py_get_JObj [py_simps]:
  "py_get (JObj kvs) k = Inr (case obj_lookup kvs k of Some JNull \<Rightarrow> None | v \<Rightarrow> v)"
  by simp

lemma py_get_None_or_not_null:
  "py_get it k = Inr (Some v) \<Longrightarrow> v \<noteq> JNull"
  by (cases it) (auto split: option.splits json.splits)

lemma py_float_Inl:
  "py_float v = Inl ex \<Longrightarrow> ex = TypeError \<or> ex = ValueError"
  by (cases v) (auto split: option.splits)

lemma py_float_ValueError_JStr:
  "py_float v = Inl ValueError \<Longrightarrow> (\<exists>s. v = JStr s \<and> parse_decimal s = None)"
  by (cases v) (auto split: option.splits)

text \<open>Python's \<open>min\<close>/\<open>max\<close> on a non-empty list are the least and greatest element.\<close>

lemma py_min_Min: "xs \<noteq> [] \<Longrightarrow> py_min xs = Inr (Min (set xs))"
  by (cases xs) (simp_all add: py_min_def fold_min_eq_Min)

lemma py_max_Max: "xs \<noteq> [] \<Longrightarrow> py_max xs = Inr (Max (set xs))"
  by (cases xs) (simp_all add: py_max_def fold_max_eq_Max)

lemma obj_lookup_Cons [py_simps]:
  "obj_lookup ((k', v) # kvs) k = (case obj_lookup kvs k of None \<Rightarrow> (if k = k' then Some v else None) | Some w \<Rightarrow> Some w)"
  by (simp add: obj_lookup_def map_add_def split: option.splits)

lemma obj_lookup_Nil [py_simps]: "obj_lookup [] k = None"
  by (simp add: obj_lookup_def)

lemmas digit_simps [py_simps] = is_digit_def digit_val_def digits_nat_def parse_num_def

end
