(* ===== verification/PyDateTime.thy ===== *)
theory PyDateTime
  imports PyValues
begin

text \<open>
  Python \<open>datetime\<close> values as the integration uses them. The provider's records carry
  their time as an ISO-8601 string, read with \<open>datetime.fromisoformat\<close>; the result is
  either naive (no UTC offset) or aware (with one). The code converts datetimes to UTC
  with \<open>astimezone\<close> and to Helsinki time with pytz, and sorts and compares them.
  Two time zones are involved, and both are parameters of the model (record \<open>tzenv\<close>):
  \<^item> Europe/Helsinki, as pytz computes it (\<open>FINNISH_TIMEZONE\<close>): the UTC offset in force
    at a UTC instant;
  \<^item> the host's local zone, which \<open>astimezone\<close> applies to a naive datetime (the sensor
    passes the naive \<open>dt.datetime.now()\<close>).
\<close>

section \<open>Values\<close>

text \<open>A naive datetime is its wall-clock reading; an aware one its wall-clock reading and
  its UTC offset (both in microseconds, see theory \<open>Prelude\<close>).\<close>

datatype pydt = Naive wall | Aware wall int

record tzenv =
  fi_offset :: "instant \<Rightarrow> int"
  sys_local_to_utc :: "wall \<Rightarrow> instant"

text \<open>A zone with one UTC offset all year (Helsinki in winter is \<open>fixed_offset_tz
  7200000000\<close>); used to instantiate the lemmas at concrete times.\<close>

definition fixed_offset_tz :: "int \<Rightarrow> tzenv" where
  "fixed_offset_tz off = \<lparr>fi_offset = (\<lambda>_. off), sys_local_to_utc = (\<lambda>w. w - off)\<rparr>"

lemma fixed_offset_tz_simps [simp]:
  "fi_offset (fixed_offset_tz off) t = off"
  "sys_local_to_utc (fixed_offset_tz off) w = w - off"
  by (simp_all add: fixed_offset_tz_def)

text \<open>\<open>d.astimezone(dt.timezone.utc)\<close>, read as an instant.\<close>

fun dt_utc :: "tzenv \<Rightarrow> pydt \<Rightarrow> instant" where
  "dt_utc e (Naive w) = sys_local_to_utc e w"
| "dt_utc e (Aware w off) = w - off"

text \<open>
  Order comparisons: two aware datetimes compare as instants, two naive ones as wall-clock
  readings, and a naive one against an aware one raises \<open>TypeError\<close>. \<open>dt_rank\<close> is the
  value compared; \<open>dt_aware\<close> tells the two kinds apart.
\<close>

fun dt_rank :: "pydt \<Rightarrow> int" where
  "dt_rank (Naive w) = w"
| "dt_rank (Aware w off) = w - off"

fun dt_aware :: "pydt \<Rightarrow> bool" where
  "dt_aware (Naive w) = False"
| "dt_aware (Aware w off) = True"

definition dt_less :: "pydt \<Rightarrow> pydt \<Rightarrow> pyexc + bool" where
  "dt_less a b = (if dt_aware a = dt_aware b then Inr (dt_rank a < dt_rank b) else Inl TypeError)"

section \<open>The proleptic Gregorian calendar\<close>

definition is_leap :: "nat \<Rightarrow> bool" where
  "is_leap y \<longleftrightarrow> 4 dvd y \<and> (\<not> 100 dvd y \<or> 400 dvd y)"

definition days_in_month :: "nat \<Rightarrow> nat \<Rightarrow> nat" where
  "days_in_month y m =
     (if m = 2 then (if is_leap y then 29 else 28)
      else if m = 4 \<or> m = 6 \<or> m = 9 \<or> m = 11 then 30 else 31)"

definition valid_date :: "nat \<Rightarrow> nat \<Rightarrow> nat \<Rightarrow> bool" where
  "valid_date y m d \<longleftrightarrow> 1 \<le> y \<and> y \<le> 9999 \<and> 1 \<le> m \<and> m \<le> 12 \<and> 1 \<le> d \<and> d \<le> days_in_month y m"

text \<open>Days from 1970-01-01 to a civil date (the era-based count of the proleptic
  Gregorian calendar, with floor division as Python's \<open>//\<close>).\<close>

definition days_from_civil :: "int \<Rightarrow> int \<Rightarrow> int \<Rightarrow> int" where
  "days_from_civil y m d =
     (let y' = (if m \<le> 2 then y - 1 else y);
          era = y' div 400;
          yoe = y' - era * 400;
          mp = (if 2 < m then m - 3 else m + 9);
          doy = (153 * mp + 2) div 5 + d - 1;
          doe = yoe * 365 + yoe div 4 - yoe div 100 + doy
      in era * 146097 + doe - 719468)"

section \<open>\<open>datetime.fromisoformat\<close>\<close>

text \<open>
  The accepted strings: a date \<open>YYYY-MM-DD\<close>, optionally followed by \<open>T\<close> or a blank,
  a time \<open>HH:MM\<close> or \<open>HH:MM:SS\<close>, and a UTC offset \<open>Z\<close> or \<open>\<plusminus>HH:MM\<close>; invalid
  fields (month 13, February 30, hour 24, offset of 24 hours or more) raise
  \<open>ValueError\<close>, as in Python. The provider sends \<open>YYYY-MM-DDTHH:MM:SS+HH:MM\<close>. Python
  3.11 also reads fractional seconds, the basic format without separators and week
  dates; those strings are \<open>ValueError\<close> in the model.
\<close>

definition parse_date :: "string \<Rightarrow> (nat \<times> nat \<times> nat) option" where
  "parse_date s =
     (if length s = 10 \<and> s ! 4 = CHR ''-'' \<and> s ! 7 = CHR ''-'' then
        (case (parse_num (take 4 s), parse_num (take 2 (drop 5 s)), parse_num (drop 8 s)) of
           (Some y, Some m, Some d) \<Rightarrow> (if valid_date y m d then Some (y, m, d) else None)
         | _ \<Rightarrow> None)
      else None)"

text \<open>Seconds since midnight.\<close>

definition parse_time :: "string \<Rightarrow> nat option" where
  "parse_time s =
     (if length s = 5 \<and> s ! 2 = CHR '':'' then
        (case (parse_num (take 2 s), parse_num (drop 3 s)) of
           (Some h, Some mi) \<Rightarrow> (if h < 24 \<and> mi < 60 then Some (h * 3600 + mi * 60) else None)
         | _ \<Rightarrow> None)
      else if length s = 8 \<and> s ! 2 = CHR '':'' \<and> s ! 5 = CHR '':'' then
        (case (parse_num (take 2 s), parse_num (take 2 (drop 3 s)), parse_num (drop 6 s)) of
           (Some h, Some mi, Some sec) \<Rightarrow>
             (if h < 24 \<and> mi < 60 \<and> sec < 60 then Some (h * 3600 + mi * 60 + sec) else None)
         | _ \<Rightarrow> None)
      else None)"

text \<open>\<open>Some None\<close>: no offset (naive); \<open>Some (Some off)\<close>: offset in microseconds;
  \<open>None\<close>: malformed.\<close>

definition parse_utcoffset :: "string \<Rightarrow> int option option" where
  "parse_utcoffset s =
     (if s = [] then Some None
      else if s = ''Z'' then Some (Some 0)
      else if length s = 6 \<and> (hd s = CHR ''+'' \<or> hd s = CHR ''-'') \<and> s ! 3 = CHR '':'' then
        (case (parse_num (take 2 (tl s)), parse_num (drop 4 s)) of
           (Some h, Some mi) \<Rightarrow>
             (if h < 24 \<and> mi < 60
              then Some (Some ((if hd s = CHR ''-'' then -1 else 1) * int (h * 3600 + mi * 60) * usec_per_sec))
              else None)
         | _ \<Rightarrow> None)
      else None)"

definition civil_wall :: "nat \<times> nat \<times> nat \<Rightarrow> nat \<Rightarrow> wall" where
  "civil_wall ymd secs =
     (case ymd of (y, m, d) \<Rightarrow> days_from_civil (int y) (int m) (int d) * day_usec + int secs * usec_per_sec)"

definition fromisoformat :: "string \<Rightarrow> pydt option" where
  "fromisoformat s =
     (if length s = 10 then map_option (\<lambda>ymd. Naive (civil_wall ymd 0)) (parse_date s)
      else if 16 \<le> length s \<and> (s ! 10 = CHR ''T'' \<or> s ! 10 = CHR '' '') then
        (let tlen = (if 19 \<le> length s \<and> s ! 16 = CHR '':'' then 8 else 5)
         in case (parse_date (take 10 s), parse_time (take tlen (drop 11 s)),
                  parse_utcoffset (drop (11 + tlen) s)) of
              (Some ymd, Some secs, Some None) \<Rightarrow> Some (Naive (civil_wall ymd secs))
            | (Some ymd, Some secs, Some (Some off)) \<Rightarrow> Some (Aware (civil_wall ymd secs) off)
            | _ \<Rightarrow> None)
      else None)"

text \<open>\<open>datetime.fromisoformat(v)\<close> on a decoded JSON value: \<open>TypeError\<close> unless it is
  a string, \<open>ValueError\<close> when the string does not parse.\<close>

fun py_fromisoformat :: "json \<Rightarrow> pyexc + pydt" where
  "py_fromisoformat (JStr s) = (case fromisoformat s of None \<Rightarrow> Inl ValueError | Some d \<Rightarrow> Inr d)"
| "py_fromisoformat _ = Inl TypeError"

lemmas datetime_simps [py_simps] =
  parse_date_def parse_time_def parse_utcoffset_def civil_wall_def fromisoformat_def
  valid_date_def days_in_month_def is_leap_def days_from_civil_def

section \<open>Lemmas\<close>

lemma dt_less_aware [simp]:
  "dt_less (Aware w o1) (Aware v o2) = Inr (w - o1 < v - o2)"
  by (simp add: dt_less_def)

lemma dt_utc_aware_rank: "dt_aware d \<Longrightarrow> dt_utc e d = dt_rank d"
  by (cases d) simp_all

lemma days_from_civil_epoch: "days_from_civil 1970 1 1 = 0"
  by (simp add: days_from_civil_def)

end
