(* ===== verification/Store.thy ===== *)
theory Store
  imports PyDateTime
begin

text \<open>
  The per-region cache of \<open>SpotHintaAPI\<close> (\<^verbatim>\<open>spothinta_api.py\<close>): the dict
  \<open>_data_cache\<close> from region codes to one dict per region, created on first use by
  \<open>_get_cache_data\<close>; the price-key table \<open>_get_price_keys\<close>; the constants of
  \<^verbatim>\<open>const.py\<close>; the read of a record's timestamp shared by the sort in \<open>fetch_data\<close>
  and the scan in \<open>calculate_current_price\<close>; and the well-formedness of a cached
  region that every operation keeps.
\<close>

section \<open>Constants (\<^verbatim>\<open>const.py\<close>, \<^verbatim>\<open>spothinta_api.py\<close>)\<close>

definition DOMAIN :: string where
  "DOMAIN = ''spothinta''"

definition SUPPORTED_REGIONS :: "string list" where
  "SUPPORTED_REGIONS =
     [''DK1'', ''DK2'', ''EE'', ''FI'', ''LT'', ''LV'',
      ''NO1'', ''NO2'', ''NO3'', ''NO4'', ''NO5'',
      ''SE1'', ''SE2'', ''SE3'', ''SE4'']"

definition DEFAULT_REGION :: string where
  "DEFAULT_REGION = ''FI''"

definition SUPPORTED_PRICE_TYPES :: "string list" where
  "SUPPORTED_PRICE_TYPES = [''VAT'', ''NO_VAT'']"

definition DEFAULT_PRICE_TYPE :: string where
  "DEFAULT_PRICE_TYPE = ''VAT''"

definition PRICE_RESOLUTION :: nat where
  "PRICE_RESOLUTION = 15"

definition API_BASE_URL :: string where
  "API_BASE_URL = ''https://api.spot-hinta.fi''"

section \<open>The cache\<close>

text \<open>
  One region's dict. The first four fields are the keys \<open>_get_cache_data\<close> creates:
  \<open>_data\<close> (the sorted API reply, \<open>None\<close> before the first fetch), \<open>last_fetch\<close> (UTC
  time of the last successful request), \<open>min_price\<close> and \<open>max_price\<close>. The sensor
  writes two more keys into the same dict (the coordinator's \<open>data\<close> is this very dict):
  \<open>current_price\<close> and \<open>last_refresh_utc\<close>; absent keys read as \<open>None\<close> through
  \<open>dict.get\<close>, so \<open>None\<close> models both.
\<close>

record cache_entry =
  c_data :: "json list option"
  last_fetch :: "instant option"
  min_price :: "rat option"
  max_price :: "rat option"
  current_price :: "rat option"
  last_refresh_utc :: "instant option"

type_synonym api_cache = "string \<rightharpoonup> cache_entry"

definition empty_entry :: cache_entry where
  "empty_entry =
     \<lparr>c_data = None, last_fetch = None, min_price = None, max_price = None,
      current_price = None, last_refresh_utc = None\<rparr>"

text \<open>\<open>_get_cache_data(region)\<close>: the region's dict, created with all keys \<open>None\<close> if
  the region has none yet. Returns the dict and the cache after the call.\<close>

definition get_cache_data :: "string \<Rightarrow> api_cache \<Rightarrow> cache_entry \<times> api_cache" where
  "get_cache_data region st =
     (case st region of
        Some c \<Rightarrow> (c, st)
      | None \<Rightarrow> (empty_entry, st(region \<mapsto> empty_entry)))"

text \<open>\<open>_get_price_keys()\<close> and \<open>keys.get(price_type, keys["VAT"])\<close>.\<close>

definition get_price_keys :: "(string \<times> string) list" where
  "get_price_keys = [(''VAT'', ''PriceWithTax''), (''NO_VAT'', ''PriceNoTax'')]"

definition VAT_KEY :: string where
  "VAT_KEY = the (map_of get_price_keys ''VAT'')"

definition price_key_to_use :: "string \<Rightarrow> string" where
  "price_key_to_use price_type =
     (case map_of get_price_keys price_type of Some k \<Rightarrow> k | None \<Rightarrow> VAT_KEY)"

text \<open>\<open>not cache.get('_data')\<close> is true for \<open>None\<close> and for the empty list.\<close>

definition data_truthy :: "json list option \<Rightarrow> bool" where
  "data_truthy d = (case d of None \<Rightarrow> False | Some xs \<Rightarrow> xs \<noteq> [])"

section \<open>Reading a record's timestamp\<close>

text \<open>\<open>dt.datetime.fromisoformat(item["DateTime"])\<close>.\<close>

definition item_datetime :: "json \<Rightarrow> pyexc + pydt" where
  "item_datetime it =
     (case py_subscript it ''DateTime'' of Inl ex \<Rightarrow> Inl ex | Inr v \<Rightarrow> py_fromisoformat v)"

text \<open>The keys of a list of records, computed left to right as \<open>list.sort(key=...)\<close>
  does before comparing anything; the first failure propagates.\<close>

fun item_keys :: "json list \<Rightarrow> pyexc + pydt list" where
  "item_keys [] = Inr []"
| "item_keys (it # its) =
     (case item_datetime it of
        Inl ex \<Rightarrow> Inl ex
      | Inr d \<Rightarrow> (case item_keys its of Inl ex \<Rightarrow> Inl ex | Inr ds \<Rightarrow> Inr (d # ds)))"

text \<open>All keys of one kind (all aware or all naive): the keys can be compared.\<close>

definition uniform_kind :: "pydt list \<Rightarrow> bool" where
  "uniform_kind ds = (case ds of [] \<Rightarrow> True | d # _ \<Rightarrow> list_all (\<lambda>d'. dt_aware d' = dt_aware d) ds)"

section \<open>Well-formed cache\<close>

text \<open>
  The stored series: every record has a readable timestamp, all timestamps are of one
  kind, and the records are in ascending timestamp order. A region with a series (even
  an empty one) has a last-fetch time. These are what \<open>fetch_data\<close> establishes when it installs a reply.
\<close>

definition stored_ok :: "json list \<Rightarrow> bool" where
  "stored_ok items =
     (case item_keys items of
        Inl ex \<Rightarrow> False
      | Inr ds \<Rightarrow> uniform_kind ds \<and> sorted (map dt_rank ds))"

definition entry_wf :: "cache_entry \<Rightarrow> bool" where
  "entry_wf c \<longleftrightarrow>
     (c_data c \<noteq> None \<longrightarrow> last_fetch c \<noteq> None) \<and>
     (case c_data c of None \<Rightarrow> True | Some items \<Rightarrow> stored_ok items)"

definition cache_wf :: "api_cache \<Rightarrow> bool" where
  "cache_wf st \<longleftrightarrow> (\<forall>c\<in>ran st. entry_wf c)"

declare entry_wf_def [wf_simps] cache_wf_def [wf_simps]

section \<open>Lemmas\<close>

lemma price_keys_simps [py_simps]:
  "VAT_KEY = ''PriceWithTax''"
  "price_key_to_use ''VAT'' = ''PriceWithTax''"
  "price_key_to_use ''NO_VAT'' = ''PriceNoTax''"
  by (simp_all add: VAT_KEY_def price_key_to_use_def get_price_keys_def)

lemma price_key_to_use_cases:
  "price_key_to_use t \<in> {''PriceWithTax'', ''PriceNoTax''}"
  by (auto simp: price_key_to_use_def get_price_keys_def VAT_KEY_def split: option.splits if_splits)

lemma empty_entry_wf [simp]: "entry_wf empty_entry"
  by (simp add: entry_wf_def empty_entry_def data_truthy_def)

lemma get_cache_data_existing [simp]:
  "st region = Some c \<Longrightarrow> get_cache_data region st = (c, st)"
  by (simp add: get_cache_data_def)

lemma get_cache_data_new [simp]:
  "st region = None \<Longrightarrow> get_cache_data region st = (empty_entry, st(region \<mapsto> empty_entry))"
  by (simp add: get_cache_data_def)

lemma get_cache_data_lookup:
  "get_cache_data region st = (c, st') \<Longrightarrow> st' region = Some c"
  by (auto simp: get_cache_data_def split: option.splits)

lemma get_cache_data_other:
  "get_cache_data region st = (c, st') \<Longrightarrow> r \<noteq> region \<Longrightarrow> st' r = st r"
  by (auto simp: get_cache_data_def split: option.splits)

lemma cache_wf_update:
  "cache_wf st \<Longrightarrow> entry_wf c \<Longrightarrow> cache_wf (st(r \<mapsto> c))"
  by (auto simp: cache_wf_def ran_def)

lemma cache_wf_entry:
  "cache_wf st \<Longrightarrow> st r = Some c \<Longrightarrow> entry_wf c"
  by (auto simp: cache_wf_def ran_def)

lemma get_cache_data_wf:
  "cache_wf st \<Longrightarrow> get_cache_data region st = (c, st') \<Longrightarrow> cache_wf st' \<and> entry_wf c"
  by (cases "st region") (auto simp: cache_wf_update cache_wf_entry)

lemma item_keys_Inr_length:
  "item_keys its = Inr ds \<Longrightarrow> length ds = length its"
  by (induction its arbitrary: ds) (auto split: sum.splits)

lemma item_datetime_JObj:
  "item_datetime it = Inr d \<Longrightarrow> \<exists>kvs. it = JObj kvs \<and> kvs \<noteq> []"
  by (cases it) (auto simp: item_datetime_def obj_lookup_def split: option.splits)

lemma item_keys_Inr_all:
  "item_keys its = Inr ds \<Longrightarrow> it \<in> set its \<Longrightarrow> \<exists>d. item_datetime it = Inr d"
  by (induction its arbitrary: ds) (auto split: sum.splits)

lemma stored_ok_JObj:
  "stored_ok items \<Longrightarrow> it \<in> set items \<Longrightarrow> \<exists>kvs. it = JObj kvs \<and> kvs \<noteq> []"
  by (auto simp: stored_ok_def split: sum.splits dest: item_keys_Inr_all item_datetime_JObj)

lemma item_keys_Inr_nth:
  "item_keys its = Inr ds \<Longrightarrow> i < length its \<Longrightarrow> item_datetime (its ! i) = Inr (ds ! i)"
proof (induction its arbitrary: ds i)
  case Nil
  then show ?case by simp
next
  case (Cons it its)
  then show ?case
    by (cases i) (auto split: sum.splits)
qed

end
