(* ===== verification/Refresh.thy ===== *)
theory Refresh
  imports Store
begin

text \<open>
  The refresh decision at the head of \<open>SpotHintaAPI.fetch_data\<close>
  (\<^verbatim>\<open>spothinta_api.py\<close>, lines 134--161): whether a call goes to the network or is
  served from the cache. The provider publishes the next day's prices in the afternoon,
  Finnish time; the code allows one request per region after 14:30 Helsinki time each
  day, and one on the first call of every new Helsinki day. Helsinki time is
  \<open>fi_offset\<close> of the time-zone environment (pytz's \<open>Europe/Helsinki\<close>).
\<close>

section \<open>Helsinki wall clock\<close>

definition NEW_DATA_HOUR :: int where
  "NEW_DATA_HOUR = 14"

definition NEW_DATA_MINUTE :: int where
  "NEW_DATA_MINUTE = 30"

text \<open>Microseconds from local midnight to 14:30.\<close>

definition cutover :: int where
  "cutover = (NEW_DATA_HOUR * 3600 + NEW_DATA_MINUTE * 60) * usec_per_sec"

text \<open>\<open>t.astimezone(FINNISH_TIMEZONE)\<close> read as a wall clock, its \<open>.date()\<close> (days
  since 1970-01-01) and its time of day.\<close>

definition fi_wall :: "tzenv \<Rightarrow> instant \<Rightarrow> wall" where
  "fi_wall e t = t + fi_offset e t"

definition fi_date :: "tzenv \<Rightarrow> instant \<Rightarrow> int" where
  "fi_date e t = fi_wall e t div day_usec"

definition fi_tod :: "tzenv \<Rightarrow> instant \<Rightarrow> int" where
  "fi_tod e t = fi_wall e t mod day_usec"

text \<open>
  \<open>now_fi.replace(hour=14, minute=30, second=0, microsecond=0)\<close>: the wall clock of
  today 14:30 with the tzinfo (so the UTC offset) of \<open>now_fi\<close>, as an instant. Aware
  datetimes compare as instants, so this is what \<open>last_fetch_fi < fetch_time_today_fi\<close>
  and \<open>now_fi >= fetch_time_today_fi\<close> compare against.
\<close>

definition fetch_time_today :: "tzenv \<Rightarrow> instant \<Rightarrow> instant" where
  "fetch_time_today e now = fi_date e now * day_usec + cutover - fi_offset e now"

text \<open>Lines 145--159: \<open>(is_stale and is_past_fetch_time) or (last_fetch_fi.date() <
  now_fi.date())\<close>.\<close>

definition refresh_due :: "tzenv \<Rightarrow> instant \<Rightarrow> instant \<Rightarrow> bool" where
  "refresh_due e lf now =
     (let ft = fetch_time_today e now;
          is_stale = lf < ft;
          is_past_fetch_time = ft \<le> now
      in (is_stale \<and> is_past_fetch_time) \<or> fi_date e lf < fi_date e now)"

text \<open>Lines 134--161: \<open>fetch_needed\<close> starts as \<open>force_update\<close>; without it, a region with no
  data (\<open>None\<close> or an empty list) is fetched, and otherwise a region with a last-fetch time
  is fetched when the refresh is due.\<close>

definition fetch_needed :: "tzenv \<Rightarrow> bool \<Rightarrow> cache_entry \<Rightarrow> instant \<Rightarrow> bool" where
  "fetch_needed e force c now =
     (if force then True
      else if \<not> data_truthy (c_data c) then True
      else (case last_fetch c of None \<Rightarrow> False | Some l \<Rightarrow> refresh_due e l now))"

section \<open>Regular time zones\<close>

text \<open>
  What the lemmas below need of the Helsinki zone: the local date never goes back as time
  goes on, and the UTC offset does not change between 14:30 and the end of a local day.
  Europe/Helsinki has both: its offset changes at 03:00/04:00 local time, never across
  midnight and never in the afternoon.
\<close>

definition tz_regular :: "tzenv \<Rightarrow> bool" where
  "tz_regular e \<longleftrightarrow>
     (\<forall>x y. x \<le> y \<longrightarrow> fi_date e x \<le> fi_date e y) \<and>
     (\<forall>x y. x \<le> y \<longrightarrow> fi_date e x = fi_date e y \<longrightarrow> cutover \<le> fi_tod e x \<longrightarrow>
        fi_offset e x = fi_offset e y)"

section \<open>Lemmas\<close>

lemma cutover_val [py_simps]: "cutover = 52200000000"
  by (simp add: cutover_def NEW_DATA_HOUR_def NEW_DATA_MINUTE_def usec_per_sec_def)

lemma cutover_bounds: "0 \<le> cutover" "cutover < day_usec"
  by (simp_all add: cutover_val day_usec_val)

lemma fi_wall_split: "fi_wall e t = fi_date e t * day_usec + fi_tod e t"
  by (simp add: fi_date_def fi_tod_def)

text \<open>The instant compared with today's 14:30 is before it exactly when its local time
  of day is before 14:30.\<close>

lemma before_fetch_time_iff:
  "now < fetch_time_today e now \<longleftrightarrow> fi_tod e now < cutover"
proof -
  have "now < fetch_time_today e now \<longleftrightarrow> fi_wall e now < fi_date e now * day_usec + cutover"
    unfolding fetch_time_today_def fi_wall_def by linarith
  also have "\<dots> \<longleftrightarrow> fi_tod e now < cutover"
    by (simp add: fi_wall_split)
  finally show ?thesis .
qed

text \<open>An instant of the same local day and the same offset is before today's 14:30
  exactly when its local time of day is.\<close>

lemma stale_same_day_iff:
  assumes "fi_date e lf = fi_date e now" and "fi_offset e lf = fi_offset e now"
  shows "lf < fetch_time_today e now \<longleftrightarrow> fi_tod e lf < cutover"
proof -
  have "lf < fetch_time_today e now \<longleftrightarrow> fi_wall e lf < fi_date e now * day_usec + cutover"
    using assms(2) unfolding fetch_time_today_def fi_wall_def by linarith
  also have "\<dots> \<longleftrightarrow> fi_tod e lf < cutover"
    using assms(1) by (simp add: fi_wall_split)
  finally show ?thesis .
qed

lemma fi_tod_bounds: "0 \<le> fi_tod e t" "fi_tod e t < day_usec"
  by (simp_all add: fi_tod_def)

lemma fi_date_le_of_le_regular:
  "tz_regular e \<Longrightarrow> x \<le> y \<Longrightarrow> fi_date e x \<le> fi_date e y"
  by (simp add: tz_regular_def)

lemma fi_offset_eq_regular:
  "tz_regular e \<Longrightarrow> x \<le> y \<Longrightarrow> fi_date e x = fi_date e y \<Longrightarrow> cutover \<le> fi_tod e x \<Longrightarrow>
   fi_offset e x = fi_offset e y"
  by (simp add: tz_regular_def)

lemma fixed_offset_tz_regular: "tz_regular (fixed_offset_tz off)"
  unfolding tz_regular_def fi_date_def fi_wall_def
  by (auto intro: zdiv_mono1)

lemma fetch_needed_force [simp]: "fetch_needed e True c now"
  by (simp add: fetch_needed_def)

lemma fetch_needed_no_data:
  "\<not> data_truthy (c_data c) \<Longrightarrow> fetch_needed e force c now"
  by (simp add: fetch_needed_def)

lemma fetch_needed_with_data:
  "data_truthy (c_data c) \<Longrightarrow> last_fetch c = Some l \<Longrightarrow>
   fetch_needed e force c now \<longleftrightarrow> force \<or> refresh_due e l now"
  by (simp add: fetch_needed_def)

section \<open>Properties of the refresh decision\<close>

text \<open>
  C5. Within one Helsinki day (and one UTC offset), a region last fetched at \<open>lf\<close> is
  due for a refresh at \<open>now\<close> exactly when the last fetch was before 14:30 and \<open>now\<close> is
  at or after 14:30. So calls before the cutover are served from the cache, the first
  call at or after it goes to the network, and after a fetch made at or after 14:30 no
  call of the same day does.
\<close>

theorem refresh_due_same_day_iff:
  assumes "fi_date e lf = fi_date e now" and "fi_offset e lf = fi_offset e now"
  shows "refresh_due e lf now \<longleftrightarrow> fi_tod e lf < cutover \<and> cutover \<le> fi_tod e now"
  using assms stale_same_day_iff [OF assms] before_fetch_time_iff [of now e]
  by (auto simp: refresh_due_def Let_def)

theorem refresh_due_same_day_iff_witness:
  "fi_date (fixed_offset_tz 7200000000) 1709625600000000 = fi_date (fixed_offset_tz 7200000000) 1709643600000000 \<and>
   fi_offset (fixed_offset_tz 7200000000) 1709625600000000 = fi_offset (fixed_offset_tz 7200000000) 1709643600000000 \<and>
   refresh_due (fixed_offset_tz 7200000000) 1709625600000000 1709643600000000"
proof -
  have d: "fi_date (fixed_offset_tz 7200000000) 1709625600000000 = fi_date (fixed_offset_tz 7200000000) 1709643600000000"
    by (simp add: fi_date_def fi_wall_def day_usec_val)
  have o: "fi_offset (fixed_offset_tz 7200000000) 1709625600000000 = fi_offset (fixed_offset_tz 7200000000) 1709643600000000"
    by simp
  have t: "fi_tod (fixed_offset_tz 7200000000) 1709625600000000 < cutover \<and> cutover \<le> fi_tod (fixed_offset_tz 7200000000) 1709643600000000"
    by (simp add: fi_tod_def fi_wall_def day_usec_val cutover_val)
  show ?thesis using d o t refresh_due_same_day_iff [OF d o] by simp
qed

text \<open>
  C6. Calendar rollover: a region with data whose last fetch was on an earlier Helsinki day
  than \<open>now\<close> is fetched, whatever the time of day (also before 14:30). This departs
  from the repository's comments (sensor.py lines 74--77, spothinta_api.py lines 31--33),
  which say the cache serves every call until 14:30 of the next day: the code fetches a
  region again on the first call after Helsinki midnight.
\<close>

theorem fetch_needed_next_day:
  assumes "data_truthy (c_data c)" and "last_fetch c = Some lf" and "fi_date e lf < fi_date e now"
  shows "fetch_needed e force c now"
  using assms by (simp add: fetch_needed_def refresh_due_def)

theorem fetch_needed_next_day_witness:
  "fetch_needed (fixed_offset_tz 7200000000) False
     \<lparr>c_data = Some [JNull], last_fetch = Some 1709643600000000, min_price = None, max_price = None,
      current_price = None, last_refresh_utc = None\<rparr> 1709690400000000"
  by (rule fetch_needed_next_day [where lf = 1709643600000000])
     (simp_all add: data_truthy_def fi_date_def fi_wall_def day_usec_val)

text \<open>
  C7. Once due, a refresh stays due: if the last fetch \<open>lf\<close> precedes \<open>now\<close> and the
  refresh is due at \<open>now\<close>, it is due at every later \<open>now'\<close>, until a successful fetch
  replaces \<open>lf\<close>. A failed request is therefore retried on every later call.
\<close>

theorem refresh_due_stays_due:
  assumes reg: "tz_regular e" and "lf \<le> now" and "now \<le> now'" and due: "refresh_due e lf now"
  shows "refresh_due e lf now'"
proof -
  have dl: "fi_date e lf \<le> fi_date e now" and dn: "fi_date e now \<le> fi_date e now'"
    using assms by (simp_all add: fi_date_le_of_le_regular)
  consider (rolled) "fi_date e lf < fi_date e now"
    | (stale) "lf < fetch_time_today e now" "fetch_time_today e now \<le> now"
    using due by (auto simp: refresh_due_def Let_def)
  then show ?thesis
  proof cases
    case rolled
    with dn show ?thesis by (simp add: refresh_due_def)
  next
    case stale
    show ?thesis
    proof (cases "fi_date e now < fi_date e now'")
      case True
      with dl show ?thesis by (simp add: refresh_due_def)
    next
      case False
      with dn have same: "fi_date e now = fi_date e now'" by simp
      from stale(2) have "cutover \<le> fi_tod e now"
        using before_fetch_time_iff [of now e] by simp
      with reg \<open>now \<le> now'\<close> same have "fi_offset e now = fi_offset e now'"
        by (rule fi_offset_eq_regular)
      with same have "fetch_time_today e now' = fetch_time_today e now"
        by (simp add: fetch_time_today_def)
      with stale \<open>now \<le> now'\<close> show ?thesis
        by (simp add: refresh_due_def Let_def)
    qed
  qed
qed

end
