(* ===== verification/Resolver.thy ===== *)
theory Resolver
  imports Store
begin

text \<open>
  \<open>SpotHintaAPI.calculate_current_price\<close> (\<^verbatim>\<open>spothinta_api.py\<close>, lines 69--120): the
  price in force at a given time, read from the cached series of one region. The code
  walks the records in order, keeps overwriting a candidate price while the record's
  timestamp is at or before \<open>now\<close>, and stops at the first later record; when that leaves
  no price, it falls back to the last record of the series. The abstract specification
  \<open>resolve_spec\<close> states the same answer declaratively (the last point at or before
  \<open>now\<close>, else the last point), and \<open>calculate_current_price_refines\<close> shows that the code
  computes it on every well-formed sorted series.
\<close>

section \<open>The code\<close>

text \<open>
  The loop of lines 90--105, from the candidate \<open>current_price\<close> it has so far. Every
  exception in the body is caught and logged and the loop goes on with the next record
  (\<open>except Exception\<close>): a record whose timestamp cannot be read is skipped, and a
  price that \<open>float()\<close> rejects leaves the candidate as it was. A record after \<open>now\<close>
  ends the loop (\<open>break\<close>).
\<close>

fun scan_prices :: "tzenv \<Rightarrow> string \<Rightarrow> instant \<Rightarrow> json list \<Rightarrow> rat option \<Rightarrow> rat option" where
  "scan_prices e key now [] cur = cur"
| "scan_prices e key now (it # its) cur =
     (case item_datetime it of
        Inl ex \<Rightarrow> scan_prices e key now its cur
      | Inr d \<Rightarrow>
          (if dt_utc e d \<le> now then
             (case py_get it key of
                Inl ex \<Rightarrow> scan_prices e key now its cur
              | Inr None \<Rightarrow> scan_prices e key now its None
              | Inr (Some v) \<Rightarrow>
                  (case py_float v of
                     Inl ex \<Rightarrow> scan_prices e key now its cur
                   | Inr r \<Rightarrow> scan_prices e key now its (Some r)))
           else cur))"

text \<open>
  Lines 108--118, reached with a non-empty series: the last record, if truthy, and its
  price field. \<open>last_item.get\<close> raises \<open>AttributeError\<close> on a record that is not a
  dict, and only \<open>ValueError\<close> of \<open>float()\<close> is caught; both other exceptions leave
  \<open>calculate_current_price\<close>.
\<close>

definition fallback_price :: "string \<Rightarrow> json list \<Rightarrow> pyexc + rat option" where
  "fallback_price key data =
     (let last_item = last data in
      if \<not> py_truthy last_item then Inr None
      else (case py_get last_item key of
              Inl ex \<Rightarrow> Inl ex
            | Inr None \<Rightarrow> Inr None
            | Inr (Some v) \<Rightarrow>
                (case py_float v of
                   Inr r \<Rightarrow> Inr (Some r)
                 | Inl ex \<Rightarrow> (if ex = ValueError then Inr None else Inl ex))))"

text \<open>
  The whole method: the price key for the price type (an unknown type reads the VAT
  price), the region's dict (created if absent, line 79), \<open>None\<close> when there is no data,
  otherwise the scan from \<open>now_dt.astimezone(utc)\<close> and the fallback. The result is the
  returned value or the exception that leaves the method, with the cache after the call.
  The \<open>price_resolution\<close> argument is not used by the code.
\<close>

definition calculate_current_price ::
  "tzenv \<Rightarrow> string \<Rightarrow> nat \<Rightarrow> string \<Rightarrow> pydt \<Rightarrow> api_cache \<Rightarrow> (pyexc + rat option) \<times> api_cache" where
  "calculate_current_price e region price_resolution price_type now_dt st =
     (let key = price_key_to_use price_type;
          (c, st') = get_cache_data region st
      in case c_data c of
           None \<Rightarrow> (Inr None, st')
         | Some data \<Rightarrow>
             (if data = [] then (Inr None, st')
              else (case scan_prices e key (dt_utc e now_dt) data None of
                      Some p \<Rightarrow> (Inr (Some p), st')
                    | None \<Rightarrow> (fallback_price key data, st'))))"

section \<open>The specification\<close>

text \<open>
  A series as the specification sees it: points of a time and an optional price. The
  answer at \<open>now\<close> is the price of the last point at or before \<open>now\<close>; if there is no
  such point or it has no price, the price of the last point of the series.
\<close>

definition resolve_spec :: "(instant \<times> 'v option) list \<Rightarrow> instant \<Rightarrow> 'v option" where
  "resolve_spec ps now =
     (if ps = [] then None
      else (case (case filter (\<lambda>p. fst p \<le> now) ps of [] \<Rightarrow> None | cs \<Rightarrow> snd (last cs)) of
              Some v \<Rightarrow> Some v
            | None \<Rightarrow> snd (last ps)))"

text \<open>The abstraction of a record: its UTC time and its price under a key, \<open>None\<close> when
  the field is absent, \<open>null\<close> or not a number.\<close>

definition item_price :: "string \<Rightarrow> json \<Rightarrow> rat option" where
  "item_price key it =
     (case py_get it key of
        Inr (Some v) \<Rightarrow> (case py_float v of Inr r \<Rightarrow> Some r | Inl ex \<Rightarrow> None)
      | _ \<Rightarrow> None)"

definition item_time :: "tzenv \<Rightarrow> json \<Rightarrow> instant" where
  "item_time e it = (case item_datetime it of Inr d \<Rightarrow> dt_utc e d | Inl ex \<Rightarrow> 0)"

definition item_point :: "tzenv \<Rightarrow> string \<Rightarrow> json \<Rightarrow> instant \<times> rat option" where
  "item_point e key it = (item_time e it, item_price key it)"

text \<open>A clean record: its timestamp reads, and its price field is absent, \<open>null\<close>, or a
  value \<open>float()\<close> accepts.\<close>

definition item_clean :: "string \<Rightarrow> json \<Rightarrow> bool" where
  "item_clean key it \<longleftrightarrow>
     (case item_datetime it of Inl ex \<Rightarrow> False | Inr d \<Rightarrow> True) \<and>
     (case py_get it key of Inr (Some v) \<Rightarrow> (case py_float v of Inl ex \<Rightarrow> False | Inr r \<Rightarrow> True) | _ \<Rightarrow> True)"

section \<open>Example series\<close>

text \<open>
  The series of the specification's examples, as the provider sends them: hourly records
  of 2024-03-05 in Helsinki winter time (UTC+2) with both price fields, and two
  variants, one with a \<open>null\<close> VAT price at 11:00 and one with a non-numeric VAT price at
  11:00. The cache holds one region, \<open>FI\<close>, with a given series.
\<close>

definition helsinki_winter :: tzenv where
  "helsinki_winter = fixed_offset_tz 7200000000"

definition example_record :: "string \<Rightarrow> json \<Rightarrow> json \<Rightarrow> json" where
  "example_record t vat novat = JObj [(''DateTime'', JStr t), (''PriceWithTax'', vat), (''PriceNoTax'', novat)]"

definition example_series :: "json list" where
  "example_series =
     [example_record ''2024-03-05T10:00:00+02:00'' (JNum 5) (JNum 4),
      example_record ''2024-03-05T11:00:00+02:00'' (JNum 7) (JNum 6),
      example_record ''2024-03-05T12:00:00+02:00'' (JNum 9) (JNum 8)]"

definition example_series_gap :: "json list" where
  "example_series_gap =
     [example_record ''2024-03-05T10:00:00+02:00'' (JNum 5) (JNum 4),
      example_record ''2024-03-05T11:00:00+02:00'' JNull (JNum 6),
      example_record ''2024-03-05T12:00:00+02:00'' (JNum 9) (JNum 8)]"

definition example_series_bad :: "json list" where
  "example_series_bad =
     [example_record ''2024-03-05T10:00:00+02:00'' (JNum 5) (JNum 4),
      example_record ''2024-03-05T11:00:00+02:00'' (JStr ''n/a'') (JNum 6)]"

definition example_cache :: "json list \<Rightarrow> api_cache" where
  "example_cache ser = [''FI'' \<mapsto> empty_entry\<lparr>c_data := Some ser, last_fetch := Some 1709596800000000\<rparr>]"

text \<open>A naive local reading of 11:30 that day, as the sensor passes it.\<close>

definition at_1130 :: pydt where "at_1130 = Naive 1709638200000000"

lemmas example_simps =
  helsinki_winter_def example_record_def example_series_def example_series_gap_def
  example_series_bad_def example_cache_def at_1130_def

section \<open>Lemmas\<close>

lemma item_clean_cases:
  assumes "item_clean key it"
  obtains kvs d where "it = JObj kvs" "kvs \<noteq> []" "item_datetime it = Inr d"
    "py_get it key = Inr None \<or> (\<exists>v r. py_get it key = Inr (Some v) \<and> py_float v = Inr r)"
proof -
  obtain d where d: "item_datetime it = Inr d"
    using assms by (auto simp: item_clean_def split: sum.splits)
  then obtain v where "py_subscript it ''DateTime'' = Inr v"
    by (auto simp: item_datetime_def split: sum.splits)
  then obtain kvs where kvs: "it = JObj kvs" "obj_lookup kvs ''DateTime'' = Some v"
    by (auto simp: py_subscript_Inr_iff)
  then have "kvs \<noteq> []" by (auto simp: obj_lookup_def)
  moreover have "py_get it key = Inr None \<or> (\<exists>v r. py_get it key = Inr (Some v) \<and> py_float v = Inr r)"
    using assms kvs by (auto simp: item_clean_def split: option.splits sum.splits json.splits)
  ultimately show ?thesis using that kvs d by blast
qed

lemma item_price_clean:
  "item_clean key it \<Longrightarrow> py_get it key = Inr None \<Longrightarrow> item_price key it = None"
  "item_clean key it \<Longrightarrow> py_get it key = Inr (Some v) \<Longrightarrow> py_float v = Inr r \<Longrightarrow> item_price key it = Some r"
  by (simp_all add: item_price_def)

text \<open>On clean records the loop computes the price of the last point of the prefix of
  points at or before \<open>now\<close>, or keeps the candidate it started from if that prefix is
  empty.\<close>

lemma scan_prices_clean:
  "list_all (item_clean key) its \<Longrightarrow>
   scan_prices e key now its cur =
     (case takeWhile (\<lambda>p. fst p \<le> now) (map (item_point e key) its) of
        [] \<Rightarrow> cur
      | cs \<Rightarrow> snd (last cs))"
proof (induction its arbitrary: cur)
  case Nil
  then show ?case by simp
next
  case (Cons it its)
  from Cons.prems have clean: "item_clean key it" and rest: "list_all (item_clean key) its"
    by simp_all
  from clean obtain kvs d where it: "it = JObj kvs" "item_datetime it = Inr d"
    and price: "py_get it key = Inr None \<or> (\<exists>v r. py_get it key = Inr (Some v) \<and> py_float v = Inr r)"
    by (rule item_clean_cases)
  have t: "item_time e it = dt_utc e d"
    using it by (simp add: item_time_def)
  have step: "dt_utc e d \<le> now \<Longrightarrow>
      scan_prices e key now (it # its) cur = scan_prices e key now its (item_price key it)"
    using it price by (auto simp: item_price_def)
  show ?case
  proof (cases "dt_utc e d \<le> now")
    case True
    then show ?thesis
      using step Cons.IH [OF rest, of "item_price key it"] t
      by (auto simp: item_point_def split: list.splits)
  next
    case False
    then show ?thesis using it t by (simp add: item_point_def)
  qed
qed

lemma fallback_price_clean:
  "data \<noteq> [] \<Longrightarrow> item_clean key (last data) \<Longrightarrow>
   fallback_price key data = Inr (item_price key (last data))"
  by (erule item_clean_cases [of key "last data"])
     (auto simp: fallback_price_def item_price_def)

lemma snd_last_map: "xs \<noteq> [] \<Longrightarrow> snd (last (map f xs)) = snd (f (last xs))"
  by (simp add: last_map)

text \<open>The frame of the method: it creates the region's dict when it is missing and
  changes nothing else.\<close>

lemma calculate_current_price_state:
  "snd (calculate_current_price e region res pt now_dt st) = snd (get_cache_data region st)"
  by (auto simp: calculate_current_price_def Let_def split: prod.splits option.splits)

lemma calculate_current_price_wf:
  "cache_wf st \<Longrightarrow> cache_wf (snd (calculate_current_price e region res pt now_dt st))"
  by (metis calculate_current_price_state get_cache_data_wf prod.exhaust_sel)

section \<open>Properties of the resolver\<close>

text \<open>The scan over records at or before \<open>now\<close> (or unreadable) runs to their end, and
  a first record after \<open>now\<close> ends it.\<close>

lemma scan_prices_prefix:
  "\<forall>x\<in>set xs. \<forall>d. item_datetime x = Inr d \<longrightarrow> dt_utc e d \<le> now \<Longrightarrow>
   scan_prices e key now (xs @ zs) cur = scan_prices e key now zs (scan_prices e key now xs cur)"
proof (induction xs arbitrary: cur)
  case Nil
  then show ?case by simp
next
  case (Cons x xs)
  then show ?case by (auto split: sum.splits option.splits)
qed

lemma scan_prices_after:
  "\<forall>y\<in>set ys. \<exists>d'. item_datetime y = Inr d' \<and> now < dt_utc e d' \<Longrightarrow> scan_prices e key now ys cur = cur"
  by (cases ys) auto

text \<open>
  C1. Refinement: on a cached series whose records are clean (readable timestamp, price
  absent, \<open>null\<close> or numeric) and in ascending UTC order, \<open>calculate_current_price\<close>
  returns the specification's answer: the price of the last point at or before
  \<open>now\<close>, or, when there is none or it has no price, the price of the last point.
\<close>

theorem calculate_current_price_refines:
  assumes "st region = Some c" and "c_data c = Some data"
    and "list_all (item_clean (price_key_to_use pt)) data"
    and "sorted (map (item_time e) data)"
  shows "fst (calculate_current_price e region res pt now_dt st) =
         Inr (resolve_spec (map (item_point e (price_key_to_use pt)) data) (dt_utc e now_dt))"
proof -
  let ?key = "price_key_to_use pt" and ?now = "dt_utc e now_dt"
  let ?ps = "map (item_point e ?key) data"
  have "sorted (map fst ?ps)"
    using assms(4) by (simp add: item_point_def comp_def)
  then have "takeWhile (\<lambda>p. fst p \<le> ?now) ?ps = filter (\<lambda>p. fst p \<le> ?now) ?ps"
    by (rule takeWhile_le_eq_filter)
  then have scan: "scan_prices e ?key ?now data None =
      (case filter (\<lambda>p. fst p \<le> ?now) ?ps of [] \<Rightarrow> None | cs \<Rightarrow> snd (last cs))"
    using scan_prices_clean [OF assms(3)] by simp
  show ?thesis
  proof (cases "data = []")
    case True
    with assms(1,2) show ?thesis
      by (simp add: calculate_current_price_def resolve_spec_def)
  next
    case False
    then have "item_clean ?key (last data)"
      using assms(3) by (simp add: list_all_iff)
    with False have fb: "fallback_price ?key data = Inr (snd (last ?ps))"
      by (simp add: fallback_price_clean last_map item_point_def)
    show ?thesis
      using False assms(1,2) scan fb
      by (auto simp: calculate_current_price_def resolve_spec_def split: option.splits)
  qed
qed

theorem calculate_current_price_refines_witness:
  "example_cache example_series ''FI'' = Some (empty_entry\<lparr>c_data := Some example_series, last_fetch := Some 1709596800000000\<rparr>) \<and>
   list_all (item_clean (price_key_to_use ''VAT'')) example_series \<and>
   sorted (map (item_time helsinki_winter) example_series) \<and>
   fst (calculate_current_price helsinki_winter ''FI'' 15 ''VAT'' at_1130 (example_cache example_series)) =
   Inr (resolve_spec (map (item_point helsinki_winter (price_key_to_use ''VAT'')) example_series)
          (dt_utc helsinki_winter at_1130))"
proof -
  have st: "example_cache example_series ''FI'' = Some (empty_entry\<lparr>c_data := Some example_series, last_fetch := Some 1709596800000000\<rparr>)"
    by (simp add: example_cache_def)
  have clean: "list_all (item_clean (price_key_to_use ''VAT'')) example_series"
    by (simp add: example_simps item_clean_def item_datetime_def py_simps)
  have sorted: "sorted (map (item_time helsinki_winter) example_series)"
    by (simp add: example_simps item_time_def item_datetime_def py_simps)
  have cd: "c_data (empty_entry\<lparr>c_data := Some example_series, last_fetch := Some 1709596800000000\<rparr>) = Some example_series"
    by simp
  show ?thesis
    using st clean sorted calculate_current_price_refines [where st = "example_cache example_series" and region = "''FI''", OF st cd clean sorted] by simp
qed

text \<open>
  C13. Fallback on a missing price, for any series: when the record in force (the last
  record at or before \<open>now\<close>, every later record being after it) has \<open>null\<close> at the price
  key, the loop's candidate is reset and the answer is the fallback, the last record of
  the whole series, whatever prices the earlier records had.
\<close>

theorem calculate_current_price_null_falls_back_to_last:
  assumes "st region = Some c" and "c_data c = Some (xs @ it # ys)"
    and "\<forall>x\<in>set xs. \<forall>d. item_datetime x = Inr d \<longrightarrow> dt_utc e d \<le> dt_utc e now_dt"
    and "item_datetime it = Inr d" and "dt_utc e d \<le> dt_utc e now_dt"
    and "py_get it (price_key_to_use pt) = Inr None"
    and "\<forall>y\<in>set ys. \<exists>d'. item_datetime y = Inr d' \<and> dt_utc e now_dt < dt_utc e d'"
  shows "fst (calculate_current_price e region res pt now_dt st) = fallback_price (price_key_to_use pt) (xs @ it # ys)"
proof -
  let ?k = "price_key_to_use pt" and ?n = "dt_utc e now_dt"
  have "scan_prices e ?k ?n (xs @ it # ys) None = scan_prices e ?k ?n (it # ys) (scan_prices e ?k ?n xs None)"
    using assms(3) by (rule scan_prices_prefix)
  also have "\<dots> = None" using assms(4-7) by (simp add: scan_prices_after)
  finally show ?thesis using assms(1,2) by (simp add: calculate_current_price_def)
qed

theorem calculate_current_price_null_falls_back_to_last_witness:
  "example_cache example_series_gap ''FI'' =
     Some (empty_entry\<lparr>c_data := Some example_series_gap, last_fetch := Some 1709596800000000\<rparr>) \<and>
   fst (calculate_current_price helsinki_winter ''FI'' 15 ''VAT'' at_1130 (example_cache example_series_gap)) = Inr (Some 9)"
proof -
  let ?c = "empty_entry\<lparr>c_data := Some example_series_gap, last_fetch := Some 1709596800000000\<rparr>"
  let ?r = "example_record ''2024-03-05T11:00:00+02:00'' JNull (JNum 6)"
  have st: "example_cache example_series_gap ''FI'' = Some ?c" by (simp add: example_cache_def)
  have cd: "c_data ?c = Some ([example_record ''2024-03-05T10:00:00+02:00'' (JNum 5) (JNum 4)] @ ?r #
                               [example_record ''2024-03-05T12:00:00+02:00'' (JNum 9) (JNum 8)])"
    by (simp add: example_series_gap_def)
  have xs: "\<forall>x\<in>set [example_record ''2024-03-05T10:00:00+02:00'' (JNum 5) (JNum 4)].
      \<forall>d. item_datetime x = Inr d \<longrightarrow> dt_utc helsinki_winter d \<le> dt_utc helsinki_winter at_1130"
    by (simp add: example_simps item_datetime_def py_simps)
  have it: "item_datetime ?r = Inr (Aware 1709636400000000 7200000000)"
    by (simp add: example_simps item_datetime_def py_simps)
  have le: "dt_utc helsinki_winter (Aware 1709636400000000 7200000000) \<le> dt_utc helsinki_winter at_1130"
    by (simp add: example_simps)
  have nl: "py_get ?r (price_key_to_use ''VAT'') = Inr None" by (simp add: example_simps py_simps)
  have ys: "\<forall>y\<in>set [example_record ''2024-03-05T12:00:00+02:00'' (JNum 9) (JNum 8)].
      \<exists>d'. item_datetime y = Inr d' \<and> dt_utc helsinki_winter at_1130 < dt_utc helsinki_winter d'"
    by (simp add: example_simps item_datetime_def py_simps)
  have "fallback_price (price_key_to_use ''VAT'') ([example_record ''2024-03-05T10:00:00+02:00'' (JNum 5) (JNum 4)] @ ?r #
          [example_record ''2024-03-05T12:00:00+02:00'' (JNum 9) (JNum 8)]) = Inr (Some 9)"
    by (simp add: fallback_price_def example_simps py_simps)
  then show ?thesis
    using st calculate_current_price_null_falls_back_to_last [where st = "example_cache example_series_gap"
      and region = "''FI''" and xs = "[example_record ''2024-03-05T10:00:00+02:00'' (JNum 5) (JNum 4)]" and it = ?r
      and ys = "[example_record ''2024-03-05T12:00:00+02:00'' (JNum 9) (JNum 8)]" and e = helsinki_winter
      and now_dt = at_1130 and pt = "''VAT''", OF st cd xs it le nl ys, of 15] by simp
qed

text \<open>
  C14. A price that \<open>float()\<close> rejects does not count as absent, for any series: when the
  record in force has a value that \<open>float()\<close> rejects with \<open>ValueError\<close>, the exception
  is caught inside the loop before the candidate is assigned, so the answer is the price
  of the earlier records' scan (the previous record's price), and the fallback only when
  they gave none. The specification treats a malformed value as absent, which, as C13
  shows for \<open>null\<close>, leads to the fallback instead.
\<close>

theorem calculate_current_price_bad_value_keeps_previous:
  assumes "st region = Some c" and "c_data c = Some (xs @ it # ys)"
    and "\<forall>x\<in>set xs. \<forall>d. item_datetime x = Inr d \<longrightarrow> dt_utc e d \<le> dt_utc e now_dt"
    and "item_datetime it = Inr d" and "dt_utc e d \<le> dt_utc e now_dt"
    and "py_get it (price_key_to_use pt) = Inr (Some v)" and "py_float v = Inl ValueError"
    and "\<forall>y\<in>set ys. \<exists>d'. item_datetime y = Inr d' \<and> dt_utc e now_dt < dt_utc e d'"
  shows "fst (calculate_current_price e region res pt now_dt st) =
           (case scan_prices e (price_key_to_use pt) (dt_utc e now_dt) xs None of
              Some p \<Rightarrow> Inr (Some p)
            | None \<Rightarrow> fallback_price (price_key_to_use pt) (xs @ it # ys))"
proof -
  let ?k = "price_key_to_use pt" and ?n = "dt_utc e now_dt"
  have "scan_prices e ?k ?n (xs @ it # ys) None = scan_prices e ?k ?n (it # ys) (scan_prices e ?k ?n xs None)"
    using assms(3) by (rule scan_prices_prefix)
  also have "\<dots> = scan_prices e ?k ?n xs None" using assms(4-8) by (simp add: scan_prices_after)
  finally show ?thesis using assms(1,2) by (simp add: calculate_current_price_def split: option.splits)
qed

theorem calculate_current_price_bad_value_keeps_previous_witness:
  "example_cache example_series_bad ''FI'' =
     Some (empty_entry\<lparr>c_data := Some example_series_bad, last_fetch := Some 1709596800000000\<rparr>) \<and>
   fst (calculate_current_price helsinki_winter ''FI'' 15 ''VAT'' at_1130 (example_cache example_series_bad)) = Inr (Some 5)"
proof -
  let ?c = "empty_entry\<lparr>c_data := Some example_series_bad, last_fetch := Some 1709596800000000\<rparr>"
  let ?x = "example_record ''2024-03-05T10:00:00+02:00'' (JNum 5) (JNum 4)"
  let ?r = "example_record ''2024-03-05T11:00:00+02:00'' (JStr ''n/a'') (JNum 6)"
  have st: "example_cache example_series_bad ''FI'' = Some ?c" by (simp add: example_cache_def)
  have cd: "c_data ?c = Some ([?x] @ ?r # [])" by (simp add: example_series_bad_def)
  have xs: "\<forall>x\<in>set [?x]. \<forall>d. item_datetime x = Inr d \<longrightarrow> dt_utc helsinki_winter d \<le> dt_utc helsinki_winter at_1130"
    by (simp add: example_simps item_datetime_def py_simps)
  have it: "item_datetime ?r = Inr (Aware 1709636400000000 7200000000)"
    by (simp add: example_simps item_datetime_def py_simps)
  have le: "dt_utc helsinki_winter (Aware 1709636400000000 7200000000) \<le> dt_utc helsinki_winter at_1130"
    by (simp add: example_simps)
  have g: "py_get ?r (price_key_to_use ''VAT'') = Inr (Some (JStr ''n/a''))" by (simp add: example_simps py_simps)
  have f: "py_float (JStr ''n/a'') = Inl ValueError" by (simp add: parse_decimal_def py_simps)
  have ys: "\<forall>y\<in>set ([]::json list). \<exists>d'. item_datetime y = Inr d' \<and> dt_utc helsinki_winter at_1130 < dt_utc helsinki_winter d'"
    by simp
  have "scan_prices helsinki_winter (price_key_to_use ''VAT'') (dt_utc helsinki_winter at_1130) [?x] None = Some 5"
    by (simp add: example_simps item_datetime_def py_simps)
  then show ?thesis
    using st calculate_current_price_bad_value_keeps_previous [where st = "example_cache example_series_bad"
      and region = "''FI''" and xs = "[?x]" and it = ?r and ys = "[]" and e = helsinki_winter
      and now_dt = at_1130 and pt = "''VAT''", OF st cd xs it le g f ys, of 15] by simp
qed

text \<open>
  C15. The only exception that leaves \<open>calculate_current_price\<close> on a well-formed cache
  is \<open>TypeError\<close>, raised by \<open>float()\<close> in the fallback when the last record's price is
  a list or an object (only \<open>ValueError\<close> is caught there).
\<close>

theorem calculate_current_price_raises_only_TypeError:
  assumes "cache_wf st" and "fst (calculate_current_price e region res pt now_dt st) = Inl ex"
  shows "ex = TypeError"
proof -
  obtain c st' where gc: "get_cache_data region st = (c, st')"
    by (cases "get_cache_data region st")
  then have wf: "entry_wf c"
    using assms(1) get_cache_data_wf by blast
  from assms(2) gc obtain data where data: "c_data c = Some data" "data \<noteq> []"
    and fb: "fallback_price (price_key_to_use pt) data = Inl ex"
    by (auto simp: calculate_current_price_def Let_def split: option.splits if_splits)
  from wf data have "stored_ok data"
    by (simp add: entry_wf_def)
  with data(2) obtain kvs where "last data = JObj kvs"
    using stored_ok_JObj by (meson last_in_set)
  with fb show ?thesis
    by (auto simp: fallback_price_def Let_def split: if_splits option.splits sum.splits json.splits)
qed

theorem calculate_current_price_raises_only_TypeError_witness:
  "cache_wf (example_cache [example_record ''2024-03-05T12:00:00+02:00'' (JArr []) (JNum 8)]) \<and>
   fst (calculate_current_price helsinki_winter ''FI'' 15 ''VAT'' at_1130
          (example_cache [example_record ''2024-03-05T12:00:00+02:00'' (JArr []) (JNum 8)])) = Inl TypeError"
proof -
  have wf: "cache_wf (example_cache [example_record ''2024-03-05T12:00:00+02:00'' (JArr []) (JNum 8)])"
    by (simp add: cache_wf_def entry_wf_def stored_ok_def uniform_kind_def data_truthy_def
        example_simps item_datetime_def py_simps)
  have r: "fst (calculate_current_price helsinki_winter ''FI'' 15 ''VAT'' at_1130
          (example_cache [example_record ''2024-03-05T12:00:00+02:00'' (JArr []) (JNum 8)])) = Inl TypeError"
    by (simp add: calculate_current_price_def example_simps item_datetime_def fallback_price_def py_simps Let_def)
  show ?thesis
    using wf r calculate_current_price_raises_only_TypeError [OF wf r] by simp
qed

end
