(* ===== verification/Aggregates.thy ===== *)
theory Aggregates
  imports Resolver
begin

text \<open>
  \<open>SpotHintaAPI._process_data\<close> (\<^verbatim>\<open>spothinta_api.py\<close>, lines 205--238): the minimum
  and maximum VAT price of a region's whole cached series, recomputed at the end of every
  \<open>fetch_data\<close> call. Records without a VAT price (absent or \<open>null\<close>) are skipped, a
  price that \<open>float()\<close> rejects with \<open>ValueError\<close> is skipped with a warning, and any
  other exception leaves the method before the aggregates are written. The specification
  of the aggregates is the least and greatest of the prices \<open>item_price\<close> reads.
\<close>

section \<open>The code\<close>

text \<open>The loop of lines 222--228, building \<open>price_list\<close> in the order of the series.\<close>

fun vat_price_list :: "json list \<Rightarrow> pyexc + rat list" where
  "vat_price_list [] = Inr []"
| "vat_price_list (it # its) =
     (case py_get it VAT_KEY of
        Inl ex \<Rightarrow> Inl ex
      | Inr None \<Rightarrow> vat_price_list its
      | Inr (Some v) \<Rightarrow>
          (case py_float v of
             Inr r \<Rightarrow> (case vat_price_list its of Inl ex \<Rightarrow> Inl ex | Inr rs \<Rightarrow> Inr (r # rs))
           | Inl ex \<Rightarrow> (if ex = ValueError then vat_price_list its else Inl ex)))"

text \<open>The whole method on the region's dict: both aggregates \<open>None\<close> without data or
  without any numeric VAT price, otherwise \<open>min(price_list)\<close> and \<open>max(price_list)\<close>.\<close>

definition process_data :: "cache_entry \<Rightarrow> pyexc + cache_entry" where
  "process_data c =
     (if \<not> data_truthy (c_data c) then Inr (c\<lparr>min_price := None, max_price := None\<rparr>)
      else (case vat_price_list (the (c_data c)) of
              Inl ex \<Rightarrow> Inl ex
            | Inr price_list \<Rightarrow>
                (if price_list \<noteq> [] then
                   (case (py_min price_list, py_max price_list) of
                      (Inr mn, Inr mx) \<Rightarrow> Inr (c\<lparr>min_price := Some mn, max_price := Some mx\<rparr>)
                    | (Inl ex, _) \<Rightarrow> Inl ex
                    | (_, Inl ex) \<Rightarrow> Inl ex)
                 else Inr (c\<lparr>min_price := None, max_price := None\<rparr>))))"

section \<open>The specification\<close>

text \<open>The numeric VAT prices of a series, in order.\<close>

definition vat_values :: "json list \<Rightarrow> rat list" where
  "vat_values data = List.map_filter (item_price VAT_KEY) data"

definition aggregates_spec :: "json list option \<Rightarrow> rat option \<times> rat option" where
  "aggregates_spec d =
     (let vs = (case d of None \<Rightarrow> [] | Some data \<Rightarrow> vat_values data)
      in if vs = [] then (None, None) else (Some (Min (set vs)), Some (Max (set vs))))"

section \<open>Lemmas\<close>

lemma vat_price_list_Inr:
  "vat_price_list data = Inr rs \<Longrightarrow> rs = vat_values data"
proof (induction data arbitrary: rs)
  case Nil
  then show ?case by (simp add: vat_values_def map_filter_simps)
next
  case (Cons it its)
  then show ?case
    by (auto simp: vat_values_def map_filter_simps item_price_def
        split: sum.splits option.splits if_splits)
qed

lemma vat_price_list_Inl:
  "vat_price_list data = Inl ex \<Longrightarrow> ex = TypeError \<or> ex = AttributeError"
proof (induction data)
  case Nil
  then show ?case by simp
next
  case (Cons it its)
  then show ?case
    by (cases it) (auto split: sum.splits option.splits if_splits dest: py_float_Inl)
qed

lemma process_data_frame:
  "process_data c = Inr c' \<Longrightarrow> \<exists>mn mx. c' = c\<lparr>min_price := mn, max_price := mx\<rparr>"
  by (auto simp: process_data_def split: if_splits sum.splits prod.splits)

lemma process_data_no_data:
  "\<not> data_truthy (c_data c) \<Longrightarrow> process_data c = Inr (c\<lparr>min_price := None, max_price := None\<rparr>)"
  by (simp add: process_data_def)

lemma process_data_keeps_wf:
  "entry_wf c \<Longrightarrow> process_data c = Inr c' \<Longrightarrow> entry_wf c'"
  by (drule process_data_frame) (auto simp: entry_wf_def)

section \<open>Properties of the aggregates\<close>

text \<open>
  C8. Aggregate consistency: whenever \<open>_process_data\<close> completes, the stored minimum and
  maximum are the least and greatest numeric VAT price of the series, and both are
  \<open>None\<close> exactly when the series has no numeric VAT price (or no data).
\<close>

theorem process_data_aggregates:
  assumes "process_data c = Inr c'"
  shows "(min_price c', max_price c') = aggregates_spec (c_data c)"
proof (cases "data_truthy (c_data c)")
  case False
  then have "c_data c = None \<or> c_data c = Some []"
    by (auto simp: data_truthy_def split: option.splits)
  with False assms show ?thesis
    by (auto simp: process_data_def aggregates_spec_def vat_values_def map_filter_simps)
next
  case True
  then obtain data where data: "c_data c = Some data" "data \<noteq> []"
    by (auto simp: data_truthy_def split: option.splits)
  with assms obtain pl where pl: "vat_price_list data = Inr pl"
    by (auto simp: process_data_def data_truthy_def split: sum.splits)
  then have "pl = vat_values data"
    by (rule vat_price_list_Inr)
  with True assms data pl show ?thesis
    by (auto simp: process_data_def aggregates_spec_def py_min_Min py_max_Max Let_def)
qed

theorem process_data_aggregates_witness:
  "process_data (empty_entry\<lparr>c_data := Some example_series_gap\<rparr>) =
     Inr (empty_entry\<lparr>c_data := Some example_series_gap, min_price := Some 5, max_price := Some 9\<rparr>) \<and>
   (Some 5, Some 9) = aggregates_spec (c_data (empty_entry\<lparr>c_data := Some example_series_gap\<rparr>))"
proof -
  have run: "process_data (empty_entry\<lparr>c_data := Some example_series_gap\<rparr>) =
     Inr (empty_entry\<lparr>c_data := Some example_series_gap, min_price := Some 5, max_price := Some 9\<rparr>)"
    by (simp add: process_data_def example_simps data_truthy_def py_simps py_min_def py_max_def
        fold_min_def fold_max_def)
  show ?thesis
    using run process_data_aggregates [OF run] by simp
qed

text \<open>
  C16. On a well-formed series (every record a dict with a readable timestamp), the only
  exception \<open>_process_data\<close> raises is \<open>TypeError\<close>, from \<open>float()\<close> of a VAT price
  that is a list or an object; the aggregates are then left as they were.
\<close>

theorem process_data_raises_only_TypeError:
  assumes "entry_wf c" and "process_data c = Inl ex"
  shows "ex = TypeError"
proof -
  from assms(2) obtain data where data: "c_data c = Some data" and vl: "vat_price_list data = Inl ex"
    by (auto simp: process_data_def data_truthy_def split: option.splits sum.splits if_splits prod.splits
        simp: py_min_def py_max_def split: list.splits)
  from assms(1) data have ok: "stored_ok data"
    by (simp add: entry_wf_def)
  have "vat_price_list data = Inl AttributeError \<Longrightarrow> False"
    using ok
  proof (induction data)
    case Nil
    then show ?case by simp
  next
    case (Cons it its)
    from Cons.prems(2) obtain kvs where "it = JObj kvs"
      using stored_ok_JObj by fastforce
    moreover from Cons.prems(2) have "stored_ok its"
      by (auto simp: stored_ok_def uniform_kind_def split: sum.splits list.splits)
    ultimately show ?case
      using Cons by (auto split: sum.splits option.splits if_splits dest: py_float_Inl)
  qed
  with vl vat_price_list_Inl [OF vl] show ?thesis
    by auto
qed

theorem process_data_raises_only_TypeError_witness:
  "entry_wf (empty_entry\<lparr>c_data := Some [example_record ''2024-03-05T12:00:00+02:00'' (JArr []) (JNum 8)],
                          last_fetch := Some 0\<rparr>) \<and>
   process_data (empty_entry\<lparr>c_data := Some [example_record ''2024-03-05T12:00:00+02:00'' (JArr []) (JNum 8)],
                              last_fetch := Some 0\<rparr>) = Inl TypeError"
proof -
  have wf: "entry_wf (empty_entry\<lparr>c_data := Some [example_record ''2024-03-05T12:00:00+02:00'' (JArr []) (JNum 8)],
                          last_fetch := Some 0\<rparr>)"
    by (simp add: entry_wf_def stored_ok_def uniform_kind_def data_truthy_def example_simps
        item_datetime_def py_simps)
  have r: "process_data (empty_entry\<lparr>c_data := Some [example_record ''2024-03-05T12:00:00+02:00'' (JArr []) (JNum 8)],
                              last_fetch := Some 0\<rparr>) = Inl TypeError"
    by (simp add: process_data_def example_simps data_truthy_def py_simps)
  show ?thesis
    using wf r process_data_raises_only_TypeError [OF wf r] by simp
qed

end
