(* ===== verification/Fetch.thy ===== *)
theory Fetch
  imports Refresh Aggregates
begin

text \<open>
  \<open>SpotHintaAPI.fetch_data\<close> (\<^verbatim>\<open>spothinta_api.py\<close>, lines 123--202): decide whether the
  region needs new data (theory \<open>Refresh\<close>), if so issue one GET request to the
  provider, sort the decoded reply by timestamp and install it with the fetch time, and in
  every case recompute the aggregates (theory \<open>Aggregates\<close>). The network is a parameter:
  a function from the request to the reply the provider gives to it. The call returns
  its value or the exception that leaves it, the cache after it, and the requests it
  issued.
\<close>

section \<open>Requests and replies\<close>

record http_request =
  req_url :: string
  req_region :: string
  req_resolution :: nat
  req_timeout :: nat

text \<open>
  \<open>ReplyFailed\<close>: \<open>requests.get\<close> raised (connection error, the 15 s timeout),
  \<open>raise_for_status\<close> raised (HTTP status 4xx/5xx, 429 when rate-limited), or
  \<open>response.json()\<close> raised on a body that is not JSON. All three are
  \<open>RequestException\<close>s (\<open>requests.JSONDecodeError\<close> is one since requests 2.27) and are
  caught at line 191. \<open>ReplyJson\<close>: the decoded body.
\<close>

datatype http_reply = ReplyFailed | ReplyJson json

text \<open>Lines 165--175: \<open>GET API_BASE_URL/TodayAndDayForward?region=..&priceResolution=..\<close>
  with a 15 second timeout.\<close>

definition api_request :: "string \<Rightarrow> nat \<Rightarrow> http_request" where
  "api_request region price_resolution =
     \<lparr>req_url = API_BASE_URL @ ''/TodayAndDayForward'', req_region = region,
      req_resolution = price_resolution, req_timeout = 15\<rparr>"

section \<open>Sorting the reply\<close>

text \<open>
  Line 181, \<open>new_data.sort(key=lambda item: fromisoformat(item["DateTime"]))\<close>. The keys
  are computed first, left to right; the first failing one raises (\<open>KeyError\<close> for a
  record without \<open>DateTime\<close>, \<open>TypeError\<close> for a record that is not a dict or a
  timestamp that is not a string, \<open>ValueError\<close> for a malformed one). The sort then
  compares keys with \<open><\<close>, which raises \<open>TypeError\<close> between a naive and an aware
  datetime. A list holding both kinds always has such a comparison: a comparison sort
  must compare every pair of elements adjacent in its output, and some adjacent pair of
  the output is of two kinds. Otherwise the result is the stable sort by the compared
  value.
\<close>

definition sort_records :: "json list \<Rightarrow> pyexc + json list" where
  "sort_records items =
     (case item_keys items of
        Inl ex \<Rightarrow> Inl ex
      | Inr ds \<Rightarrow>
          (if uniform_kind ds
           then Inr (map snd (sort_key (\<lambda>p. dt_rank (fst p)) (zip ds items)))
           else Inl TypeError))"

text \<open>\<open>response.json()\<close> may decode to any JSON value; only a list has \<open>.sort\<close>, every
  other value raises \<open>AttributeError\<close>.\<close>

definition sort_reply :: "json \<Rightarrow> pyexc + json list" where
  "sort_reply body = (case body of JArr items \<Rightarrow> sort_records items | _ \<Rightarrow> Inl AttributeError)"

section \<open>The call\<close>

text \<open>Lines 201--202: \<open>_process_data(region)\<close> on the region's dict as it now is, then
  \<open>bool(cache.get('_data'))\<close>. An exception of \<open>_process_data\<close> leaves the dict with what
  was already written to it.\<close>

definition finish_fetch :: "string \<Rightarrow> cache_entry \<Rightarrow> api_cache \<Rightarrow> (pyexc + bool) \<times> api_cache" where
  "finish_fetch region c st =
     (case process_data c of
        Inl ex \<Rightarrow> (Inl ex, st(region \<mapsto> c))
      | Inr c' \<Rightarrow> (Inr (data_truthy (c_data c')), st(region \<mapsto> c')))"

text \<open>
  The whole method. \<open>now\<close> is \<open>dt.datetime.now(dt.timezone.utc)\<close> read at line 132,
  \<open>t_done\<close> the second reading at line 186, after the reply arrived; \<open>net\<close> answers the
  request. On a failed request the method returns \<open>False\<close> at line 193 and does not
  reach \<open>_process_data\<close>; an exception of the sort leaves it at once.
\<close>

definition fetch_data ::
  "tzenv \<Rightarrow> string \<Rightarrow> nat \<Rightarrow> bool \<Rightarrow> instant \<Rightarrow> (http_request \<Rightarrow> http_reply) \<Rightarrow> instant \<Rightarrow>
   api_cache \<Rightarrow> (pyexc + bool) \<times> api_cache \<times> http_request list" where
  "fetch_data e region price_resolution force_update now net t_done st =
     (let (c, st1) = get_cache_data region st
      in if fetch_needed e force_update c now then
           (let req = api_request region price_resolution
            in case net req of
                 ReplyFailed \<Rightarrow> (Inr False, st1, [req])
               | ReplyJson body \<Rightarrow>
                   (case sort_reply body of
                      Inl ex \<Rightarrow> (Inl ex, st1, [req])
                    | Inr new_data \<Rightarrow>
                        (let (r, st2) = finish_fetch region
                                          (c\<lparr>c_data := Some new_data, last_fetch := Some t_done\<rparr>) st1
                         in (r, st2, [req]))))
         else (let (r, st2) = finish_fetch region c st1 in (r, st2, [])))"

section \<open>Lemmas on the sort\<close>

lemma uniform_kind_iff:
  "uniform_kind ds \<longleftrightarrow> (\<forall>a\<in>set ds. \<forall>b\<in>set ds. dt_aware a = dt_aware b)"
  by (cases ds) (auto simp: uniform_kind_def list_all_iff)

lemma item_keys_pairs:
  "\<forall>p\<in>set ps. item_datetime (snd p) = Inr (fst p) \<Longrightarrow> item_keys (map snd ps) = Inr (map fst ps)"
  by (induction ps) auto

lemma item_keys_zip:
  "item_keys items = Inr ds \<Longrightarrow> p \<in> set (zip ds items) \<Longrightarrow> item_datetime (snd p) = Inr (fst p)"
  by (auto simp: set_zip item_keys_Inr_length item_keys_Inr_nth)

lemma map_snd_zip_keys:
  "item_keys items = Inr ds \<Longrightarrow> map snd (zip ds items) = items"
  by (simp add: item_keys_Inr_length)

lemma sort_records_Inr:
  assumes "sort_records items = Inr sorted_items"
  shows "stored_ok sorted_items" and "mset sorted_items = mset items"
proof -
  from assms obtain ds where ds: "item_keys items = Inr ds" and u: "uniform_kind ds"
    and s: "sorted_items = map snd (sort_key (\<lambda>p. dt_rank (fst p)) (zip ds items))"
    by (auto simp: sort_records_def split: sum.splits if_splits)
  let ?ps = "sort_key (\<lambda>p. dt_rank (fst p)) (zip ds items)"
  have set_ps: "set ?ps = set (zip ds items)"
    by (simp add: set_sort)
  then have "item_keys sorted_items = Inr (map fst ?ps)"
    using s item_keys_pairs item_keys_zip [OF ds] by simp
  moreover have "sorted (map dt_rank (map fst ?ps))"
    using sorted_sort_key [of "\<lambda>p. dt_rank (fst p)" "zip ds items"] by (simp add: comp_def)
  moreover have "set (map fst ?ps) \<subseteq> set ds"
    using set_ps by (auto dest: set_zip_leftD)
  then have "uniform_kind (map fst ?ps)"
    using u by (auto simp: uniform_kind_iff)
  ultimately show "stored_ok sorted_items"
    by (simp add: stored_ok_def)
  have "mset sorted_items = mset (map snd (zip ds items))"
    using s by simp
  then show "mset sorted_items = mset items"
    using map_snd_zip_keys [OF ds] by simp
qed

lemma sort_reply_Inr:
  "sort_reply body = Inr items \<Longrightarrow> \<exists>xs. body = JArr xs \<and> sort_records xs = Inr items"
  by (cases body) (auto simp: sort_reply_def)

section \<open>Lemmas on the call\<close>

lemma fetch_data_not_needed:
  "get_cache_data region st = (c, st1) \<Longrightarrow> \<not> fetch_needed e force c now \<Longrightarrow>
   fetch_data e region res force now net t st =
     (fst (finish_fetch region c st1), snd (finish_fetch region c st1), [])"
  by (simp add: fetch_data_def split: prod.splits)

lemma fetch_data_failed:
  "get_cache_data region st = (c, st1) \<Longrightarrow> fetch_needed e force c now \<Longrightarrow>
   net (api_request region res) = ReplyFailed \<Longrightarrow>
   fetch_data e region res force now net t st = (Inr False, st1, [api_request region res])"
  by (simp add: fetch_data_def)

lemma fetch_data_unsortable:
  "get_cache_data region st = (c, st1) \<Longrightarrow> fetch_needed e force c now \<Longrightarrow>
   net (api_request region res) = ReplyJson body \<Longrightarrow> sort_reply body = Inl ex \<Longrightarrow>
   fetch_data e region res force now net t st = (Inl ex, st1, [api_request region res])"
  by (simp add: fetch_data_def)

lemma fetch_data_install:
  "get_cache_data region st = (c, st1) \<Longrightarrow> fetch_needed e force c now \<Longrightarrow>
   net (api_request region res) = ReplyJson body \<Longrightarrow> sort_reply body = Inr items \<Longrightarrow>
   fetch_data e region res force now net t st =
     (let c1 = c\<lparr>c_data := Some items, last_fetch := Some t\<rparr>
      in (fst (finish_fetch region c1 st1), snd (finish_fetch region c1 st1), [api_request region res]))"
  by (simp add: fetch_data_def Let_def split: prod.splits)

lemma fetch_data_requests:
  "snd (snd (fetch_data e region res force now net t st)) =
     (if fetch_needed e force (fst (get_cache_data region st)) now then [api_request region res] else [])"
  by (auto simp: fetch_data_def Let_def split: prod.splits http_reply.splits sum.splits)

text \<open>The four ways a call ends: served from the cache, request failed, reply not
  sortable, reply installed.\<close>

lemma fetch_data_outcomes:
  assumes gc: "get_cache_data region st = (c, st1)"
  obtains (served) "\<not> fetch_needed e force c now"
      "fetch_data e region res force now net t st =
         (fst (finish_fetch region c st1), snd (finish_fetch region c st1), [])"
    | (failed) "fetch_needed e force c now" "net (api_request region res) = ReplyFailed"
      "fetch_data e region res force now net t st = (Inr False, st1, [api_request region res])"
    | (unsortable) body ex where "fetch_needed e force c now"
      "net (api_request region res) = ReplyJson body" "sort_reply body = Inl ex"
      "fetch_data e region res force now net t st = (Inl ex, st1, [api_request region res])"
    | (installed) body items where "fetch_needed e force c now"
      "net (api_request region res) = ReplyJson body" "sort_reply body = Inr items"
      "fetch_data e region res force now net t st =
         (fst (finish_fetch region (c\<lparr>c_data := Some items, last_fetch := Some t\<rparr>) st1),
          snd (finish_fetch region (c\<lparr>c_data := Some items, last_fetch := Some t\<rparr>) st1),
          [api_request region res])"
proof (cases "fetch_needed e force c now")
  case False
  then show ?thesis using gc served fetch_data_not_needed by blast
next
  case True
  show ?thesis
  proof (cases "net (api_request region res)")
    case ReplyFailed
    then show ?thesis using gc True failed fetch_data_failed by blast
  next
    case (ReplyJson body)
    show ?thesis
    proof (cases "sort_reply body")
      case (Inl ex)
      then show ?thesis using gc True ReplyJson unsortable fetch_data_unsortable by blast
    next
      case (Inr items)
      then show ?thesis
        using gc True ReplyJson installed fetch_data_install [where net = net and t = t, OF gc True ReplyJson Inr]
        by (simp add: Let_def)
    qed
  qed
qed

lemma installed_entry_wf:
  "sort_reply body = Inr items \<Longrightarrow> entry_wf (c\<lparr>c_data := Some items, last_fetch := Some t\<rparr>)"
  by (auto simp: entry_wf_def dest!: sort_reply_Inr dest: sort_records_Inr(1))

text \<open>What \<open>finish_fetch\<close> stores for the region: the dict it was given, with new
  aggregates when \<open>_process_data\<close> completes.\<close>

lemma finish_fetch_entry:
  "\<exists>mn mx. snd (finish_fetch region c st) = st(region \<mapsto> c\<lparr>min_price := mn, max_price := mx\<rparr>)"
proof (cases "process_data c")
  case (Inl ex)
  then have "snd (finish_fetch region c st) = st(region \<mapsto> c\<lparr>min_price := min_price c, max_price := max_price c\<rparr>)"
    by (simp add: finish_fetch_def)
  then show ?thesis by blast
next
  case (Inr c')
  then show ?thesis
    using process_data_frame by (fastforce simp: finish_fetch_def)
qed

lemma finish_fetch_wf:
  "cache_wf st \<Longrightarrow> entry_wf c \<Longrightarrow> cache_wf (snd (finish_fetch region c st))"
  using finish_fetch_entry [of region c st]
  by (auto intro!: cache_wf_update simp: entry_wf_def)

lemma finish_fetch_result:
  "fst (finish_fetch region c st) = Inr b \<Longrightarrow> b = data_truthy (c_data c)"
  using process_data_frame by (fastforce simp: finish_fetch_def split: sum.splits)

text \<open>Every call keeps the cache well-formed, whatever the clock, the reply and the
  outcome.\<close>

lemma fetch_data_wf:
  assumes "cache_wf st"
  shows "cache_wf (fst (snd (fetch_data e region res force now net t st)))"
proof -
  obtain c st1 where gc: "get_cache_data region st = (c, st1)"
    by (cases "get_cache_data region st")
  with assms have wf1: "cache_wf st1" and wfc: "entry_wf c"
    using get_cache_data_wf by blast+
  from gc show ?thesis
  proof (cases rule: fetch_data_outcomes [where e = e and force = force and now = now and net = net and res = res and t = t])
    case served
    then show ?thesis using wf1 wfc by (simp add: finish_fetch_wf)
  next
    case failed
    then show ?thesis using wf1 by simp
  next
    case (unsortable body ex)
    then show ?thesis using wf1 by simp
  next
    case (installed body items)
    then show ?thesis using wf1 installed_entry_wf by (simp add: finish_fetch_wf)
  qed
qed

text \<open>The regions with a dict after a call: those before and the region asked for.\<close>

lemma get_cache_data_dom: "dom (snd (get_cache_data region st)) = insert region (dom st)"
  by (cases "st region") (auto simp: get_cache_data_def)

lemma fetch_data_dom:
  "dom (fst (snd (fetch_data e region res force now net t st))) = insert region (dom st)"
proof -
  obtain c st1 where gc: "get_cache_data region st = (c, st1)"
    by (cases "get_cache_data region st")
  then have d1: "dom st1 = insert region (dom st)"
    using get_cache_data_dom [of region st] by simp
  have ff: "dom (snd (finish_fetch region c' st1)) = insert region (dom st)" for c'
    using finish_fetch_entry [of region c' st1] by (clarsimp simp: d1)
  from gc show ?thesis
    by (cases rule: fetch_data_outcomes [where e = e and force = force and now = now and net = net and res = res and t = t])
       (simp_all add: d1 ff)
qed

section \<open>Properties of \<open>fetch_data\<close>\<close>

text \<open>
  C3. Sort invariant: whatever the order of the provider's records, a reply that the sort
  accepts becomes a series with readable timestamps of one kind in ascending order, and
  it holds exactly the records of the reply (a permutation: nothing dropped, nothing
  added).
\<close>

theorem sort_reply_sorted_perm:
  assumes "sort_reply body = Inr items"
  shows "stored_ok items \<and> (\<exists>xs. body = JArr xs \<and> mset items = mset xs)"
  using sort_reply_Inr [OF assms] sort_records_Inr by blast

theorem sort_reply_sorted_perm_witness:
  "sort_reply (JArr (rev example_series)) = Inr example_series \<and> stored_ok example_series"
proof -
  have r: "sort_reply (JArr (rev example_series)) = Inr example_series"
    by (simp add: sort_reply_def sort_records_def uniform_kind_def example_simps item_datetime_def py_simps)
  show ?thesis
    using r sort_reply_sorted_perm [OF r] by simp
qed

text \<open>
  C4. Failure isolation: when a request is made and its reply is not installed (the
  request failed, or the reply could not be sorted), the cache after the call is the cache
  before it (with the region's dict created if it had none): series, fetch time and
  aggregates are untouched, and the call does not report success.
\<close>

theorem fetch_data_failure_isolation:
  assumes "fetch_needed e force (fst (get_cache_data region st)) now"
    and "net (api_request region res) = ReplyFailed \<or>
         (\<exists>body ex. net (api_request region res) = ReplyJson body \<and> sort_reply body = Inl ex)"
  shows "fst (snd (fetch_data e region res force now net t st)) = snd (get_cache_data region st) \<and>
         fst (fetch_data e region res force now net t st) \<noteq> Inr True"
proof -
  obtain c st1 where gc: "get_cache_data region st = (c, st1)"
    by (cases "get_cache_data region st")
  from gc show ?thesis
  proof (cases rule: fetch_data_outcomes [where e = e and force = force and now = now and net = net and res = res and t = t])
    case served
    with assms(1) gc show ?thesis by simp
  next
    case failed
    with gc show ?thesis by simp
  next
    case (unsortable body ex)
    with gc show ?thesis by simp
  next
    case (installed body items)
    with assms(2) show ?thesis by auto
  qed
qed

theorem fetch_data_failure_isolation_witness:
  "fetch_needed helsinki_winter False (fst (get_cache_data ''FI'' Map.empty)) 1709643600000000 \<and>
   (\<lambda>_. ReplyFailed) (api_request ''FI'' 15) = ReplyFailed \<and>
   fst (snd (fetch_data helsinki_winter ''FI'' 15 False 1709643600000000 (\<lambda>_. ReplyFailed) 1709643601000000 Map.empty)) =
     [''FI'' \<mapsto> empty_entry]"
proof -
  have n: "fetch_needed helsinki_winter False (fst (get_cache_data ''FI'' Map.empty)) 1709643600000000"
    by (simp add: fetch_needed_def empty_entry_def data_truthy_def)
  have f: "(\<lambda>_. ReplyFailed) (api_request ''FI'' 15) = ReplyFailed \<or>
      (\<exists>body ex. (\<lambda>_. ReplyFailed) (api_request ''FI'' 15) = ReplyJson body \<and> sort_reply body = Inl ex)"
    by simp
  show ?thesis
    using n fetch_data_failure_isolation [OF n f] by simp
qed

text \<open>
  C9. Network use: a call issues exactly one request, a GET of
  \<open>https://api.spot-hinta.fi/TodayAndDayForward\<close> for the region and resolution with a
  15 second timeout, when the refresh decision says the region needs data, and no request
  otherwise.
\<close>

theorem fetch_data_network_use:
  "snd (snd (fetch_data e region res force now net t st)) =
     (if fetch_needed e force (fst (get_cache_data region st)) now
      then [\<lparr>req_url = ''https://api.spot-hinta.fi/TodayAndDayForward'', req_region = region,
             req_resolution = res, req_timeout = 15\<rparr>]
      else [])"
  by (simp add: fetch_data_requests api_request_def API_BASE_URL_def)

text \<open>
  C10. Installation: when a request is made and its reply sorts, the region's dict holds
  exactly the sorted reply and the fetch time \<open>t\<close>, no other region changes, and a
  returned boolean says whether the new series is non-empty.
\<close>

theorem fetch_data_installs:
  assumes "fetch_needed e force (fst (get_cache_data region st)) now"
    and "net (api_request region res) = ReplyJson body" and "sort_reply body = Inr items"
  shows "\<exists>c'. fst (snd (fetch_data e region res force now net t st)) region = Some c' \<and>
           c_data c' = Some items \<and> last_fetch c' = Some t \<and>
           (\<forall>r. r \<noteq> region \<longrightarrow> fst (snd (fetch_data e region res force now net t st)) r = st r) \<and>
           (\<forall>b. fst (fetch_data e region res force now net t st) = Inr b \<longrightarrow> b = (items \<noteq> []))"
proof -
  obtain c st1 where gc: "get_cache_data region st = (c, st1)"
    by (cases "get_cache_data region st")
  from gc show ?thesis
  proof (cases rule: fetch_data_outcomes [where e = e and force = force and now = now and net = net and res = res and t = t])
    case served
    with assms(1) gc show ?thesis by simp
  next
    case failed
    with assms(2) show ?thesis by simp
  next
    case (unsortable body' ex)
    with assms(2,3) show ?thesis by simp
  next
    case (installed body' items')
    with assms(2,3) have same: "items' = items" by simp
    let ?c1 = "c\<lparr>c_data := Some items, last_fetch := Some t\<rparr>"
    obtain mn mx where st2: "snd (finish_fetch region ?c1 st1) = st1(region \<mapsto> ?c1\<lparr>min_price := mn, max_price := mx\<rparr>)"
      using finish_fetch_entry by blast
    have res: "\<forall>b. fst (finish_fetch region ?c1 st1) = Inr b \<longrightarrow> b = (items \<noteq> [])"
      using finish_fetch_result by (fastforce simp: data_truthy_def)
    show ?thesis
      using installed same st2 res get_cache_data_other [OF gc] by auto
  qed
qed

theorem fetch_data_installs_witness:
  "fetch_needed helsinki_winter False (fst (get_cache_data ''FI'' Map.empty)) 1709643600000000 \<and>
   sort_reply (JArr (rev example_series)) = Inr example_series \<and>
   c_data (the (fst (snd (fetch_data helsinki_winter ''FI'' 15 False 1709643600000000
                         (\<lambda>_. ReplyJson (JArr (rev example_series))) 1709643601000000 Map.empty)) ''FI'')) =
     Some example_series"
proof -
  have n: "fetch_needed helsinki_winter False (fst (get_cache_data ''FI'' Map.empty)) 1709643600000000"
    by (simp add: fetch_needed_def empty_entry_def data_truthy_def)
  have j: "(\<lambda>_. ReplyJson (JArr (rev example_series))) (api_request ''FI'' 15) = ReplyJson (JArr (rev example_series))"
    by simp
  have r: "sort_reply (JArr (rev example_series)) = Inr example_series"
    by (simp add: sort_reply_def sort_records_def uniform_kind_def example_simps item_datetime_def py_simps)
  show ?thesis
    using n r fetch_data_installs [where res = 15 and t = 1709643601000000, OF n j r] by auto
qed

text \<open>
  C17. Installation is not atomic: whenever a call goes to the network, the reply sorts,
  and \<open>_process_data\<close> then raises on the installed dict, the exception leaves
  \<open>fetch_data\<close> with the region holding the new series and the new fetch time beside the
  minimum and maximum of the series it held before (and every other key as it was).
\<close>

theorem fetch_data_type_error_leaves_stale_aggregates:
  assumes "get_cache_data region st = (c, st1)" and "fetch_needed e False c now"
    and "net (api_request region res) = ReplyJson body" and "sort_reply body = Inr items"
    and "process_data (c\<lparr>c_data := Some items, last_fetch := Some t\<rparr>) = Inl ex"
  shows "fetch_data e region res False now net t st =
           (Inl ex, st1(region \<mapsto> c\<lparr>c_data := Some items, last_fetch := Some t\<rparr>), [api_request region res])"
  using fetch_data_install [where net = net and t = t, OF assms(1-4)] assms(5) by (simp add: finish_fetch_def Let_def)

theorem fetch_data_type_error_leaves_stale_aggregates_witness:
  "fetch_data helsinki_winter ''FI'' 15 False 1709704800000000
     (\<lambda>_. ReplyJson (JArr [example_record ''2024-03-06T10:00:00+02:00'' (JArr []) (JNum 1)])) 1709704801000000
     [''FI'' \<mapsto> empty_entry\<lparr>c_data := Some example_series, last_fetch := Some 1709643601000000,
                               min_price := Some 5, max_price := Some 9\<rparr>] =
   (Inl TypeError,
    [''FI'' \<mapsto> empty_entry\<lparr>c_data := Some [example_record ''2024-03-06T10:00:00+02:00'' (JArr []) (JNum 1)],
                              last_fetch := Some 1709704801000000, min_price := Some 5, max_price := Some 9\<rparr>],
    [api_request ''FI'' 15])"
proof -
  let ?c = "empty_entry\<lparr>c_data := Some example_series, last_fetch := Some 1709643601000000, min_price := Some 5, max_price := Some 9\<rparr>"
  let ?items = "[example_record ''2024-03-06T10:00:00+02:00'' (JArr []) (JNum 1)]"
  have gc: "get_cache_data ''FI'' [''FI'' \<mapsto> ?c] = (?c, [''FI'' \<mapsto> ?c])" by simp
  have n: "fetch_needed helsinki_winter False ?c 1709704800000000"
    by (simp add: fetch_needed_def refresh_due_def fetch_time_today_def fi_date_def fi_wall_def data_truthy_def
        example_simps Let_def day_usec_val cutover_val)
  have j: "(\<lambda>_. ReplyJson (JArr ?items)) (api_request ''FI'' 15) = ReplyJson (JArr ?items)" by simp
  have r: "sort_reply (JArr ?items) = Inr ?items"
    by (simp add: sort_reply_def sort_records_def uniform_kind_def example_simps item_datetime_def py_simps)
  have p: "process_data (?c\<lparr>c_data := Some ?items, last_fetch := Some 1709704801000000\<rparr>) = Inl TypeError"
    by (simp add: process_data_def data_truthy_def example_simps py_simps)
  show ?thesis
    using fetch_data_type_error_leaves_stale_aggregates [where st = "[''FI'' \<mapsto> ?c]" and region = "''FI''"
        and net = "\<lambda>_. ReplyJson (JArr ?items)" and t = 1709704801000000, OF gc n j r p]
    by (simp add: empty_entry_def)
qed

end
