(* ===== verification/Sensor.thy ===== *)
theory Sensor
  imports Fetch
begin

text \<open>
  The Home Assistant side of the integration (\<^verbatim>\<open>sensor.py\<close>, \<^verbatim>\<open>__init__.py\<close>): one
  update coordinator and one sensor per config entry, sharing the \<open>SpotHintaAPI\<close> object
  kept in \<open>hass.data[DOMAIN]['api']\<close>. The coordinator's \<open>data\<close> starts as a placeholder
  dict of its own; after a successful refresh it is the dict \<open>api._get_cache_data(region)\<close>
  returns, the region's dict inside the API's cache, the same object for every coordinator
  of that region and API. The sensor writes \<open>current_price\<close> and \<open>last_refresh_utc\<close>
  into \<open>coordinator.data\<close> and reports \<open>coordinator.data['current_price']\<close> as its state.

  The host is an explicit store: API objects by number (\<open>h_apis\<close>, with the next free
  number), the one \<open>hass.data\<close> points to, and per config entry its coordinator (which
  holds the number of the API object it was built with), its sensor's price type and the
  state last written. A coordinator's data is a reference: its placeholder dict, or the
  region whose dict it aliases in its API object.

  Of \<open>DataUpdateCoordinator\<close> and \<open>CoordinatorEntity\<close> (Home Assistant, not in this
  repository) the model keeps what the code relies on: a refresh runs
  \<open>_async_update_data\<close>; on success \<open>data\<close> becomes its result and the entity is
  available; on \<open>UpdateFailed\<close> the data is kept and the entity is unavailable; the
  listeners then write their state, except after two failures in a row. The first refresh
  of \<open>async_setup_entry\<close> raises \<open>ConfigEntryNotReady\<close> on failure, and no entity is
  added.
\<close>

section \<open>State\<close>

datatype coord_data = Placeholder cache_entry | SharedDict string

record coordinator =
  co_api :: nat
  co_region :: string
  co_resolution :: nat
  co_data :: coord_data
  co_last_update_success :: bool
  co_last_update :: "instant option"

datatype ha_state = Unavailable | Published "rat option"

record host =
  h_apis :: "nat \<Rightarrow> api_cache"
  h_next_api :: nat
  h_domain_api :: "nat option"
  h_coords :: "nat \<rightharpoonup> coordinator"
  h_sensor_type :: "nat \<rightharpoonup> string"
  h_published :: "nat \<rightharpoonup> ha_state"

text \<open>\<open>entry.data\<close>, with the keys it may lack.\<close>

record entry_config =
  cfg_region :: "string option"
  cfg_resolution :: "nat option"
  cfg_price_type :: "string option"

section \<open>The coordinator (lines 57--100)\<close>

definition placeholder_data :: cache_entry where
  "placeholder_data =
     \<lparr>c_data = Some [], last_fetch = None, min_price = Some 0, max_price = Some 0,
      current_price = Some 0, last_refresh_utc = None\<rparr>"

definition new_coordinator :: "nat \<Rightarrow> string \<Rightarrow> nat \<Rightarrow> coordinator" where
  "new_coordinator api region price_resolution =
     \<lparr>co_api = api, co_region = region, co_resolution = price_resolution,
      co_data = Placeholder placeholder_data, co_last_update_success = True, co_last_update = None\<rparr>"

text \<open>Lines 85--100, \<open>_async_update_data\<close>: \<open>fetch_data(region, price_resolution)\<close> on
  the coordinator's API; \<open>False\<close> and every exception become \<open>UpdateFailed\<close> (\<open>None\<close>);
  on \<open>True\<close> \<open>last_update\<close> is set and the result is \<open>api._get_cache_data(region)\<close>.\<close>

definition async_update_data ::
  "tzenv \<Rightarrow> coordinator \<Rightarrow> instant \<Rightarrow> (http_request \<Rightarrow> http_reply) \<Rightarrow> instant \<Rightarrow> api_cache \<Rightarrow>
   coord_data option \<times> coordinator \<times> api_cache \<times> http_request list" where
  "async_update_data e co now net t api =
     (case fetch_data e (co_region co) (co_resolution co) False now net t api of
        (Inr True, api', reqs) \<Rightarrow>
          (let (_, api'') = get_cache_data (co_region co) api'
           in (Some (SharedDict (co_region co)), co\<lparr>co_last_update := Some t\<rparr>, api'', reqs))
      | (_, api', reqs) \<Rightarrow> (None, co, api', reqs))"

text \<open>The dict \<open>coordinator.data\<close> refers to.\<close>

definition coord_dict :: "host \<Rightarrow> coordinator \<Rightarrow> cache_entry option" where
  "coord_dict h co =
     (case co_data co of Placeholder d \<Rightarrow> Some d | SharedDict r \<Rightarrow> h_apis h (co_api co) r)"

text \<open>\<open>coordinator.data[k] = v\<close> for the coordinator of entry \<open>i\<close>: a write through the
  reference.\<close>

definition coord_write :: "(cache_entry \<Rightarrow> cache_entry) \<Rightarrow> nat \<Rightarrow> host \<Rightarrow> host" where
  "coord_write f i h =
     (case h_coords h i of
        None \<Rightarrow> h
      | Some co \<Rightarrow>
          (case co_data co of
             Placeholder d \<Rightarrow> h\<lparr>h_coords := (h_coords h)(i \<mapsto> co\<lparr>co_data := Placeholder (f d)\<rparr>)\<rparr>
           | SharedDict r \<Rightarrow>
               (case h_apis h (co_api co) r of
                  None \<Rightarrow> h
                | Some d \<Rightarrow> h\<lparr>h_apis := (h_apis h)(co_api co := (h_apis h (co_api co))(r \<mapsto> f d))\<rparr>)))"

section \<open>The sensor (lines 103--195)\<close>

text \<open>The \<open>state\<close> property (lines 120--124).\<close>

definition sensor_state :: "host \<Rightarrow> coordinator \<Rightarrow> rat option" where
  "sensor_state h co = (case coord_dict h co of None \<Rightarrow> None | Some d \<Rightarrow> current_price d)"

text \<open>\<open>async_write_ha_state\<close> of entry \<open>i\<close>'s sensor: its state, or unavailable when the
  coordinator's last update failed.\<close>

definition write_ha_state :: "nat \<Rightarrow> host \<Rightarrow> host" where
  "write_ha_state i h =
     (case (h_coords h i, h_sensor_type h i) of
        (Some co, Some _) \<Rightarrow>
          h\<lparr>h_published := (h_published h)(i \<mapsto>
              (if co_last_update_success co then Published (sensor_state h co) else Unavailable))\<rparr>
      | _ \<Rightarrow> h)"

text \<open>Lines 174--193, \<open>async_update_state\<close>: the price for the sensor's type from the
  coordinator's API, written into \<open>coordinator.data\<close> with the time, then the state is
  written. An exception of \<open>calculate_current_price\<close> leaves the method before the
  writes.\<close>

definition async_update_state :: "tzenv \<Rightarrow> nat \<Rightarrow> pydt \<Rightarrow> instant \<Rightarrow> host \<Rightarrow> (pyexc + unit) \<times> host" where
  "async_update_state e i now_dt t h =
     (case (h_coords h i, h_sensor_type h i) of
        (Some co, Some pt) \<Rightarrow>
          (case calculate_current_price e (co_region co) (co_resolution co) pt now_dt (h_apis h (co_api co)) of
             (Inl ex, api') \<Rightarrow> (Inl ex, h\<lparr>h_apis := (h_apis h)(co_api co := api')\<rparr>)
           | (Inr new_price, api') \<Rightarrow>
               (Inr (), write_ha_state i
                  (coord_write (\<lambda>d. d\<lparr>last_refresh_utc := Some t\<rparr>) i
                    (coord_write (\<lambda>d. d\<lparr>current_price := new_price\<rparr>) i
                      (h\<lparr>h_apis := (h_apis h)(co_api co := api')\<rparr>)))))
      | _ \<Rightarrow> (Inr (), h))"

text \<open>Lines 106--118 and 126--133: what the sensor declares about itself, from the region
  and price type it was built with (line 54); \<open>entity_category\<close> is left at its default
  \<open>None\<close> there.\<close>

record sensor_description =
  sd_device_class :: string
  sd_state_class :: string
  sd_entity_category :: "string option"
  sd_unique_id :: string
  sd_name :: string
  sd_icon :: string
  sd_unit :: string
  sd_display_precision :: nat

definition sensor_entity_description :: "string \<Rightarrow> string \<Rightarrow> sensor_description" where
  "sensor_entity_description region price_type =
     \<lparr>sd_device_class = ''monetary'', sd_state_class = ''measurement'', sd_entity_category = None,
      sd_unique_id = DOMAIN @ ''_'' @ region @ ''_'' @ price_type @ ''_price'',
      sd_name = ''Spot Price '' @ region @ '' '' @ price_type,
      sd_icon = ''mdi:flash'', sd_unit = ''EUR/kWh'', sd_display_precision = 5\<rparr>"

text \<open>Lines 135--155, \<open>extra_state_attributes\<close>: the coordinator's region and three keys of
  the dict its data refers to.\<close>

record sensor_attributes =
  at_region :: string
  at_current_price :: "rat option"
  at_min_price :: "rat option"
  at_max_price :: "rat option"

definition extra_state_attributes :: "host \<Rightarrow> coordinator \<Rightarrow> sensor_attributes" where
  "extra_state_attributes h co =
     (case coord_dict h co of
        None \<Rightarrow> \<lparr>at_region = co_region co, at_current_price = None, at_min_price = None, at_max_price = None\<rparr>
      | Some d \<Rightarrow> \<lparr>at_region = co_region co, at_current_price = current_price d,
                   at_min_price = min_price d, at_max_price = max_price d\<rparr>)"

text \<open>Lines 157--171, \<open>async_added_to_hass\<close>: the quarter-hour timer (the host's
  \<open>SensorTick\<close> events) and the immediate update.\<close>

definition async_added_to_hass :: "tzenv \<Rightarrow> nat \<Rightarrow> pydt \<Rightarrow> instant \<Rightarrow> host \<Rightarrow> (pyexc + unit) \<times> host" where
  "async_added_to_hass e i now_dt t h = async_update_state e i now_dt t h"

text \<open>A scheduled refresh of entry \<open>i\<close>'s coordinator (every 120 minutes, line 82) on its
  API object, and the notification of its sensor.\<close>

definition coordinator_refresh ::
  "tzenv \<Rightarrow> nat \<Rightarrow> instant \<Rightarrow> (http_request \<Rightarrow> http_reply) \<Rightarrow> instant \<Rightarrow> host \<Rightarrow> host \<times> http_request list" where
  "coordinator_refresh e i now net t h =
     (case h_coords h i of
        None \<Rightarrow> (h, [])
      | Some co \<Rightarrow>
          (let (res, co1, api', reqs) = async_update_data e co now net t (h_apis h (co_api co));
               co2 = (case res of
                        Some d \<Rightarrow> co1\<lparr>co_data := d, co_last_update_success := True\<rparr>
                      | None \<Rightarrow> co1\<lparr>co_last_update_success := False\<rparr>);
               h1 = h\<lparr>h_apis := (h_apis h)(co_api co := api'), h_coords := (h_coords h)(i \<mapsto> co2)\<rparr>
           in (if co_last_update_success co \<or> co_last_update_success co2 then write_ha_state i h1 else h1,
               reqs)))"

section \<open>Setting up and unloading an entry\<close>

text \<open>Lines 41--47: \<open>hass.data[DOMAIN]['api']\<close>, created (a new, empty
  \<open>SpotHintaAPI\<close>) when absent.\<close>

definition ensure_api :: "host \<Rightarrow> nat \<times> host" where
  "ensure_api h =
     (case h_domain_api h of
        Some a \<Rightarrow> (a, h)
      | None \<Rightarrow> (h_next_api h,
                 h\<lparr>h_apis := (h_apis h)(h_next_api h := Map.empty), h_next_api := Suc (h_next_api h),
                   h_domain_api := Some (h_next_api h)\<rparr>))"

text \<open>Lines 37--39: \<open>entry.data.get\<close> of region, resolution and price type, with their
  defaults.\<close>

definition entry_settings :: "entry_config \<Rightarrow> string \<times> nat \<times> string" where
  "entry_settings cfg =
     ((case cfg_region cfg of None \<Rightarrow> DEFAULT_REGION | Some r \<Rightarrow> r),
      (case cfg_resolution cfg of None \<Rightarrow> PRICE_RESOLUTION | Some n \<Rightarrow> n),
      (case cfg_price_type cfg of None \<Rightarrow> DEFAULT_PRICE_TYPE | Some p \<Rightarrow> p))"

text \<open>Lines 34--55, \<open>async_setup_entry\<close> of entry \<open>i\<close>: the settings, the shared API, a
  new coordinator and its first refresh. When that refresh fails,
  \<open>ConfigEntryNotReady\<close> ends the setup (\<open>False\<close>) with the API's cache as the refresh
  left it; otherwise the coordinator holds the region's dict and the sensor is added.\<close>

definition async_setup_entry ::
  "tzenv \<Rightarrow> nat \<Rightarrow> entry_config \<Rightarrow> instant \<Rightarrow> (http_request \<Rightarrow> http_reply) \<Rightarrow> instant \<Rightarrow> host \<Rightarrow>
   bool \<times> host \<times> http_request list" where
  "async_setup_entry e i cfg now net t h =
     (let (region, price_resolution, price_type) = entry_settings cfg;
          (a, h0) = ensure_api h;
          (res, co, api', reqs) = async_update_data e (new_coordinator a region price_resolution) now net t (h_apis h0 a);
          h1 = h0\<lparr>h_apis := (h_apis h0)(a := api')\<rparr>
      in case res of
           None \<Rightarrow> (False, h1, reqs)
         | Some d \<Rightarrow>
             (True, h1\<lparr>h_coords := (h_coords h1)(i \<mapsto> co\<lparr>co_data := d, co_last_update_success := True\<rparr>),
                       h_sensor_type := (h_sensor_type h1)(i \<mapsto> price_type)\<rparr>, reqs))"

text \<open>\<^verbatim>\<open>__init__.py\<close> lines 15--22, \<open>async_unload_entry\<close>: the platform's entities of the
  entry go (its sensor, its timer and its coordinator), and then all of
  \<open>hass.data[DOMAIN]\<close>, the shared API included, whatever other entries are loaded.\<close>

definition async_unload_entry :: "nat \<Rightarrow> host \<Rightarrow> bool \<times> host" where
  "async_unload_entry i h =
     (True, h\<lparr>h_coords := (h_coords h)(i := None), h_sensor_type := (h_sensor_type h)(i := None),
              h_published := (h_published h)(i := None), h_domain_api := None\<rparr>)"

section \<open>Lemmas\<close>

text \<open>\<open>_async_update_data\<close> is \<open>fetch_data\<close> and a lookup that always finds the region,
  since \<open>fetch_data\<close> leaves a dict for it.\<close>

lemma async_update_data_eq:
  "async_update_data e co now net t api =
     (case fetch_data e (co_region co) (co_resolution co) False now net t api of
        (r, api', reqs) \<Rightarrow>
          if r = Inr True then (Some (SharedDict (co_region co)), co\<lparr>co_last_update := Some t\<rparr>, api', reqs)
          else (None, co, api', reqs))"
proof -
  obtain r api' reqs where fd: "fetch_data e (co_region co) (co_resolution co) False now net t api = (r, api', reqs)"
    by (cases "fetch_data e (co_region co) (co_resolution co) False now net t api") auto
  then have "co_region co \<in> dom api'"
    using fetch_data_dom [of e "co_region co" "co_resolution co" False now net t api] by simp
  then obtain c where "api' (co_region co) = Some c" by auto
  then show ?thesis using fd
    by (auto simp: async_update_data_def split: sum.splits bool.splits)
qed

lemma entry_wf_sensor_fields [simp]:
  "entry_wf (d\<lparr>current_price := p\<rparr>) = entry_wf d"
  "entry_wf (d\<lparr>last_refresh_utc := u\<rparr>) = entry_wf d"
  by (simp_all add: entry_wf_def)

lemma coord_write_shared:
  "h_coords h i = Some co \<Longrightarrow> co_data co = SharedDict r \<Longrightarrow> h_apis h (co_api co) r = Some d \<Longrightarrow>
   coord_write f i h = h\<lparr>h_apis := (h_apis h)(co_api co := (h_apis h (co_api co))(r \<mapsto> f d))\<rparr>"
  by (simp add: coord_write_def)

lemma write_ha_state_frame [simp]:
  "h_apis (write_ha_state i h) = h_apis h" "h_next_api (write_ha_state i h) = h_next_api h"
  "h_domain_api (write_ha_state i h) = h_domain_api h" "h_coords (write_ha_state i h) = h_coords h"
  "h_sensor_type (write_ha_state i h) = h_sensor_type h"
  by (simp_all add: write_ha_state_def split: option.splits)

text \<open>What a refresh returns and leaves: the cache and the requests of \<open>fetch_data\<close>, the
  coordinator unchanged but for \<open>last_update\<close>, and on success the region's dict.\<close>

lemma async_update_data_facts:
  assumes "async_update_data e co now net t api = (res, co1, api', reqs)" and "cache_wf api"
  shows "cache_wf api'" and "dom api' = insert (co_region co) (dom api)"
    and "res = None \<or> res = Some (SharedDict (co_region co))"
    and "co_api co1 = co_api co \<and> co_region co1 = co_region co \<and> co_resolution co1 = co_resolution co \<and>
         co_data co1 = co_data co \<and> co_last_update_success co1 = co_last_update_success co"
    and "api' = fst (snd (fetch_data e (co_region co) (co_resolution co) False now net t api))"
    and "reqs = snd (snd (fetch_data e (co_region co) (co_resolution co) False now net t api))"
  using assms fetch_data_wf [OF assms(2), of e "co_region co" "co_resolution co" False now net t]
    fetch_data_dom [of e "co_region co" "co_resolution co" False now net t api]
  by (auto simp: async_update_data_eq split: prod.splits if_splits)

lemma fetch_data_requests_le: "length (snd (snd (fetch_data e region res force now net t st))) \<le> 1"
  by (simp add: fetch_data_requests)

lemma async_update_data_requests:
  "async_update_data e co now net t api = (r, co1, api', reqs) \<Longrightarrow> length reqs \<le> 1"
  using fetch_data_requests_le [of e "co_region co" "co_resolution co" False now net t api]
  by (cases "fetch_data e (co_region co) (co_resolution co) False now net t api")
     (auto simp: async_update_data_eq split: if_splits)

lemma calculate_current_price_present:
  "st region = Some d \<Longrightarrow> snd (calculate_current_price e region res pt now_dt st) = st"
  by (simp add: calculate_current_price_state)

end
