(* ===== verification/Host.thy ===== *)
theory Host
  imports Sensor
begin

text \<open>
  The integration inside Home Assistant as a transition system on \<open>host\<close>: the events
  are the setup of a config entry (with the sensor's immediate update when it succeeds), a
  scheduled coordinator refresh, a quarter-hour sensor tick, and the unload of an entry.
  Every event carries the clock readings and the network it sees. The theory proves that
  every event preserves the store invariant \<open>host_wf\<close>; the example installations and
  the properties of the reachable hosts are in \<open>Installation\<close>.
\<close>

section \<open>Events and runs\<close>

datatype host_op =
    SetupEntry nat entry_config instant "http_request \<Rightarrow> http_reply" instant pydt instant
  | RefreshEntry nat instant "http_request \<Rightarrow> http_reply" instant
  | SensorTick nat pydt instant
  | UnloadEntry nat

text \<open>Home Assistant sets up an entry that is not loaded and unloads one that is. A
  setup that succeeds adds the sensor, whose \<open>async_added_to_hass\<close> makes the immediate
  update at the clock readings \<open>now_dt\<close> and \<open>t'\<close>.\<close>

text \<open>\<^verbatim>\<open>__init__.py\<close> lines 6--12, the integration's \<open>async_setup_entry\<close>: it forwards
  the entry to its one platform (\<open>PLATFORMS = ["sensor"]\<close>), whose \<open>async_setup_entry\<close>
  adds the sensor when the first refresh succeeds, after which Home Assistant runs the
  sensor's \<open>async_added_to_hass\<close>; it returns \<open>True\<close> whatever the platform did.\<close>

definition init_async_setup_entry ::
  "tzenv \<Rightarrow> nat \<Rightarrow> entry_config \<Rightarrow> instant \<Rightarrow> (http_request \<Rightarrow> http_reply) \<Rightarrow> instant \<Rightarrow> pydt \<Rightarrow> instant \<Rightarrow>
   host \<Rightarrow> bool \<times> host \<times> http_request list" where
  "init_async_setup_entry e i cfg now net t now_dt t' h =
     (case async_setup_entry e i cfg now net t h of
        (True, h1, reqs) \<Rightarrow> (True, snd (async_added_to_hass e i now_dt t' h1), reqs)
      | (False, h1, reqs) \<Rightarrow> (True, h1, reqs))"

fun host_step :: "tzenv \<Rightarrow> host_op \<Rightarrow> host \<Rightarrow> host \<times> http_request list" where
  "host_step e (SetupEntry i cfg now net t now_dt t') h =
     (if h_coords h i = None then snd (init_async_setup_entry e i cfg now net t now_dt t' h) else (h, []))"
| "host_step e (RefreshEntry i now net t) h = coordinator_refresh e i now net t h"
| "host_step e (SensorTick i now_dt t) h = (snd (async_update_state e i now_dt t h), [])"
| "host_step e (UnloadEntry i) h =
     (if h_coords h i = None then h else snd (async_unload_entry i h), [])"

fun host_run :: "tzenv \<Rightarrow> host_op list \<Rightarrow> host \<Rightarrow> host \<times> http_request list" where
  "host_run e [] h = (h, [])"
| "host_run e (op # ops) h =
     (let (h1, r1) = host_step e op h; (h2, r2) = host_run e ops h1 in (h2, r1 @ r2))"

definition empty_host :: host where
  "empty_host =
     \<lparr>h_apis = (\<lambda>_. Map.empty), h_next_api = 0, h_domain_api = None, h_coords = Map.empty,
      h_sensor_type = Map.empty, h_published = Map.empty\<rparr>"

inductive reachable_host :: "tzenv \<Rightarrow> host \<Rightarrow> bool" for e :: tzenv where
  init: "reachable_host e empty_host"
| step: "reachable_host e h \<Longrightarrow> reachable_host e (fst (host_step e op h))"

section \<open>The store invariant\<close>

text \<open>A loaded coordinator uses an allocated API object and its data is the dict of its
  own region there.\<close>

definition coord_ok :: "host \<Rightarrow> coordinator \<Rightarrow> bool" where
  "coord_ok h co \<longleftrightarrow>
     co_api co < h_next_api h \<and> co_data co = SharedDict (co_region co) \<and>
     co_region co \<in> dom (h_apis h (co_api co))"

definition host_wf :: "host \<Rightarrow> bool" where
  "host_wf h \<longleftrightarrow>
     (\<forall>a. cache_wf (h_apis h a)) \<and>
     pred_option (\<lambda>a. a < h_next_api h) (h_domain_api h) \<and>
     (\<forall>co\<in>ran (h_coords h). coord_ok h co) \<and>
     dom (h_sensor_type h) = dom (h_coords h)"

text \<open>The events that can issue a request to the provider.\<close>

fun fetching_op :: "host_op \<Rightarrow> bool" where
  "fetching_op (SetupEntry _ _ _ _ _ _ _) = True"
| "fetching_op (RefreshEntry _ _ _ _) = True"
| "fetching_op _ = False"

section \<open>Lemmas\<close>

lemma ran_upd_all:
  "P v \<Longrightarrow> \<forall>x\<in>ran m. P x \<Longrightarrow> \<forall>x\<in>ran (m(i \<mapsto> v)). P x"
  by (auto simp: ran_def split: if_splits)

lemma ran_del_all:
  "\<forall>x\<in>ran m. P x \<Longrightarrow> \<forall>x\<in>ran (m(i := None)). P x"
  by (auto simp: ran_def split: if_splits)

lemma host_wf_coord:
  "host_wf h \<Longrightarrow> h_coords h i = Some co \<Longrightarrow> coord_ok h co"
  by (auto simp: host_wf_def ran_def)

text \<open>Replacing an API object's cache by a well-formed one that keeps its regions.\<close>

lemma host_wf_api_update:
  assumes "host_wf h" and "cache_wf api'" and "dom (h_apis h a) \<subseteq> dom api'"
  shows "host_wf (h\<lparr>h_apis := (h_apis h)(a := api')\<rparr>)"
proof -
  have "coord_ok (h\<lparr>h_apis := (h_apis h)(a := api')\<rparr>) co" if "coord_ok h co" for co
    using that assms(3) by (auto simp: coord_ok_def)
  then show ?thesis using assms(1,2) by (simp add: host_wf_def)
qed

lemma host_wf_write_ha_state [simp]: "host_wf (write_ha_state i h) = host_wf h"
  by (simp add: host_wf_def coord_ok_def)

lemma coord_write_wf:
  assumes "host_wf h" and "\<And>d. entry_wf (f d) = entry_wf d"
  shows "host_wf (coord_write f i h)"
proof (cases "h_coords h i")
  case None
  then show ?thesis using assms(1) by (simp add: coord_write_def)
next
  case (Some co)
  then have ok: "coord_ok h co" using assms(1) host_wf_coord by blast
  then obtain d where d: "h_apis h (co_api co) (co_region co) = Some d"
    by (auto simp: coord_ok_def)
  have "cache_wf (h_apis h (co_api co))" using assms(1) by (simp add: host_wf_def)
  then have "cache_wf ((h_apis h (co_api co))(co_region co \<mapsto> f d))"
    using d assms(2) by (simp add: cache_wf_update cache_wf_entry)
  moreover have "dom (h_apis h (co_api co)) \<subseteq> dom ((h_apis h (co_api co))(co_region co \<mapsto> f d))"
    by auto
  moreover have "coord_write f i h =
      h\<lparr>h_apis := (h_apis h)(co_api co := (h_apis h (co_api co))(co_region co \<mapsto> f d))\<rparr>"
    using coord_write_shared [OF Some _ d, of f] ok by (simp add: coord_ok_def)
  ultimately show ?thesis using host_wf_api_update [OF assms(1)] by simp
qed


lemma ensure_api_wf:
  assumes "host_wf h" and "ensure_api h = (a, h0)"
  shows "host_wf h0" and "a < h_next_api h0" and "h_domain_api h0 = Some a"
    and "h_coords h0 = h_coords h" and "h_sensor_type h0 = h_sensor_type h"
proof -
  have "host_wf h0 \<and> a < h_next_api h0 \<and> h_domain_api h0 = Some a \<and>
        h_coords h0 = h_coords h \<and> h_sensor_type h0 = h_sensor_type h"
  proof (cases "h_domain_api h")
    case None
    with assms(2) have h0: "h0 = h\<lparr>h_apis := (h_apis h)(h_next_api h := Map.empty),
        h_next_api := Suc (h_next_api h), h_domain_api := Some (h_next_api h)\<rparr>" and a: "a = h_next_api h"
      by (auto simp: ensure_api_def)
    have "coord_ok h0 co" if "coord_ok h co" for co
      using that by (auto simp: h0 coord_ok_def)
    then have "\<forall>co\<in>ran (h_coords h0). coord_ok h0 co"
      using assms(1) by (auto simp: host_wf_def h0)
    then show ?thesis
      using assms(1) by (auto simp: host_wf_def h0 a cache_wf_def)
  next
    case (Some b)
    then show ?thesis using assms by (auto simp: ensure_api_def host_wf_def)
  qed
  then show "host_wf h0" and "a < h_next_api h0" and "h_domain_api h0 = Some a"
    and "h_coords h0 = h_coords h" and "h_sensor_type h0 = h_sensor_type h" by simp_all
qed

lemma coord_ok_frame [simp]:
  "coord_ok (h\<lparr>h_coords := m\<rparr>) = coord_ok h" "coord_ok (h\<lparr>h_sensor_type := s\<rparr>) = coord_ok h"
  "coord_ok (h\<lparr>h_published := p\<rparr>) = coord_ok h" "coord_ok (h\<lparr>h_domain_api := x\<rparr>) = coord_ok h"
  by (simp_all add: coord_ok_def fun_eq_iff)

lemma host_wf_api_step:
  assumes "host_wf h" and "async_update_data e co now net t (h_apis h a) = (res, co1, api', reqs)"
  shows "host_wf (h\<lparr>h_apis := (h_apis h)(a := api')\<rparr>)"
proof -
  have "cache_wf (h_apis h a)" using assms(1) by (simp add: host_wf_def)
  then have "cache_wf api'" and "dom (h_apis h a) \<subseteq> dom api'"
    using async_update_data_facts(1,2) [OF assms(2)] by auto
  then show ?thesis by (rule host_wf_api_update [OF assms(1)])
qed

lemma async_setup_entry_wf:
  assumes "host_wf h"
  shows "host_wf (fst (snd (async_setup_entry e i cfg now net t h)))"
proof -
  obtain region pr pt where es: "entry_settings cfg = (region, pr, pt)" by (cases "entry_settings cfg") auto
  obtain a h0 where ea: "ensure_api h = (a, h0)" by (cases "ensure_api h")
  obtain res co api' reqs where ud:
    "async_update_data e (new_coordinator a region pr) now net t (h_apis h0 a) = (res, co, api', reqs)"
    by (cases "async_update_data e (new_coordinator a region pr) now net t (h_apis h0 a)") auto
  define h1 where "h1 = h0\<lparr>h_apis := (h_apis h0)(a := api')\<rparr>"
  have wf0: "host_wf h0" and a: "a < h_next_api h0" using ensure_api_wf [OF assms ea] by simp_all
  have wf1: "host_wf h1" unfolding h1_def using host_wf_api_step [OF wf0 ud] .
  have cw: "cache_wf (h_apis h0 a)" using wf0 by (simp add: host_wf_def)
  note f = async_update_data_facts [OF ud cw]
  have eq: "async_setup_entry e i cfg now net t h =
     (case res of None \<Rightarrow> (False, h1, reqs)
      | Some d \<Rightarrow> (True, h1\<lparr>h_coords := (h_coords h1)(i \<mapsto> co\<lparr>co_data := d, co_last_update_success := True\<rparr>),
                       h_sensor_type := (h_sensor_type h1)(i \<mapsto> pt)\<rparr>, reqs))"
    unfolding h1_def using ea ud es by (simp add: async_setup_entry_def Let_def)
  show ?thesis
  proof (cases res)
    case None
    then show ?thesis using eq wf1 by simp
  next
    case (Some d)
    let ?co = "co\<lparr>co_data := d, co_last_update_success := True\<rparr>"
    have "coord_ok h1 ?co"
      using f(2-4) Some a by (auto simp: coord_ok_def h1_def new_coordinator_def)
    then have "\<forall>x\<in>ran ((h_coords h1)(i \<mapsto> ?co)). coord_ok h1 x"
      using wf1 ran_upd_all [of "coord_ok h1" ?co "h_coords h1" i] by (simp add: host_wf_def)
    then have "host_wf (h1\<lparr>h_coords := (h_coords h1)(i \<mapsto> ?co), h_sensor_type := (h_sensor_type h1)(i \<mapsto> pt)\<rparr>)"
      using wf1 by (simp add: host_wf_def)
    then show ?thesis using eq Some by simp
  qed
qed

lemma coordinator_refresh_wf:
  assumes "host_wf h"
  shows "host_wf (fst (coordinator_refresh e i now net t h))"
proof (cases "h_coords h i")
  case None
  then show ?thesis using assms by (simp add: coordinator_refresh_def)
next
  case (Some co)
  have ok: "coord_ok h co" using assms Some host_wf_coord by blast
  obtain res co1 api' reqs where ud: "async_update_data e co now net t (h_apis h (co_api co)) = (res, co1, api', reqs)"
    by (cases "async_update_data e co now net t (h_apis h (co_api co))") auto
  have cw: "cache_wf (h_apis h (co_api co))" using assms by (simp add: host_wf_def)
  note f = async_update_data_facts [OF ud cw]
  define co2 where "co2 = (case res of Some d \<Rightarrow> co1\<lparr>co_data := d, co_last_update_success := True\<rparr>
                                       | None \<Rightarrow> co1\<lparr>co_last_update_success := False\<rparr>)"
  define hA where "hA = h\<lparr>h_apis := (h_apis h)(co_api co := api')\<rparr>"
  have wfA: "host_wf hA" unfolding hA_def using host_wf_api_step [OF assms ud] .
  have "coord_ok hA co2"
    using f(2-4) ok by (auto simp: coord_ok_def co2_def hA_def split: option.splits)
  then have "\<forall>x\<in>ran ((h_coords hA)(i \<mapsto> co2)). coord_ok hA x"
    using wfA ran_upd_all [of "coord_ok hA" co2 "h_coords hA" i] by (simp add: host_wf_def)
  moreover have "dom ((h_coords hA)(i \<mapsto> co2)) = dom (h_coords hA)"
    using Some by (auto simp: hA_def)
  ultimately have "host_wf (hA\<lparr>h_coords := (h_coords hA)(i \<mapsto> co2)\<rparr>)"
    using wfA by (simp add: host_wf_def)
  then show ?thesis
    using Some ud by (simp add: coordinator_refresh_def co2_def hA_def Let_def)
qed

lemma async_update_state_wf:
  assumes "host_wf h"
  shows "host_wf (snd (async_update_state e i now_dt t h))"
proof (cases "h_coords h i = None \<or> h_sensor_type h i = None")
  case True
  then show ?thesis using assms by (auto simp: async_update_state_def split: option.splits)
next
  case False
  then obtain co pt where co: "h_coords h i = Some co" and pt: "h_sensor_type h i = Some pt" by auto
  obtain r api' where cc: "calculate_current_price e (co_region co) (co_resolution co) pt now_dt (h_apis h (co_api co)) = (r, api')"
    by (cases "calculate_current_price e (co_region co) (co_resolution co) pt now_dt (h_apis h (co_api co))")
  have cw: "cache_wf (h_apis h (co_api co))" using assms by (simp add: host_wf_def)
  have api': "api' = snd (get_cache_data (co_region co) (h_apis h (co_api co)))"
    using calculate_current_price_state [of e "co_region co" "co_resolution co" pt now_dt "h_apis h (co_api co)"] cc
    by simp
  have "cache_wf api'" using cw api' get_cache_data_wf [OF cw] by (metis prod.exhaust_sel)
  moreover have "dom (h_apis h (co_api co)) \<subseteq> dom api'" using api' get_cache_data_dom by auto
  ultimately have wfA: "host_wf (h\<lparr>h_apis := (h_apis h)(co_api co := api')\<rparr>)"
    by (rule host_wf_api_update [OF assms])
  show ?thesis
  proof (cases r)
    case (Inl ex)
    then show ?thesis using co pt cc wfA by (simp add: async_update_state_def)
  next
    case (Inr p)
    then show ?thesis using co pt cc wfA
      by (simp add: async_update_state_def coord_write_wf)
  qed
qed

lemma async_unload_entry_wf:
  "host_wf h \<Longrightarrow> host_wf (snd (async_unload_entry i h))"
  using ran_del_all [where P = "coord_ok h" and m = "h_coords h" and i = i]
  by (auto simp: host_wf_def async_unload_entry_def)

lemma host_step_wf:
  assumes "host_wf h"
  shows "host_wf (fst (host_step e op h))"
proof (cases op)
  case (SetupEntry i cfg now net t now_dt t')
  have "host_wf (fst (snd (async_setup_entry e i cfg now net t h)))"
    using assms by (rule async_setup_entry_wf)
  then show ?thesis using assms SetupEntry
    by (auto simp: init_async_setup_entry_def async_added_to_hass_def async_update_state_wf
        split: prod.splits bool.splits)
qed (simp_all add: assms coordinator_refresh_wf async_update_state_wf async_unload_entry_wf)

lemma empty_host_wf: "host_wf empty_host"
  by (simp add: host_wf_def empty_host_def cache_wf_def)

lemma host_wf_reachable: "reachable_host e h \<Longrightarrow> host_wf h"
  by (induction rule: reachable_host.induct) (simp_all add: empty_host_wf host_step_wf)

lemma async_update_state_cases:
  assumes wf: "host_wf h" and co: "h_coords h i = Some co" and pt: "h_sensor_type h i = Some pt"
  obtains d where "h_apis h (co_api co) (co_region co) = Some d" and "co_data co = SharedDict (co_region co)"
    and "fst (calculate_current_price e (co_region co) (co_resolution co) pt now_dt (h_apis h (co_api co))) = Inl ex \<Longrightarrow>
         async_update_state e i now_dt t h = (Inl ex, h)"
    and "fst (calculate_current_price e (co_region co) (co_resolution co) pt now_dt (h_apis h (co_api co))) = Inr p \<Longrightarrow>
         async_update_state e i now_dt t h =
           (Inr (), h\<lparr>h_apis := (h_apis h)(co_api co := (h_apis h (co_api co))(co_region co \<mapsto>
                                      d\<lparr>current_price := p, last_refresh_utc := Some t\<rparr>)),
                      h_published := (h_published h)(i \<mapsto>
                        (if co_last_update_success co then Published p else Unavailable))\<rparr>)"
proof -
  have ok: "coord_ok h co" using wf co host_wf_coord by blast
  then obtain d where d: "h_apis h (co_api co) (co_region co) = Some d"
    and sd: "co_data co = SharedDict (co_region co)" by (auto simp: coord_ok_def)
  let ?api = "h_apis h (co_api co)"
  let ?cc = "calculate_current_price e (co_region co) (co_resolution co) pt now_dt ?api"
  have snd_cc: "snd ?cc = ?api" using calculate_current_price_present [where st = ?api and region = "co_region co", OF d] .
  have h_same: "h\<lparr>h_apis := (h_apis h)(co_api co := ?api)\<rparr> = h" by simp
  have "async_update_state e i now_dt t h = (Inl ex, h)" if "fst ?cc = Inl ex"
  proof -
    have "?cc = (Inl ex, ?api)" using that snd_cc by (metis prod.collapse)
    then show ?thesis using co pt by (simp add: async_update_state_def)
  qed
  moreover have "async_update_state e i now_dt t h =
           (Inr (), h\<lparr>h_apis := (h_apis h)(co_api co := ?api(co_region co \<mapsto>
                                      d\<lparr>current_price := p, last_refresh_utc := Some t\<rparr>)),
                      h_published := (h_published h)(i \<mapsto>
                        (if co_last_update_success co then Published p else Unavailable))\<rparr>)" if "fst ?cc = Inr p"
  proof -
    have "?cc = (Inr p, ?api)" using that snd_cc by (metis prod.collapse)
    then show ?thesis using co pt d sd
      by (simp add: async_update_state_def coord_write_def write_ha_state_def sensor_state_def coord_dict_def)
  qed
  ultimately show ?thesis using that d sd by blast
qed

lemma host_step_requests: "length (snd (host_step e op h)) \<le> (if fetching_op op then 1 else 0)"
proof (cases op)
  case (SetupEntry i cfg now net t now_dt t')
  then show ?thesis
    by (auto simp: init_async_setup_entry_def async_setup_entry_def Let_def
        split: prod.splits option.splits bool.splits dest: async_update_data_requests)
next
  case (RefreshEntry i now net t)
  then show ?thesis
    by (auto simp: coordinator_refresh_def Let_def split: prod.splits option.splits
        dest: async_update_data_requests)
qed simp_all

lemma reachable_host_run: "reachable_host e h \<Longrightarrow> reachable_host e (fst (host_run e ops h))"
proof (induction ops arbitrary: h)
  case Nil
  then show ?case by simp
next
  case (Cons op ops)
  then show ?case using reachable_host.step [OF Cons.prems, of op] by (simp add: split_beta)
qed

end
