(* ===== verification/Installation.thy ===== *)
theory Installation
  imports Host
begin

text \<open>
  Properties of the reachable hosts of \<open>Host\<close>: the store invariant, what it means for the
  states the sensors write, the request bound, the error path of a refresh; and example
  installations, evaluated step by step, that show how the code departs from the
  specification when several entries share a region.
\<close>

section \<open>Example installations\<close>

text \<open>A config entry for region FI, the provider answering every request with the three
  records of \<open>example_series\<close> in reverse order, and the sensor's clock at 15:00 local
  time on 2024-03-05. Setups happen at 15:00 local (13:00 UTC), after the 14:30 cutover.\<close>

definition fi_entry_config :: "string \<Rightarrow> nat \<Rightarrow> entry_config" where
  "fi_entry_config pt res = \<lparr>cfg_region = Some ''FI'', cfg_resolution = Some res, cfg_price_type = Some pt\<rparr>"

definition example_provider :: "http_request \<Rightarrow> http_reply" where
  "example_provider req = ReplyJson (JArr (rev example_series))"

definition at_1500 :: pydt where "at_1500 = Naive 1709650800000000"

text \<open>The region's dict after a fetch at \<open>t\<close>, a coordinator holding it, and a host with
  one API object (number 0, the one \<open>hass.data\<close> holds) whose FI dict is \<open>c\<close>.\<close>

definition fi_fetched :: "instant \<Rightarrow> cache_entry" where
  "fi_fetched t =
     empty_entry\<lparr>c_data := Some example_series, last_fetch := Some t, min_price := Some 5, max_price := Some 9\<rparr>"

definition fi_coord :: "nat \<Rightarrow> nat \<Rightarrow> instant \<Rightarrow> coordinator" where
  "fi_coord a res t =
     \<lparr>co_api = a, co_region = ''FI'', co_resolution = res, co_data = SharedDict ''FI'',
      co_last_update_success = True, co_last_update = Some t\<rparr>"

definition example_host ::
  "cache_entry \<Rightarrow> (nat \<rightharpoonup> coordinator) \<Rightarrow> (nat \<rightharpoonup> string) \<Rightarrow> (nat \<rightharpoonup> ha_state) \<Rightarrow> host" where
  "example_host c cs ss ps =
     \<lparr>h_apis = (\<lambda>_. Map.empty)(0 := [''FI'' \<mapsto> c]), h_next_api = 1, h_domain_api = Some 0,
      h_coords = cs, h_sensor_type = ss, h_published = ps\<rparr>"

text \<open>Two entries of region FI, VAT and NO\_VAT, set up a minute apart (each sensor
  makes its immediate update); at 17:00 entry 1's coordinator refreshes.\<close>

definition cross_talk_run :: "host_op list" where
  "cross_talk_run =
    [SetupEntry 1 (fi_entry_config ''VAT'' 15) 1709643600000000 example_provider 1709643601000000 at_1500 1709643602000000,
     SetupEntry 2 (fi_entry_config ''NO_VAT'' 15) 1709643660000000 example_provider 1709643661000000 at_1500 1709643662000000,
     RefreshEntry 1 1709650800000000 example_provider 1709650801000000]"

text \<open>Two entries of region FI with different resolutions (the config flow allows them:
  the unique id is region and price type).\<close>

definition resolution_run :: "host_op list" where
  "resolution_run =
    [SetupEntry 1 (fi_entry_config ''VAT'' 15) 1709643600000000 example_provider 1709643601000000 at_1500 1709643602000000,
     SetupEntry 2 (fi_entry_config ''NO_VAT'' 60) 1709643660000000 example_provider 1709643661000000 at_1500 1709643662000000]"

section \<open>Lemmas on the example runs\<close>

lemma example_fetch_empty:
  "fetch_data helsinki_winter ''FI'' res False now example_provider t Map.empty =
   (Inr True, [''FI'' \<mapsto> fi_fetched t], [api_request ''FI'' res])"
  by (simp add: fetch_data_def fetch_needed_def example_provider_def fi_fetched_def
      data_truthy_def sort_reply_def sort_records_def uniform_kind_def finish_fetch_def process_data_def
      example_simps item_datetime_def py_simps Let_def empty_entry_def py_min_def py_max_def fold_min_def fold_max_def)

lemma example_process_data:
  "c_data c = Some example_series \<Longrightarrow> process_data c = Inr (c\<lparr>min_price := Some 5, max_price := Some 9\<rparr>)"
  by (simp add: process_data_def data_truthy_def example_simps py_simps py_min_def py_max_def fold_min_def fold_max_def)

lemma example_price_1500:
  assumes "c_data c = Some example_series"
  shows "calculate_current_price helsinki_winter ''FI'' res ''VAT'' at_1500 [''FI'' \<mapsto> c] = (Inr (Some 9), [''FI'' \<mapsto> c])"
    and "calculate_current_price helsinki_winter ''FI'' res ''NO_VAT'' at_1500 [''FI'' \<mapsto> c] = (Inr (Some 8), [''FI'' \<mapsto> c])"
  using assms
  by (simp_all add: calculate_current_price_def fallback_price_def example_simps item_datetime_def py_simps Let_def at_1500_def)

lemma day_of_afternoon:
  assumes "1709643601000000 \<le> now" and "now < 1709676000000000"
  shows "(now + 7200000000) div 86400000000 = (19787::int)"
proof -
  have "(1709596800000000::int) div 86400000000 \<le> (now + 7200000000) div 86400000000"
    using assms(1) by (intro zdiv_mono1) simp_all
  moreover have "(now + 7200000000) div 86400000000 \<le> (1709683199999999::int) div 86400000000"
    using assms(2) by (intro zdiv_mono1) simp_all
  ultimately show ?thesis by simp
qed

lemma example_served:
  "st ''FI'' = Some c \<Longrightarrow> c_data c = Some example_series \<Longrightarrow> last_fetch c = Some 1709643601000000 \<Longrightarrow>
   1709643601000000 \<le> now \<Longrightarrow> now < 1709676000000000 \<Longrightarrow>
   fetch_data helsinki_winter ''FI'' res False now net t st =
     (Inr True, st(''FI'' \<mapsto> c\<lparr>min_price := Some 5, max_price := Some 9\<rparr>), [])"
  by (simp add: fetch_data_def fetch_needed_def refresh_due_def fetch_time_today_def fi_date_def fi_wall_def
      helsinki_winter_def data_truthy_def example_series_def finish_fetch_def example_process_data
      Let_def cutover_val day_usec_val day_of_afternoon)

text \<open>The immediate update or a tick of a sensor of the example host, given the price the
  resolver returns.\<close>

lemma example_host_update:
  assumes "cs i = Some (fi_coord 0 res tc)" and "ss i = Some pt"
    and "calculate_current_price helsinki_winter ''FI'' res pt now_dt [''FI'' \<mapsto> c] = (Inr p, [''FI'' \<mapsto> c])"
  shows "async_update_state helsinki_winter i now_dt t (example_host c cs ss ps) =
           (Inr (), example_host (c\<lparr>current_price := p, last_refresh_utc := Some t\<rparr>) cs ss (ps(i \<mapsto> Published p)))"
  using assms
  by (simp add: async_update_state_def example_host_def coord_write_def write_ha_state_def sensor_state_def
      coord_dict_def fi_coord_def)

lemma setup_first:
  "async_setup_entry helsinki_winter i (fi_entry_config pt res) now example_provider t empty_host =
   (True, example_host (fi_fetched t) [i \<mapsto> fi_coord 0 res t] [i \<mapsto> pt] Map.empty, [api_request ''FI'' res])"
  by (simp add: empty_host_def async_setup_entry_def entry_settings_def ensure_api_def async_update_data_def
      example_fetch_empty new_coordinator_def fi_entry_config_def example_host_def fi_coord_def fi_fetched_def Let_def)

lemma setup_served:
  assumes "c_data c = Some example_series" and "last_fetch c = Some 1709643601000000"
    and "1709643601000000 \<le> now" and "now < 1709676000000000"
  shows "async_setup_entry helsinki_winter i (fi_entry_config pt res) now example_provider t (example_host c cs ss ps) =
   (True, example_host (c\<lparr>min_price := Some 5, max_price := Some 9\<rparr>) (cs(i \<mapsto> fi_coord 0 res t)) (ss(i \<mapsto> pt)) ps, [])"
  using assms
  by (simp add: async_setup_entry_def entry_settings_def ensure_api_def async_update_data_def example_served
      new_coordinator_def fi_entry_config_def example_host_def fi_coord_def Let_def)

lemma fi_fetched_aggregates [simp]:
  "(fi_fetched t)\<lparr>current_price := a, last_refresh_utc := b, min_price := Some 5, max_price := Some 9\<rparr> =
   (fi_fetched t)\<lparr>current_price := a, last_refresh_utc := b\<rparr>"
  by (simp add: fi_fetched_def)

lemma fi_fetched_series [simp]:
  "c_data ((fi_fetched t)\<lparr>current_price := a, last_refresh_utc := b\<rparr>) = Some example_series"
  "last_fetch ((fi_fetched t)\<lparr>current_price := a, last_refresh_utc := b\<rparr>) = Some t"
  "c_data (fi_fetched t) = Some example_series"
  by (simp_all add: fi_fetched_def)

lemma cross_talk_s1:
  "host_step helsinki_winter (SetupEntry 1 (fi_entry_config ''VAT'' 15) 1709643600000000 example_provider 1709643601000000 at_1500 1709643602000000) empty_host =
   (example_host ((fi_fetched 1709643601000000)\<lparr>current_price := Some 9, last_refresh_utc := Some 1709643602000000\<rparr>)
      [1 \<mapsto> fi_coord 0 15 1709643601000000] [1 \<mapsto> ''VAT''] [1 \<mapsto> Published (Some 9)],
    [api_request ''FI'' 15])"
proof -
  have u: "async_update_state helsinki_winter 1 at_1500 1709643602000000
      (example_host (fi_fetched 1709643601000000) [1 \<mapsto> fi_coord 0 15 1709643601000000] [1 \<mapsto> ''VAT''] Map.empty) =
    (Inr (), example_host ((fi_fetched 1709643601000000)\<lparr>current_price := Some 9, last_refresh_utc := Some 1709643602000000\<rparr>)
      [1 \<mapsto> fi_coord 0 15 1709643601000000] [1 \<mapsto> ''VAT''] [1 \<mapsto> Published (Some 9)])"
    by (rule example_host_update [where res = 15 and tc = 1709643601000000 and pt = "''VAT''"])
       (simp_all add: example_price_1500)
  show ?thesis
    using setup_first [of 1 "''VAT''" 15 1709643600000000 1709643601000000] u
    by (simp add: init_async_setup_entry_def async_added_to_hass_def empty_host_def)
qed


lemma cross_talk_s2:
  "host_step helsinki_winter (SetupEntry 2 (fi_entry_config ''NO_VAT'' res) 1709643660000000 example_provider 1709643661000000 at_1500 1709643662000000)
     (example_host ((fi_fetched 1709643601000000)\<lparr>current_price := Some 9, last_refresh_utc := Some 1709643602000000\<rparr>)
      [1 \<mapsto> fi_coord 0 15 1709643601000000] [1 \<mapsto> ''VAT''] [1 \<mapsto> Published (Some 9)]) =
   (example_host ((fi_fetched 1709643601000000)\<lparr>current_price := Some 8, last_refresh_utc := Some 1709643662000000\<rparr>)
      [1 \<mapsto> fi_coord 0 15 1709643601000000, 2 \<mapsto> fi_coord 0 res 1709643661000000] [1 \<mapsto> ''VAT'', 2 \<mapsto> ''NO_VAT'']
      [1 \<mapsto> Published (Some 9), 2 \<mapsto> Published (Some 8)],
    [])"
proof -
  let ?c = "(fi_fetched 1709643601000000)\<lparr>current_price := Some 9, last_refresh_utc := Some 1709643602000000\<rparr>"
  have su: "async_setup_entry helsinki_winter 2 (fi_entry_config ''NO_VAT'' res) 1709643660000000 example_provider 1709643661000000
      (example_host ?c [1 \<mapsto> fi_coord 0 15 1709643601000000] [1 \<mapsto> ''VAT''] [1 \<mapsto> Published (Some 9)]) =
    (True, example_host ?c [1 \<mapsto> fi_coord 0 15 1709643601000000, 2 \<mapsto> fi_coord 0 res 1709643661000000]
             [1 \<mapsto> ''VAT'', 2 \<mapsto> ''NO_VAT''] [1 \<mapsto> Published (Some 9)], [])"
    using setup_served [where c = ?c and now = 1709643660000000 and i = 2 and pt = "''NO_VAT''" and res = res
        and t = 1709643661000000 and cs = "[1 \<mapsto> fi_coord 0 15 1709643601000000]" and ss = "[1 \<mapsto> ''VAT'']"
        and ps = "[1 \<mapsto> Published (Some 9)]"] by simp
  have u: "async_update_state helsinki_winter 2 at_1500 1709643662000000
      (example_host ?c [1 \<mapsto> fi_coord 0 15 1709643601000000, 2 \<mapsto> fi_coord 0 res 1709643661000000]
             [1 \<mapsto> ''VAT'', 2 \<mapsto> ''NO_VAT''] [1 \<mapsto> Published (Some 9)]) =
    (Inr (), example_host (?c\<lparr>current_price := Some 8, last_refresh_utc := Some 1709643662000000\<rparr>)
             [1 \<mapsto> fi_coord 0 15 1709643601000000, 2 \<mapsto> fi_coord 0 res 1709643661000000]
             [1 \<mapsto> ''VAT'', 2 \<mapsto> ''NO_VAT''] [1 \<mapsto> Published (Some 9), 2 \<mapsto> Published (Some 8)])"
    by (rule example_host_update [where res = res and tc = 1709643661000000 and pt = "''NO_VAT''"])
       (simp_all add: example_price_1500)
  show ?thesis using su u by (simp add: init_async_setup_entry_def async_added_to_hass_def example_host_def)
qed

lemma cross_talk_s3:
  "host_step helsinki_winter (RefreshEntry 1 1709650800000000 example_provider 1709650801000000)
     (example_host ((fi_fetched 1709643601000000)\<lparr>current_price := Some 8, last_refresh_utc := Some 1709643662000000\<rparr>)
      [1 \<mapsto> fi_coord 0 15 1709643601000000, 2 \<mapsto> fi_coord 0 15 1709643661000000] [1 \<mapsto> ''VAT'', 2 \<mapsto> ''NO_VAT'']
      [1 \<mapsto> Published (Some 9), 2 \<mapsto> Published (Some 8)]) =
   (example_host ((fi_fetched 1709643601000000)\<lparr>current_price := Some 8, last_refresh_utc := Some 1709643662000000\<rparr>)
      [1 \<mapsto> fi_coord 0 15 1709650801000000, 2 \<mapsto> fi_coord 0 15 1709643661000000] [1 \<mapsto> ''VAT'', 2 \<mapsto> ''NO_VAT'']
      [1 \<mapsto> Published (Some 8), 2 \<mapsto> Published (Some 8)],
    [])"
  by (simp add: coordinator_refresh_def async_update_data_def example_served write_ha_state_def sensor_state_def
      coord_dict_def example_host_def fi_coord_def fi_fetched_def Let_def empty_entry_def fun_upd_twist)

lemma cross_talk_run_result:
  "host_run helsinki_winter cross_talk_run empty_host =
   (example_host ((fi_fetched 1709643601000000)\<lparr>current_price := Some 8, last_refresh_utc := Some 1709643662000000\<rparr>)
      [1 \<mapsto> fi_coord 0 15 1709650801000000, 2 \<mapsto> fi_coord 0 15 1709643661000000] [1 \<mapsto> ''VAT'', 2 \<mapsto> ''NO_VAT'']
      [1 \<mapsto> Published (Some 8), 2 \<mapsto> Published (Some 8)],
    [api_request ''FI'' 15])"
  by (simp only: cross_talk_run_def host_run.simps cross_talk_s1 cross_talk_s2 cross_talk_s3 Let_def case_prod_conv
      append_Nil append_Cons)

lemma resolution_run_result:
  "host_run helsinki_winter resolution_run empty_host =
   (example_host ((fi_fetched 1709643601000000)\<lparr>current_price := Some 8, last_refresh_utc := Some 1709643662000000\<rparr>)
      [1 \<mapsto> fi_coord 0 15 1709643601000000, 2 \<mapsto> fi_coord 0 60 1709643661000000] [1 \<mapsto> ''VAT'', 2 \<mapsto> ''NO_VAT'']
      [1 \<mapsto> Published (Some 9), 2 \<mapsto> Published (Some 8)],
    [api_request ''FI'' 15])"
  by (simp only: resolution_run_def host_run.simps cross_talk_s1 cross_talk_s2 Let_def case_prod_conv
      append_Nil append_Cons)

lemma cross_talk_reachable: "reachable_host helsinki_winter (fst (host_run helsinki_winter cross_talk_run empty_host))"
  by (rule reachable_host_run [OF reachable_host.init])

text \<open>A due refresh answered with a series that sorts and whose VAT prices are numbers
  succeeds: the series is installed with the fetch time and new aggregates, everything
  else in the region's dict (the price the sensors wrote) stays.\<close>

lemma process_data_succeeds:
  assumes "c_data c = Some items" and "items \<noteq> []" and "vat_price_list items = Inr ps"
  shows "\<exists>mn mx. process_data c = Inr (c\<lparr>min_price := mn, max_price := mx\<rparr>)"
  using assms by (cases "ps = []") (auto simp: process_data_def data_truthy_def py_min_Min py_max_Max)

lemma coordinator_refresh_installs:
  assumes "host_wf h" and "h_coords h i = Some co" and "h_apis h (co_api co) (co_region co) = Some d"
    and "fetch_needed e False d now"
    and "net (api_request (co_region co) (co_resolution co)) = ReplyJson body" and "sort_reply body = Inr items"
    and "items \<noteq> []" and "vat_price_list items = Inr ps"
  shows "co_last_update_success (the (h_coords (fst (coordinator_refresh e i now net t h)) i)) \<and>
         h_published (fst (coordinator_refresh e i now net t h)) i = Some (Published (current_price d))"
proof -
  let ?api = "h_apis h (co_api co)" and ?c1 = "d\<lparr>c_data := Some items, last_fetch := Some t\<rparr>"
  have "i \<in> dom (h_sensor_type h)" using assms(1,2) by (auto simp: host_wf_def)
  then obtain pt where pt: "h_sensor_type h i = Some pt" by auto
  have ok: "co_data co = SharedDict (co_region co)"
    using host_wf_coord [OF assms(1,2)] by (simp add: coord_ok_def)
  obtain mn mx where pd: "process_data ?c1 = Inr (?c1\<lparr>min_price := mn, max_price := mx\<rparr>)"
    using process_data_succeeds [of ?c1 items ps] assms(7,8) by auto
  have gc: "get_cache_data (co_region co) ?api = (d, ?api)" using assms(3) by simp
  have "fetch_data e (co_region co) (co_resolution co) False now net t ?api =
          (Inr True, ?api(co_region co \<mapsto> ?c1\<lparr>min_price := mn, max_price := mx\<rparr>), [api_request (co_region co) (co_resolution co)])"
    using fetch_data_install [where net = net and t = t, OF gc assms(4,5,6)] assms(7) pd by (simp add: finish_fetch_def data_truthy_def Let_def)
  then have "async_update_data e co now net t ?api =
      (Some (SharedDict (co_region co)), co\<lparr>co_last_update := Some t\<rparr>,
       ?api(co_region co \<mapsto> ?c1\<lparr>min_price := mn, max_price := mx\<rparr>), [api_request (co_region co) (co_resolution co)])"
    by (simp add: async_update_data_eq)
  then show ?thesis
    using assms(2) pt ok by (simp add: coordinator_refresh_def write_ha_state_def sensor_state_def coord_dict_def Let_def)
qed

section \<open>Properties of the installation\<close>

text \<open>
  C18. Invariant of the installation: in every host reachable from Home Assistant's start
  by setups, coordinator refreshes, sensor ticks and unloads, with any clocks and any
  replies, every API object's cache is well-formed, and every loaded entry has a sensor
  and a coordinator whose data is the dict of its own region inside the API object it was
  built with (never its placeholder, never another region's dict).
\<close>

theorem reachable_host_wf:
  assumes "reachable_host e h"
  shows "host_wf h"
  using assms
proof (induction rule: reachable_host.induct)
  case init
  then show ?case by (rule empty_host_wf)
next
  case (step h op)
  then show ?case by (simp add: host_step_wf)
qed

theorem reachable_host_wf_witness:
  "reachable_host helsinki_winter (fst (host_run helsinki_winter cross_talk_run empty_host)) \<and>
   host_wf (fst (host_run helsinki_winter cross_talk_run empty_host))"
  using cross_talk_reachable reachable_host_wf [OF cross_talk_reachable] by (intro conjI)

text \<open>
  C19. The state of a sensor does not depend on its price type: in every reachable host,
  two loaded entries of the same region on the same API object report the same state,
  whatever price types their sensors were configured with, because both coordinators' data
  is the one shared dict of the region and \<open>state\<close> reads its \<open>current_price\<close>.
\<close>

theorem sensors_share_region_state:
  assumes "reachable_host e h" and "h_coords h i = Some c1" and "h_coords h j = Some c2"
    and "co_api c1 = co_api c2" and "co_region c1 = co_region c2"
  shows "sensor_state h c1 = sensor_state h c2"
proof -
  have wf: "host_wf h" using assms(1) by (rule host_wf_reachable)
  have "co_data c1 = SharedDict (co_region c1)" and "co_data c2 = SharedDict (co_region c2)"
    using host_wf_coord [OF wf assms(2)] host_wf_coord [OF wf assms(3)] by (simp_all add: coord_ok_def)
  then show ?thesis using assms(4,5) by (simp add: sensor_state_def coord_dict_def)
qed

theorem sensors_share_region_state_witness:
  "reachable_host helsinki_winter (fst (host_run helsinki_winter cross_talk_run empty_host)) \<and>
   h_sensor_type (fst (host_run helsinki_winter cross_talk_run empty_host)) 1 = Some ''VAT'' \<and>
   h_sensor_type (fst (host_run helsinki_winter cross_talk_run empty_host)) 2 = Some ''NO_VAT'' \<and>
   sensor_state (fst (host_run helsinki_winter cross_talk_run empty_host)) (fi_coord 0 15 1709650801000000) =
   sensor_state (fst (host_run helsinki_winter cross_talk_run empty_host)) (fi_coord 0 15 1709643661000000)"
proof -
  let ?h = "fst (host_run helsinki_winter cross_talk_run empty_host)"
  have c1: "h_coords ?h 1 = Some (fi_coord 0 15 1709650801000000)"
    by (simp add: cross_talk_run_result example_host_def)
  have c2: "h_coords ?h 2 = Some (fi_coord 0 15 1709643661000000)"
    by (simp add: cross_talk_run_result example_host_def)
  have a: "co_api (fi_coord 0 15 1709650801000000) = co_api (fi_coord 0 15 1709643661000000)"
    and g: "co_region (fi_coord 0 15 1709650801000000) = co_region (fi_coord 0 15 1709643661000000)"
    by (simp_all add: fi_coord_def)
  have "h_sensor_type ?h 1 = Some ''VAT'' \<and> h_sensor_type ?h 2 = Some ''NO_VAT''"
    by (simp add: cross_talk_run_result example_host_def)
  then show ?thesis
    using cross_talk_reachable sensors_share_region_state [OF cross_talk_reachable c1 c2 a g] by simp
qed

text \<open>
  C20. A sensor tick (\<open>async_update_state\<close>) on a loaded entry of a reachable host: when
  \<open>calculate_current_price\<close> returns a price, the sensor writes exactly that price as its
  state (or unavailable when the coordinator's last refresh failed); when it raises, the
  method stops before any write and the sensor's written state is unchanged.
\<close>

theorem async_update_state_publishes:
  assumes "reachable_host e h" and "h_coords h i = Some co" and "h_sensor_type h i = Some pt"
  shows "h_published (snd (async_update_state e i now_dt t h)) i =
           (case fst (calculate_current_price e (co_region co) (co_resolution co) pt now_dt (h_apis h (co_api co))) of
              Inl _ \<Rightarrow> h_published h i
            | Inr p \<Rightarrow> Some (if co_last_update_success co then Published p else Unavailable))"
proof -
  have wf: "host_wf h" using assms(1) by (rule host_wf_reachable)
  show ?thesis
  proof (cases "fst (calculate_current_price e (co_region co) (co_resolution co) pt now_dt (h_apis h (co_api co)))")
    case (Inl ex)
    then show ?thesis
      by (cases rule: async_update_state_cases [OF wf assms(2,3), where ex = ex and p = undefined and now_dt = now_dt and e = e and t = t]) simp
  next
    case (Inr p)
    then show ?thesis
      by (cases rule: async_update_state_cases [OF wf assms(2,3), where ex = undefined and p = p and now_dt = now_dt and e = e and t = t]) simp
  qed
qed

theorem async_update_state_publishes_witness:
  "reachable_host helsinki_winter (fst (host_run helsinki_winter cross_talk_run empty_host)) \<and>
   h_published (snd (async_update_state helsinki_winter 1 at_1500 1709651701000000
                  (fst (host_run helsinki_winter cross_talk_run empty_host)))) 1 = Some (Published (Some 9))"
proof -
  let ?h = "fst (host_run helsinki_winter cross_talk_run empty_host)"
  have c: "h_coords ?h 1 = Some (fi_coord 0 15 1709650801000000)"
    by (simp add: cross_talk_run_result example_host_def)
  have p: "h_sensor_type ?h 1 = Some ''VAT''"
    by (simp add: cross_talk_run_result example_host_def)
  have "fst (calculate_current_price helsinki_winter ''FI'' 15 ''VAT'' at_1500 (h_apis ?h 0)) = Inr (Some 9)"
    by (simp add: cross_talk_run_result example_host_def example_price_1500)
  then show ?thesis
    using cross_talk_reachable async_update_state_publishes [OF cross_talk_reachable c p, of at_1500 1709651701000000]
    by (simp add: fi_coord_def)
qed

text \<open>
  C21. Found by the model: the resolution setting of an entry is not honoured when its
  region's dict is already fresh. On any host whose API object holds a dict for the region
  that needs no refresh and whose aggregates compute, setting up an entry of that region
  at any resolution \<open>res\<close> makes no request: its coordinator is built with \<open>res\<close> but
  serves the region's dict with the series stored before, fetched with whatever
  \<open>priceResolution\<close> the first entry asked for, because the cache is keyed by region
  only.
\<close>

theorem resolution_setting_ignored:
  assumes "h_domain_api h = Some a" and "h_apis h a region = Some d"
    and "\<not> fetch_needed e False d now" and "process_data d = Inr d'"
    and "entry_settings cfg = (region, res, pt)"
  shows "snd (snd (async_setup_entry e i cfg now net t h)) = [] \<and>
         map_option co_resolution (h_coords (fst (snd (async_setup_entry e i cfg now net t h))) i) = Some res \<and>
         map_option co_data (h_coords (fst (snd (async_setup_entry e i cfg now net t h))) i) = Some (SharedDict region) \<and>
         map_option c_data (h_apis (fst (snd (async_setup_entry e i cfg now net t h))) a region) = Some (c_data d)"
proof -
  have es: "ensure_api h = (a, h)" using assms(1) by (simp add: ensure_api_def)
  have gc: "get_cache_data region (h_apis h a) = (d, h_apis h a)" using assms(2) by simp
  have dt: "data_truthy (c_data d)" using assms(3) by (simp add: fetch_needed_def split: if_splits)
  obtain mn mx where pd: "d' = d\<lparr>min_price := mn, max_price := mx\<rparr>"
    using process_data_frame [OF assms(4)] by blast
  have "fetch_data e region res False now net t (h_apis h a) = (Inr True, (h_apis h a)(region \<mapsto> d'), [])"
    using fetch_data_not_needed [OF gc assms(3), of res net t] assms(4) dt pd by (simp add: finish_fetch_def)
  then have "async_update_data e (new_coordinator a region res) now net t (h_apis h a) =
      (Some (SharedDict region), (new_coordinator a region res)\<lparr>co_last_update := Some t\<rparr>, (h_apis h a)(region \<mapsto> d'), [])"
    by (simp add: async_update_data_eq new_coordinator_def)
  then show ?thesis using es pd by (simp add: async_setup_entry_def assms(5) Let_def new_coordinator_def)
qed

theorem resolution_setting_ignored_witness:
  "snd (host_step helsinki_winter (SetupEntry 1 (fi_entry_config ''VAT'' 15) 1709643600000000 example_provider
          1709643601000000 at_1500 1709643602000000) empty_host) = [api_request ''FI'' 15] \<and>
   snd (snd (async_setup_entry helsinki_winter 2 (fi_entry_config ''NO_VAT'' 60) 1709643660000000 example_provider 1709643661000000
          (fst (host_step helsinki_winter (SetupEntry 1 (fi_entry_config ''VAT'' 15) 1709643600000000 example_provider
                  1709643601000000 at_1500 1709643602000000) empty_host)))) = []"
proof -
  let ?c = "(fi_fetched 1709643601000000)\<lparr>current_price := Some 9, last_refresh_utc := Some 1709643602000000\<rparr>"
  let ?h = "example_host ?c [1 \<mapsto> fi_coord 0 15 1709643601000000] [1 \<mapsto> ''VAT''] [1 \<mapsto> Published (Some 9)]"
  have a: "h_domain_api ?h = Some 0" by (simp add: example_host_def)
  have d: "h_apis ?h 0 ''FI'' = Some ?c" by (simp add: example_host_def)
  have n: "\<not> fetch_needed helsinki_winter False ?c 1709643660000000"
    by (simp add: fetch_needed_def refresh_due_def fetch_time_today_def fi_date_def fi_wall_def
        helsinki_winter_def data_truthy_def example_series_def Let_def cutover_val day_usec_val day_of_afternoon)
  have p: "process_data ?c = Inr (?c\<lparr>min_price := Some 5, max_price := Some 9\<rparr>)" by (simp add: example_process_data)
  have s: "entry_settings (fi_entry_config ''NO_VAT'' 60) = (''FI'', 60, ''NO_VAT'')"
    by (simp add: entry_settings_def fi_entry_config_def)
  show ?thesis
    using cross_talk_s1 resolution_setting_ignored [OF a d n p s, of 2 example_provider 1709643661000000] by simp
qed

text \<open>
  C22. Found by the model: unloading one entry drops the API object that the other
  entries still use. In every reachable host, after any entry \<open>i\<close> is unloaded, the next
  setup's \<open>hass.data[DOMAIN]['api']\<close> is a new \<open>SpotHintaAPI\<close> with an empty cache, a
  different object from the one every other loaded entry's coordinator keeps; its region
  is therefore fetched again and the entries no longer share a cache.
\<close>

theorem unload_drops_shared_api:
  assumes "reachable_host e h" and "h_coords h j = Some cj" and "i \<noteq> j"
  shows "fst (ensure_api (snd (async_unload_entry i h))) \<noteq> co_api cj \<and>
         h_apis (snd (ensure_api (snd (async_unload_entry i h)))) (fst (ensure_api (snd (async_unload_entry i h)))) = Map.empty \<and>
         h_coords (snd (ensure_api (snd (async_unload_entry i h)))) j = Some cj"
proof -
  have "coord_ok h cj" using host_wf_coord [OF host_wf_reachable [OF assms(1)] assms(2)] .
  then have "co_api cj < h_next_api h" by (simp add: coord_ok_def)
  then show ?thesis using assms(2,3) by (simp add: async_unload_entry_def ensure_api_def)
qed

theorem unload_drops_shared_api_witness:
  "reachable_host helsinki_winter (fst (host_run helsinki_winter resolution_run empty_host)) \<and>
   h_coords (fst (host_run helsinki_winter resolution_run empty_host)) 1 = Some (fi_coord 0 15 1709643601000000) \<and>
   fst (ensure_api (snd (async_unload_entry 2 (fst (host_run helsinki_winter resolution_run empty_host))))) = 1 \<and>
   co_api (fi_coord 0 15 1709643601000000) = 0"
proof -
  let ?h = "fst (host_run helsinki_winter resolution_run empty_host)"
  have r: "reachable_host helsinki_winter ?h" by (rule reachable_host_run [OF reachable_host.init])
  have c: "h_coords ?h 1 = Some (fi_coord 0 15 1709643601000000)"
    by (simp add: resolution_run_result example_host_def)
  have "fst (ensure_api (snd (async_unload_entry 2 ?h))) = 1"
    by (simp add: resolution_run_result example_host_def async_unload_entry_def ensure_api_def)
  then show ?thesis using r c unload_drops_shared_api [OF r c, of 2] by (simp add: fi_coord_def)
qed

text \<open>
  C23. Request bound: whatever the clocks, replies and order of events, a run issues at
  most one request per setup and coordinator refresh, and none for sensor ticks and
  unloads.
\<close>

theorem host_run_requests_bound:
  "length (snd (host_run e ops h)) \<le> length (filter fetching_op ops)"
proof (induction ops arbitrary: h)
  case Nil
  then show ?case by simp
next
  case (Cons op ops)
  obtain h1 r1 where s: "host_step e op h = (h1, r1)" by (cases "host_step e op h")
  have "length r1 \<le> (if fetching_op op then 1 else 0)" using host_step_requests [of e op h] s by simp
  then show ?case using Cons.IH [of h1] s by (auto simp: split_beta)
qed

text \<open>
  C24. Error path of a scheduled refresh: when the region's data is due and the request
  fails, the refresh leaves every cache as it was (the old series, aggregates and fetch
  time stay), issues exactly that one request, and the sensor of the entry writes
  \<open>unavailable\<close>, although the cache still holds the series it was reporting from.
\<close>

theorem coordinator_refresh_failure:
  assumes "reachable_host e h" and "h_coords h i = Some co" and "co_last_update_success co"
    and "h_apis h (co_api co) (co_region co) = Some d" and "fetch_needed e False d now"
    and "net (api_request (co_region co) (co_resolution co)) = ReplyFailed"
  shows "h_apis (fst (coordinator_refresh e i now net t h)) = h_apis h \<and>
         h_published (fst (coordinator_refresh e i now net t h)) i = Some Unavailable \<and>
         snd (coordinator_refresh e i now net t h) = [api_request (co_region co) (co_resolution co)]"
proof -
  have wf: "host_wf h" using assms(1) by (rule host_wf_reachable)
  have "i \<in> dom (h_sensor_type h)" using wf assms(2) by (auto simp: host_wf_def)
  then obtain pt where pt: "h_sensor_type h i = Some pt" by auto
  let ?api = "h_apis h (co_api co)"
  have "fetch_data e (co_region co) (co_resolution co) False now net t ?api =
          (Inr False, ?api, [api_request (co_region co) (co_resolution co)])"
    using fetch_data_failed [where st = ?api and region = "co_region co" and net = net and res = "co_resolution co",
        OF _ assms(5,6)] assms(4) by simp
  then have "async_update_data e co now net t ?api = (None, co, ?api, [api_request (co_region co) (co_resolution co)])"
    by (simp add: async_update_data_eq)
  then show ?thesis
    using assms(2,3) pt
    by (simp add: coordinator_refresh_def write_ha_state_def Let_def)
qed

theorem coordinator_refresh_failure_witness:
  "reachable_host helsinki_winter (fst (host_run helsinki_winter cross_talk_run empty_host)) \<and>
   fetch_needed helsinki_winter False
     ((fi_fetched 1709643601000000)\<lparr>current_price := Some 8, last_refresh_utc := Some 1709643662000000\<rparr>)
     1709740800000000 \<and>
   h_published (fst (coordinator_refresh helsinki_winter 1 1709740800000000 (\<lambda>_. ReplyFailed) 1709740801000000
                      (fst (host_run helsinki_winter cross_talk_run empty_host)))) 1 = Some Unavailable"
proof -
  let ?h = "fst (host_run helsinki_winter cross_talk_run empty_host)"
  let ?d = "(fi_fetched 1709643601000000)\<lparr>current_price := Some 8, last_refresh_utc := Some 1709643662000000\<rparr>"
  have c: "h_coords ?h 1 = Some (fi_coord 0 15 1709650801000000)"
    by (simp add: cross_talk_run_result example_host_def)
  have s: "co_last_update_success (fi_coord 0 15 1709650801000000)"
    by (simp add: fi_coord_def)
  have d: "h_apis ?h (co_api (fi_coord 0 15 1709650801000000)) (co_region (fi_coord 0 15 1709650801000000)) = Some ?d"
    by (simp add: cross_talk_run_result example_host_def fi_coord_def)
  have n: "fetch_needed helsinki_winter False ?d 1709740800000000"
    by (simp add: fetch_needed_def refresh_due_def fetch_time_today_def fi_date_def fi_wall_def helsinki_winter_def
        data_truthy_def fi_fetched_def empty_entry_def example_series_def Let_def day_usec_val cutover_val)
  have f: "(\<lambda>_. ReplyFailed) (api_request (co_region (fi_coord 0 15 1709650801000000))
                                       (co_resolution (fi_coord 0 15 1709650801000000))) = ReplyFailed"
    by simp
  show ?thesis
    using cross_talk_reachable n coordinator_refresh_failure [OF cross_talk_reachable c s d n f] by simp
qed

text \<open>
  C31. Recovery: from every reachable host, whatever happened before (a failed refresh
  that made the sensor unavailable included), a refresh of an entry whose region is due
  and whose request is answered with a series that sorts and has numeric VAT prices
  marks the coordinator's update successful and makes its sensor available again,
  reporting the price last written into the region's dict.
\<close>

theorem coordinator_refresh_recovers:
  assumes "reachable_host e h" and "h_coords h i = Some co" and "h_apis h (co_api co) (co_region co) = Some d"
    and "fetch_needed e False d now"
    and "net (api_request (co_region co) (co_resolution co)) = ReplyJson body" and "sort_reply body = Inr items"
    and "items \<noteq> []" and "vat_price_list items = Inr ps"
  shows "co_last_update_success (the (h_coords (fst (coordinator_refresh e i now net t h)) i)) \<and>
         h_published (fst (coordinator_refresh e i now net t h)) i = Some (Published (current_price d))"
  using host_wf_reachable [OF assms(1)] assms(2-8) by (rule coordinator_refresh_installs)

theorem coordinator_refresh_recovers_witness:
  "reachable_host helsinki_winter (fst (host_run helsinki_winter cross_talk_run empty_host)) \<and>
   h_published (fst (coordinator_refresh helsinki_winter 1 1709740800000000 example_provider 1709740801000000
                      (fst (host_run helsinki_winter cross_talk_run empty_host)))) 1 = Some (Published (Some 8))"
proof -
  let ?h = "fst (host_run helsinki_winter cross_talk_run empty_host)"
  let ?d = "(fi_fetched 1709643601000000)\<lparr>current_price := Some 8, last_refresh_utc := Some 1709643662000000\<rparr>"
  have c: "h_coords ?h 1 = Some (fi_coord 0 15 1709650801000000)"
    by (simp add: cross_talk_run_result example_host_def)
  have d: "h_apis ?h (co_api (fi_coord 0 15 1709650801000000)) (co_region (fi_coord 0 15 1709650801000000)) = Some ?d"
    by (simp add: cross_talk_run_result example_host_def fi_coord_def)
  have n: "fetch_needed helsinki_winter False ?d 1709740800000000"
    by (simp add: fetch_needed_def refresh_due_def fetch_time_today_def fi_date_def fi_wall_def helsinki_winter_def
        data_truthy_def fi_fetched_def empty_entry_def example_series_def Let_def day_usec_val cutover_val)
  have j: "example_provider (api_request (co_region (fi_coord 0 15 1709650801000000))
                                        (co_resolution (fi_coord 0 15 1709650801000000))) = ReplyJson (JArr (rev example_series))"
    by (simp add: example_provider_def)
  have r: "sort_reply (JArr (rev example_series)) = Inr example_series"
    by (simp add: sort_reply_def sort_records_def uniform_kind_def example_simps item_datetime_def py_simps)
  have ne: "example_series \<noteq> []" by (simp add: example_series_def)
  have v: "vat_price_list example_series = Inr [5, 7, 9]"
    by (simp add: example_simps py_simps)
  show ?thesis
    using cross_talk_reachable coordinator_refresh_recovers [where net = example_provider and t = 1709740801000000,
        OF cross_talk_reachable c d n j r ne v] by simp
qed

text \<open>
  C34. Found by the model, in general: in every reachable host, when a sensor tick of
  entry \<open>j\<close> computes the price \<open>p\<close> for its own price type, the state of every other
  loaded entry \<open>i\<close> of the same region on the same API object becomes \<open>p\<close> as well,
  whatever price type \<open>i\<close>'s sensor was configured with: one sensor's tick rewrites what
  the others report.
\<close>

theorem tick_sets_other_sensors_state:
  assumes "reachable_host e h" and "h_coords h j = Some cj" and "h_sensor_type h j = Some pt"
    and "h_coords h i = Some ci" and "co_api ci = co_api cj" and "co_region ci = co_region cj"
    and "fst (calculate_current_price e (co_region cj) (co_resolution cj) pt now_dt (h_apis h (co_api cj))) = Inr p"
  shows "sensor_state (snd (async_update_state e j now_dt t h)) ci = p"
proof -
  have wf: "host_wf h" using assms(1) by (rule host_wf_reachable)
  have ci: "co_data ci = SharedDict (co_region ci)"
    using host_wf_coord [OF wf assms(4)] by (simp add: coord_ok_def)
  show ?thesis
    by (rule async_update_state_cases [OF wf assms(2,3), where ex = undefined and p = p and now_dt = now_dt and e = e and t = t])
      (use assms(5-7) ci in \<open>simp add: sensor_state_def coord_dict_def\<close>)
qed

theorem tick_sets_other_sensors_state_witness:
  "reachable_host helsinki_winter (fst (host_run helsinki_winter cross_talk_run empty_host)) \<and>
   h_sensor_type (fst (host_run helsinki_winter cross_talk_run empty_host)) 1 = Some ''VAT'' \<and>
   sensor_state (snd (async_update_state helsinki_winter 2 at_1500 1709651701000000
                   (fst (host_run helsinki_winter cross_talk_run empty_host))))
     (fi_coord 0 15 1709650801000000) = Some 8"
proof -
  let ?h = "fst (host_run helsinki_winter cross_talk_run empty_host)"
  have cj: "h_coords ?h 2 = Some (fi_coord 0 15 1709643661000000)"
    and pt: "h_sensor_type ?h 2 = Some ''NO_VAT''"
    and ci: "h_coords ?h 1 = Some (fi_coord 0 15 1709650801000000)"
    and t1: "h_sensor_type ?h 1 = Some ''VAT''"
    by (simp_all add: cross_talk_run_result example_host_def)
  have a: "co_api (fi_coord 0 15 1709650801000000) = co_api (fi_coord 0 15 1709643661000000)"
    and g: "co_region (fi_coord 0 15 1709650801000000) = co_region (fi_coord 0 15 1709643661000000)"
    by (simp_all add: fi_coord_def)
  have p: "fst (calculate_current_price helsinki_winter (co_region (fi_coord 0 15 1709643661000000))
             (co_resolution (fi_coord 0 15 1709643661000000)) ''NO_VAT'' at_1500
             (h_apis ?h (co_api (fi_coord 0 15 1709643661000000)))) = Inr (Some 8)"
    by (simp add: cross_talk_run_result example_host_def fi_coord_def example_price_1500)
  show ?thesis
    using cross_talk_reachable t1
      tick_sets_other_sensors_state [OF cross_talk_reachable cj pt ci a g p, of 1709651701000000] by simp
qed

end
