(* ===== verification/Executor.thy ===== *)
theory Executor
  imports Fetch
begin

text \<open>
  Concurrent calls of \<open>fetch_data\<close>. Every coordinator runs \<open>fetch_data\<close> in Home
  Assistant's executor (\<^verbatim>\<open>sensor.py\<close> lines 88--90), a thread pool, and the call
  blocks in \<open>requests.get\<close> (\<^verbatim>\<open>spothinta_api.py\<close> line 177) without any lock, so
  other calls run between its refresh check and its store. A call is therefore split at
  the request into two atomic steps on the shared cache: \<open>job_check\<close> (lines 131--174:
  the region's dict, the refresh rule, and either the request or the served path through
  \<open>_process_data\<close>) and \<open>job_reply\<close> (lines 177--202: the reply, the sort, the store
  into the region's dict as it is at that moment, \<open>_process_data\<close>). Run back to back
  they are exactly \<open>fetch_data\<close>; interleaved, calls for one region do not
  coalesce (C25).
\<close>

section \<open>Jobs and their steps\<close>

text \<open>Where a call is: before its check, waiting for the reply to its request, or
  returned (its value or exception).\<close>

datatype job_pc = JobStart | JobWaiting http_request | JobDone "pyexc + bool"

record fetch_job =
  j_region :: string
  j_res :: nat
  j_force :: bool
  j_pc :: job_pc

text \<open>The shared cache, the calls in flight by number, and the requests sent so far.\<close>

record exec_state =
  x_cache :: api_cache
  x_jobs :: "nat \<rightharpoonup> fetch_job"
  x_sent :: "http_request list"

definition new_job :: "string \<Rightarrow> nat \<Rightarrow> bool \<Rightarrow> fetch_job" where
  "new_job region res force = \<lparr>j_region = region, j_res = res, j_force = force, j_pc = JobStart\<rparr>"

text \<open>Lines 131--174 and, on the served path, 197--202, with the clock reading \<open>now\<close>.\<close>

definition job_check :: "tzenv \<Rightarrow> nat \<Rightarrow> instant \<Rightarrow> exec_state \<Rightarrow> exec_state" where
  "job_check e i now x =
     (case x_jobs x i of
        Some j \<Rightarrow>
          (if j_pc j = JobStart then
             (let (c, st1) = get_cache_data (j_region j) (x_cache x)
              in if fetch_needed e (j_force j) c now then
                   (let req = api_request (j_region j) (j_res j)
                    in x\<lparr>x_cache := st1, x_jobs := (x_jobs x)(i \<mapsto> j\<lparr>j_pc := JobWaiting req\<rparr>),
                         x_sent := x_sent x @ [req]\<rparr>)
                 else (let (r, st2) = finish_fetch (j_region j) c st1
                       in x\<lparr>x_cache := st2, x_jobs := (x_jobs x)(i \<mapsto> j\<lparr>j_pc := JobDone r\<rparr>)\<rparr>))
           else x)
      | None \<Rightarrow> x)"

text \<open>
  Lines 177--202 when the reply arrives at \<open>t_done\<close>: the store writes into the region's
  dict, the object \<open>cache\<close> the check obtained; dicts are never removed from
  \<open>_data_cache\<close>, so that is the region's current entry (the \<open>None\<close> branch is never
  taken, since the check created the entry).
\<close>

definition job_reply :: "nat \<Rightarrow> http_reply \<Rightarrow> instant \<Rightarrow> exec_state \<Rightarrow> exec_state" where
  "job_reply i reply t_done x =
     (case x_jobs x i of
        Some j \<Rightarrow>
          (case j_pc j of
             JobWaiting req \<Rightarrow>
               (case reply of
                  ReplyFailed \<Rightarrow> x\<lparr>x_jobs := (x_jobs x)(i \<mapsto> j\<lparr>j_pc := JobDone (Inr False)\<rparr>)\<rparr>
                | ReplyJson body \<Rightarrow>
                    (case sort_reply body of
                       Inl ex \<Rightarrow> x\<lparr>x_jobs := (x_jobs x)(i \<mapsto> j\<lparr>j_pc := JobDone (Inl ex)\<rparr>)\<rparr>
                     | Inr new_data \<Rightarrow>
                         (let c = (case x_cache x (j_region j) of Some c \<Rightarrow> c | None \<Rightarrow> empty_entry);
                              (r, st2) = finish_fetch (j_region j)
                                           (c\<lparr>c_data := Some new_data, last_fetch := Some t_done\<rparr>) (x_cache x)
                          in x\<lparr>x_cache := st2, x_jobs := (x_jobs x)(i \<mapsto> j\<lparr>j_pc := JobDone r\<rparr>)\<rparr>)))
           | _ \<Rightarrow> x)
      | None \<Rightarrow> x)"

text \<open>A call that no other call interleaves with.\<close>

definition job_serial ::
  "tzenv \<Rightarrow> nat \<Rightarrow> instant \<Rightarrow> (http_request \<Rightarrow> http_reply) \<Rightarrow> instant \<Rightarrow> exec_state \<Rightarrow> exec_state" where
  "job_serial e i now net t x =
     (let x1 = job_check e i now x
      in case x_jobs x1 i of
           Some j \<Rightarrow> (case j_pc j of JobWaiting req \<Rightarrow> job_reply i (net req) t x1 | _ \<Rightarrow> x1)
         | None \<Rightarrow> x1)"

text \<open>Any interleaving of the steps of calls in flight.\<close>

datatype exec_event = EvCheck nat instant | EvReply nat http_reply instant

fun exec_step :: "tzenv \<Rightarrow> exec_event \<Rightarrow> exec_state \<Rightarrow> exec_state" where
  "exec_step e (EvCheck i now) x = job_check e i now x"
| "exec_step e (EvReply i reply t) x = job_reply i reply t x"

text \<open>Calls for region FI at 15-minute resolution, not forced, on a fresh cache.\<close>

definition example_jobs :: "nat list \<Rightarrow> exec_state" where
  "example_jobs is = \<lparr>x_cache = Map.empty, x_jobs = map_of (map (\<lambda>i. (i, new_job ''FI'' 15 False)) is), x_sent = []\<rparr>"

section \<open>Lemmas\<close>

lemma job_serial_fetch_data:
  assumes "x_jobs x i = Some (new_job region res force)"
  shows "x_cache (job_serial e i now net t x) = fst (snd (fetch_data e region res force now net t (x_cache x))) \<and>
         x_sent (job_serial e i now net t x) = x_sent x @ snd (snd (fetch_data e region res force now net t (x_cache x))) \<and>
         x_jobs (job_serial e i now net t x) i =
           Some ((new_job region res force)\<lparr>j_pc := JobDone (fst (fetch_data e region res force now net t (x_cache x)))\<rparr>)"
proof -
  obtain c st1 where gc: "get_cache_data region (x_cache x) = (c, st1)"
    by (cases "get_cache_data region (x_cache x)")
  have st1: "st1 region = Some c" using get_cache_data_lookup [OF gc] .
  from gc show ?thesis
  proof (cases rule: fetch_data_outcomes [where e = e and force = force and now = now and net = net and res = res and t = t])
    case served
    then show ?thesis using assms gc
      by (simp add: job_serial_def job_check_def new_job_def split_beta)
  next
    case failed
    then show ?thesis using assms gc
      by (simp add: job_serial_def job_check_def job_reply_def new_job_def Let_def)
  next
    case (unsortable body ex)
    then show ?thesis using assms gc
      by (simp add: job_serial_def job_check_def job_reply_def new_job_def Let_def)
  next
    case (installed body items)
    then show ?thesis using assms gc st1
      by (simp add: job_serial_def job_check_def job_reply_def new_job_def Let_def split_beta)
  qed
qed

lemma job_check_due:
  assumes "x_jobs x i = Some (new_job region res False)" and "get_cache_data region (x_cache x) = (c, st1)"
    and "fetch_needed e False c now"
  shows "job_check e i now x =
           x\<lparr>x_cache := st1, x_jobs := (x_jobs x)(i \<mapsto> (new_job region res False)\<lparr>j_pc := JobWaiting (api_request region res)\<rparr>),
             x_sent := x_sent x @ [api_request region res]\<rparr>"
  using assms by (simp add: job_check_def new_job_def Let_def)

lemma job_check_other: "k \<noteq> i \<Longrightarrow> x_jobs (job_check e i now x) k = x_jobs x k"
  by (auto simp: job_check_def Let_def split: option.splits prod.splits)

lemma job_reply_other: "k \<noteq> i \<Longrightarrow> x_jobs (job_reply i r t x) k = x_jobs x k"
  by (auto simp: job_reply_def Let_def split: option.splits prod.splits job_pc.splits http_reply.splits sum.splits)

lemma job_serial_other: "k \<noteq> i \<Longrightarrow> x_jobs (job_serial e i now net t x) k = x_jobs x k"
  by (auto simp: job_serial_def job_check_other job_reply_other Let_def split: option.splits job_pc.splits)

lemma not_due_after_cutover_fetch:
  "fi_date e lf = fi_date e now \<Longrightarrow> fi_offset e lf = fi_offset e now \<Longrightarrow> cutover \<le> fi_tod e lf \<Longrightarrow>
   \<not> refresh_due e lf now"
  using stale_same_day_iff [of e lf now] by (simp add: refresh_due_def Let_def)

lemma job_check_wf:
  assumes "cache_wf (x_cache x)"
  shows "cache_wf (x_cache (job_check e i now x))"
proof (cases "x_jobs x i")
  case None
  then show ?thesis using assms by (simp add: job_check_def)
next
  case (Some j)
  obtain c st1 where gc: "get_cache_data (j_region j) (x_cache x) = (c, st1)"
    by (cases "get_cache_data (j_region j) (x_cache x)")
  have "cache_wf st1" and "entry_wf c" using get_cache_data_wf [OF assms gc] by simp_all
  then have "cache_wf (snd (finish_fetch (j_region j) c st1))" by (rule finish_fetch_wf)
  then show ?thesis using Some gc assms \<open>cache_wf st1\<close>
    by (auto simp: job_check_def Let_def split: prod.splits)
qed

lemma job_reply_wf: "cache_wf (x_cache x) \<Longrightarrow> cache_wf (x_cache (job_reply i r t x))"
proof -
  assume wf: "cache_wf (x_cache x)"
  have "entry_wf (case x_cache x region of Some c \<Rightarrow> c | None \<Rightarrow> empty_entry)" for region
    using wf by (auto simp: cache_wf_entry split: option.splits)
  then show ?thesis using wf
    by (auto simp: job_reply_def Let_def split_beta finish_fetch_wf installed_entry_wf
        split: option.splits job_pc.splits http_reply.splits sum.splits)
qed

lemma job_serial_installs:
  assumes "x_jobs x i = Some (new_job region res False)"
    and "fetch_needed e False (fst (get_cache_data region (x_cache x))) now"
    and "net (api_request region res) = ReplyJson body" and "sort_reply body = Inr items"
  shows "\<exists>c. x_cache (job_serial e i now net t x) region = Some c \<and> c_data c = Some items \<and> last_fetch c = Some t"
proof -
  obtain c st1 where gc: "get_cache_data region (x_cache x) = (c, st1)"
    by (cases "get_cache_data region (x_cache x)")
  let ?c1 = "c\<lparr>c_data := Some items, last_fetch := Some t\<rparr>"
  obtain mn mx where ff: "snd (finish_fetch region ?c1 st1) = st1(region \<mapsto> ?c1\<lparr>min_price := mn, max_price := mx\<rparr>)"
    using finish_fetch_entry by blast
  have "fetch_data e region res False now net t (x_cache x) =
          (fst (finish_fetch region ?c1 st1), snd (finish_fetch region ?c1 st1), [api_request region res])"
    using fetch_data_install [where st = "x_cache x" and region = region and net = net and res = res and t = t and e = e and now = now and force = False,
        OF gc _ assms(3,4)] assms(2) gc by (simp add: Let_def)
  then show ?thesis using job_serial_fetch_data [OF assms(1), of e now net t] ff by simp
qed

section \<open>Properties of concurrent calls\<close>

text \<open>
  C25. Found by the model: concurrent calls do not coalesce. When the region's data is
  due, any number of calls for it that all pass their check before the first reply is
  stored issue one request each; the spec requires that N concurrent calls make exactly
  one request.
\<close>

theorem concurrent_checks_all_request:
  assumes "distinct is" and "\<forall>i\<in>set is. x_jobs x i = Some (new_job region res False)"
    and "fetch_needed e False (fst (get_cache_data region (x_cache x))) now"
  shows "x_sent (fold (\<lambda>i. job_check e i now) is x) = x_sent x @ replicate (length is) (api_request region res)"
  using assms
proof (induction "is" arbitrary: x)
  case Nil
  then show ?case by simp
next
  case (Cons i "is")
  obtain c st1 where gc: "get_cache_data region (x_cache x) = (c, st1)"
    by (cases "get_cache_data region (x_cache x)")
  let ?x1 = "job_check e i now x"
  have x1: "?x1 = x\<lparr>x_cache := st1, x_jobs := (x_jobs x)(i \<mapsto> (new_job region res False)\<lparr>j_pc := JobWaiting (api_request region res)\<rparr>),
             x_sent := x_sent x @ [api_request region res]\<rparr>"
    using job_check_due [OF _ gc] Cons.prems(2,3) gc by simp
  have "get_cache_data region (x_cache ?x1) = (c, st1)"
    using x1 get_cache_data_lookup [OF gc] by simp
  moreover have "\<forall>k\<in>set is. x_jobs ?x1 k = Some (new_job region res False)"
  proof
    fix k
    assume k: "k \<in> set is"
    then have "k \<noteq> i" using Cons.prems(1) by auto
    then show "x_jobs ?x1 k = Some (new_job region res False)"
      using job_check_other [of k i e now x] Cons.prems(2) k by simp
  qed
  ultimately have "x_sent (fold (\<lambda>i. job_check e i now) is ?x1) = x_sent ?x1 @ replicate (length is) (api_request region res)"
    using Cons.IH [of ?x1] Cons.prems(1,3) gc by simp
  then show ?case using x1 by simp
qed

theorem concurrent_checks_all_request_witness:
  "distinct [1, 2, 3::nat] \<and>
   x_sent (fold (\<lambda>i. job_check helsinki_winter i 1709643600000000) [1, 2, 3] (example_jobs [1, 2, 3])) =
     replicate 3 (api_request ''FI'' 15)"
proof -
  have d: "distinct [1, 2, 3::nat]" by simp
  have j: "\<forall>i\<in>set [1, 2, 3]. x_jobs (example_jobs [1, 2, 3]) i = Some (new_job ''FI'' 15 False)"
    by (simp add: example_jobs_def)
  have n: "fetch_needed helsinki_winter False (fst (get_cache_data ''FI'' (x_cache (example_jobs [1, 2, 3])))) 1709643600000000"
    by (simp add: example_jobs_def fetch_needed_def empty_entry_def data_truthy_def)
  show ?thesis
    using d concurrent_checks_all_request [OF d j n] by (simp add: example_jobs_def numeral_3_eq_3)
qed

text \<open>
  C26. Serialized calls do coalesce: when one call has stored a non-empty reply at a
  time \<open>t\<close> after 14:30 Helsinki time, a later call for the region the same Helsinki day
  issues no request.
\<close>

theorem serialized_jobs_one_request:
  assumes "x_jobs x i = Some (new_job region res False)" and "x_jobs x j = Some (new_job region res' False)"
    and "i \<noteq> j"
    and "fetch_needed e False (fst (get_cache_data region (x_cache x))) now1"
    and "net (api_request region res) = ReplyJson body" and "sort_reply body = Inr items" and "items \<noteq> []"
    and "cutover \<le> fi_tod e t" and "fi_date e t = fi_date e now2" and "fi_offset e t = fi_offset e now2"
  shows "x_sent (job_check e j now2 (job_serial e i now1 net t x)) = x_sent x @ [api_request region res]"
proof -
  let ?x1 = "job_serial e i now1 net t x"
  obtain c where c: "x_cache ?x1 region = Some c" and cd: "c_data c = Some items" and lf: "last_fetch c = Some t"
    using job_serial_installs [where x = x and i = i and region = region and net = net and res = res and e = e and now = now1 and t = t,
        OF assms(1,4,5,6)] by blast
  have "\<not> refresh_due e t now2" using not_due_after_cutover_fetch [OF assms(9,10,8)] .
  then have nf: "\<not> fetch_needed e False c now2"
    using cd lf assms(7) by (simp add: fetch_needed_def data_truthy_def)
  have j: "x_jobs ?x1 j = Some (new_job region res' False)"
    using job_serial_other [of j i] assms(2,3) by simp
  have sent: "x_sent ?x1 = x_sent x @ [api_request region res]"
    using job_serial_fetch_data [OF assms(1), of e now1 net t] assms(4) by (simp add: fetch_data_requests)
  show ?thesis
    using j c nf sent by (simp add: job_check_def new_job_def split_beta)
qed

theorem serialized_jobs_one_request_witness:
  "fi_date helsinki_winter 1709643601000000 = fi_date helsinki_winter 1709650800000000 \<and>
   cutover \<le> fi_tod helsinki_winter 1709643601000000 \<and>
   x_sent (job_check helsinki_winter 2 1709650800000000
     (job_serial helsinki_winter 1 1709643600000000 (\<lambda>_. ReplyJson (JArr (rev example_series))) 1709643601000000
        (example_jobs [1, 2]))) = [api_request ''FI'' 15]"
proof -
  have j1: "x_jobs (example_jobs [1, 2]) 1 = Some (new_job ''FI'' 15 False)"
    and j2: "x_jobs (example_jobs [1, 2]) 2 = Some (new_job ''FI'' 15 False)"
    by (simp_all add: example_jobs_def)
  have ij: "(1::nat) \<noteq> 2" by simp
  have n: "fetch_needed helsinki_winter False (fst (get_cache_data ''FI'' (x_cache (example_jobs [1, 2])))) 1709643600000000"
    by (simp add: example_jobs_def fetch_needed_def empty_entry_def data_truthy_def)
  have net: "(\<lambda>_. ReplyJson (JArr (rev example_series))) (api_request ''FI'' 15) = ReplyJson (JArr (rev example_series))"
    by simp
  have r: "sort_reply (JArr (rev example_series)) = Inr example_series"
    by (simp add: sort_reply_def sort_records_def uniform_kind_def example_simps item_datetime_def py_simps)
  have ne: "example_series \<noteq> []" by (simp add: example_series_def)
  have c: "cutover \<le> fi_tod helsinki_winter 1709643601000000"
    by (simp add: helsinki_winter_def fi_tod_def fi_wall_def day_usec_val cutover_val)
  have d: "fi_date helsinki_winter 1709643601000000 = fi_date helsinki_winter 1709650800000000"
    by (simp add: helsinki_winter_def fi_date_def fi_wall_def day_usec_val)
  have o: "fi_offset helsinki_winter 1709643601000000 = fi_offset helsinki_winter 1709650800000000"
    by (simp add: helsinki_winter_def)
  show ?thesis
    using c d serialized_jobs_one_request [OF j1 j2 ij n net r ne c d o] by (simp add: example_jobs_def)
qed

text \<open>
  C27. Invariant under any interleaving: whatever the order in which checks and replies
  of concurrent calls happen, with any clocks and replies, a well-formed cache stays
  well-formed.
\<close>

theorem exec_run_wf:
  assumes "cache_wf (x_cache x)"
  shows "cache_wf (x_cache (fold (exec_step e) evs x))"
  using assms
proof (induction evs arbitrary: x)
  case Nil
  then show ?case by simp
next
  case (Cons ev evs)
  have "cache_wf (x_cache (exec_step e ev x))"
    using Cons.prems by (cases ev) (simp_all add: job_check_wf job_reply_wf)
  then show ?case using Cons.IH by simp
qed

theorem exec_run_wf_witness:
  "cache_wf (x_cache (example_jobs [1, 2])) \<and>
   cache_wf (x_cache (fold (exec_step helsinki_winter)
     [EvCheck 1 1709643600000000, EvCheck 2 1709643600000000,
      EvReply 1 (ReplyJson (JArr (rev example_series))) 1709643601000000,
      EvReply 2 (ReplyJson (JArr example_series)) 1709643602000000] (example_jobs [1, 2])))"
proof -
  have w: "cache_wf (x_cache (example_jobs [1, 2]))" by (simp add: example_jobs_def cache_wf_def)
  show ?thesis using w exec_run_wf [OF w] by (intro conjI)
qed

end
