(* ===== verification/ConfigFlow.thy ===== *)
theory ConfigFlow
  imports Sensor
begin

text \<open>
  The config flow (\<^verbatim>\<open>config_flow.py\<close>) and the config entries it creates. The form
  \<open>STEP_USER_DATA_SCHEMA\<close> fills in the defaults (region \<open>SUPPORTED_REGIONS[3]\<close>, that is
  FI, resolution 15, price type VAT) and rejects values outside its choices;
  \<open>async_step_user\<close> sets the unique id \<open>region_pricetype\<close>, aborts when an entry with that
  id exists and otherwise creates the entry with the submitted data. The entries of the
  domain, in creation order with their unique ids, are what Home Assistant's flow manager
  keeps (\<open>flow_submit\<close>, \<open>flow_reachable\<close>, modelled from Home Assistant's documented
  behaviour: a rejected form is shown again, a created entry is appended, and the user
  may delete any entry).

  Shown: every reachable list of entries holds valid data with pairwise distinct
  (region, price type); the flow aborts exactly when that pair is configured; the unique
  id determines region and price type (a round trip through \<open>parse_unique_id\<close>); the
  sensors set up from the entries have pairwise distinct entity unique ids.
\<close>

section \<open>The form and the step\<close>

text \<open>\<^verbatim>\<open>const.py\<close> lines 27--30: the price-type choices of the form, a dict whose keys are
  what \<open>vol.In\<close> accepts.\<close>

definition PRICE_TYPE_OPTIONS_MAP :: "(string \<times> string) list" where
  "PRICE_TYPE_OPTIONS_MAP = [(''VAT'', ''Price including VAT''), (''NO_VAT'', ''Price excluding VAT'')]"

text \<open>What the user submits: each field may be left out (the form then uses its default).\<close>

record form_input =
  ui_region :: "string option"
  ui_resolution :: "nat option"
  ui_price_type :: "string option"

text \<open>Lines 27--36, \<open>STEP_USER_DATA_SCHEMA\<close> applied to the submitted form: the defaults,
  then \<open>vol.In\<close> on each field; \<open>None\<close> is the \<open>vol.Invalid\<close> the form reports.\<close>

definition user_data_schema :: "form_input \<Rightarrow> entry_config option" where
  "user_data_schema f =
     (let region = (case ui_region f of None \<Rightarrow> SUPPORTED_REGIONS ! 3 | Some r \<Rightarrow> r);
          res = (case ui_resolution f of None \<Rightarrow> PRICE_RESOLUTION | Some n \<Rightarrow> n);
          pt = (case ui_price_type f of None \<Rightarrow> DEFAULT_PRICE_TYPE | Some p \<Rightarrow> p)
      in if region \<in> set SUPPORTED_REGIONS \<and> res \<in> set [15, 60] \<and> pt \<in> set (map fst PRICE_TYPE_OPTIONS_MAP)
         then Some \<lparr>cfg_region = Some region, cfg_resolution = Some res, cfg_price_type = Some pt\<rparr>
         else None)"

text \<open>What a step returns: the form, an abort with its reason, a created entry (unique id,
  title, data), or the exception the step raises.\<close>

datatype flow_result = FlowForm | FlowAbort string | FlowCreateEntry string string entry_config | FlowError pyexc

text \<open>Lines 50--52: the unique id of an entry.\<close>

definition unique_id :: "string \<Rightarrow> string \<Rightarrow> string" where
  "unique_id region price_type = region @ ''_'' @ price_type"

text \<open>Lines 43--62, \<open>async_step_user\<close>, given the unique ids of the configured entries
  (what \<open>_abort_if_unique_id_configured\<close> consults): without input, the form; with input,
  the unique id from \<open>user_input[CONF_REGION]\<close> and \<open>user_input[CONF_PRICE_TYPE]\<close> (a
  missing key raises \<open>KeyError\<close>), an abort if it is configured, else a new entry whose data
  is the input.\<close>

definition async_step_user :: "string list \<Rightarrow> entry_config option \<Rightarrow> flow_result" where
  "async_step_user configured user_input =
     (case user_input of
        None \<Rightarrow> FlowForm
      | Some d \<Rightarrow>
          (case (cfg_region d, cfg_price_type d) of
             (Some r, Some p) \<Rightarrow>
               (let uid = unique_id r p
                in if uid \<in> set configured then FlowAbort ''already_configured''
                   else FlowCreateEntry uid (''Spot Price ('' @ r @ '') - '' @ p) d)
           | _ \<Rightarrow> FlowError KeyError))"

section \<open>The entries of the domain\<close>

text \<open>A submission through the flow manager: the schema, then the step; a created entry
  is appended with its unique id.\<close>

definition flow_submit :: "form_input \<Rightarrow> (string \<times> entry_config) list \<Rightarrow> flow_result \<times> (string \<times> entry_config) list" where
  "flow_submit f es =
     (case user_data_schema f of
        None \<Rightarrow> (FlowForm, es)
      | Some d \<Rightarrow>
          (case async_step_user (map fst es) (Some d) of
             FlowCreateEntry uid title d' \<Rightarrow> (FlowCreateEntry uid title d', es @ [(uid, d')])
           | r \<Rightarrow> (r, es)))"

text \<open>The lists of entries Home Assistant can hold: from none, by submissions and by
  deleting the entry with a given unique id.\<close>

inductive flow_reachable :: "(string \<times> entry_config) list \<Rightarrow> bool" where
  init: "flow_reachable []"
| submit: "flow_reachable es \<Longrightarrow> flow_reachable (snd (flow_submit f es))"
| remove: "flow_reachable es \<Longrightarrow> flow_reachable (filter (\<lambda>e. fst e \<noteq> uid) es)"

text \<open>Valid entry data: every key present, each value among the form's choices.\<close>

definition valid_entry :: "entry_config \<Rightarrow> bool" where
  "valid_entry d \<longleftrightarrow>
     (case (cfg_region d, cfg_resolution d, cfg_price_type d) of
        (Some r, Some n, Some p) \<Rightarrow> r \<in> set SUPPORTED_REGIONS \<and> n \<in> set [15, 60] \<and> p \<in> set SUPPORTED_PRICE_TYPES
      | _ \<Rightarrow> False)"

text \<open>The invariant of the entries: valid data, the unique id made from it, unique ids
  pairwise distinct.\<close>

definition entry_uid_ok :: "string \<times> entry_config \<Rightarrow> bool" where
  "entry_uid_ok e \<longleftrightarrow>
     valid_entry (snd e) \<and> (case (cfg_region (snd e), cfg_price_type (snd e)) of
                              (Some r, Some p) \<Rightarrow> fst e = unique_id r p | _ \<Rightarrow> False)"

definition flow_wf :: "(string \<times> entry_config) list \<Rightarrow> bool" where
  "flow_wf es \<longleftrightarrow> distinct (map fst es) \<and> list_all entry_uid_ok es"

text \<open>Reading a unique id back: the region is what precedes the first underscore.\<close>

definition parse_unique_id :: "string \<Rightarrow> (string \<times> string) option" where
  "parse_unique_id s =
     (let r = takeWhile (\<lambda>c. c \<noteq> CHR ''_'') s
      in case drop (length r) s of [] \<Rightarrow> None | _ # p \<Rightarrow> Some (r, p))"

text \<open>The entity unique ids of the sensors set up from a list of entries (sensor.py
  lines 37--39 and 110).\<close>

definition sensor_unique_ids :: "(string \<times> entry_config) list \<Rightarrow> string list" where
  "sensor_unique_ids es =
     map (\<lambda>e. case entry_settings (snd e) of (r, _, p) \<Rightarrow> sd_unique_id (sensor_entity_description r p)) es"

text \<open>Two submissions: the empty form (all defaults: FI, 15, VAT), then FI, 60 minutes,
  NO\_VAT.\<close>

definition example_entries :: "(string \<times> entry_config) list" where
  "example_entries =
     snd (flow_submit \<lparr>ui_region = None, ui_resolution = Some 60, ui_price_type = Some ''NO_VAT''\<rparr>
           (snd (flow_submit \<lparr>ui_region = None, ui_resolution = None, ui_price_type = None\<rparr> [])))"

section \<open>Lemmas\<close>

lemma regions_no_underscore: "r \<in> set SUPPORTED_REGIONS \<Longrightarrow> CHR ''_'' \<notin> set r"
  by (auto simp: SUPPORTED_REGIONS_def)

lemma parse_unique_id_sep:
  assumes "CHR ''_'' \<notin> set r"
  shows "parse_unique_id (unique_id r p) = Some (r, p)"
proof -
  have "takeWhile (\<lambda>c. c \<noteq> CHR ''_'') (r @ CHR ''_'' # p) = r"
    using assms by (subst takeWhile_append2) auto
  then show ?thesis by (simp add: parse_unique_id_def unique_id_def Let_def)
qed

lemma uid_inj:
  assumes "r1 \<in> set SUPPORTED_REGIONS" and "r2 \<in> set SUPPORTED_REGIONS"
    and "unique_id r1 p1 = unique_id r2 p2"
  shows "r1 = r2" and "p1 = p2"
proof -
  have "parse_unique_id (unique_id r1 p1) = Some (r2, p2)"
    unfolding assms(3) by (rule parse_unique_id_sep [OF regions_no_underscore [OF assms(2)]])
  then show "r1 = r2" and "p1 = p2"
    using parse_unique_id_sep [OF regions_no_underscore [OF assms(1)], of p1] by simp_all
qed

lemma sensor_uid_unique_id:
  "sd_unique_id (sensor_entity_description r p) = DOMAIN @ ''_'' @ unique_id r p @ ''_price''"
  by (simp add: sensor_entity_description_def unique_id_def)

lemma user_data_schema_valid: "user_data_schema f = Some d \<Longrightarrow> valid_entry d"
  by (auto simp: user_data_schema_def valid_entry_def Let_def PRICE_TYPE_OPTIONS_MAP_def SUPPORTED_PRICE_TYPES_def
      split: if_splits)

lemma flow_submit_wf: "flow_wf es \<Longrightarrow> flow_wf (snd (flow_submit f es))"
  by (auto simp: flow_submit_def async_step_user_def flow_wf_def entry_uid_ok_def Let_def
      dest: user_data_schema_valid split: option.splits flow_result.splits if_splits prod.splits)

lemma flow_remove_wf: "flow_wf es \<Longrightarrow> flow_wf (filter P es)"
  by (auto simp: flow_wf_def list_all_iff distinct_map_filter)

lemma flow_reachable_wf: "flow_reachable es \<Longrightarrow> flow_wf es"
  by (induction rule: flow_reachable.induct)
    (simp_all add: flow_wf_def flow_submit_wf [unfolded flow_wf_def] flow_remove_wf [unfolded flow_wf_def])

lemma flow_wf_entryE:
  assumes "flow_wf es" and "e \<in> set es"
  obtains r n p where "snd e = \<lparr>cfg_region = Some r, cfg_resolution = Some n, cfg_price_type = Some p\<rparr>"
    and "r \<in> set SUPPORTED_REGIONS" and "n \<in> set [15, 60]" and "p \<in> set SUPPORTED_PRICE_TYPES"
    and "fst e = unique_id r p"
proof -
  have ok: "entry_uid_ok e" using assms by (auto simp: flow_wf_def list_all_iff)
  obtain r n p where "cfg_region (snd e) = Some r" "cfg_resolution (snd e) = Some n" "cfg_price_type (snd e) = Some p"
    using ok by (auto simp: entry_uid_ok_def valid_entry_def split: option.splits)
  then show ?thesis using ok that by (cases "snd e") (auto simp: entry_uid_ok_def valid_entry_def)
qed

text \<open>In a well-formed list the unique ids are the entries' (region, price type) pairs,
  and the sensors' ids are made from the same pairs.\<close>

lemma flow_wf_pair_eq:
  assumes "flow_wf es" and "e \<in> set es" and "e' \<in> set es"
  shows "fst e = fst e' \<longleftrightarrow>
         (cfg_region (snd e), cfg_price_type (snd e)) = (cfg_region (snd e'), cfg_price_type (snd e'))"
proof -
  obtain r n p where e: "snd e = \<lparr>cfg_region = Some r, cfg_resolution = Some n, cfg_price_type = Some p\<rparr>"
    and r: "r \<in> set SUPPORTED_REGIONS" and u: "fst e = unique_id r p" using flow_wf_entryE [OF assms(1,2)] by metis
  obtain r' n' p' where e': "snd e' = \<lparr>cfg_region = Some r', cfg_resolution = Some n', cfg_price_type = Some p'\<rparr>"
    and r': "r' \<in> set SUPPORTED_REGIONS" and u': "fst e' = unique_id r' p'" using flow_wf_entryE [OF assms(1,3)] by metis
  show ?thesis unfolding e e' u u' using uid_inj [OF r r'] by auto
qed

lemma flow_wf_sensor_uid:
  assumes "flow_wf es" and "e \<in> set es"
  shows "(case entry_settings (snd e) of (r, _, p) \<Rightarrow> sd_unique_id (sensor_entity_description r p)) =
         DOMAIN @ ''_'' @ fst e @ ''_price''"
proof -
  obtain r n p where e: "snd e = \<lparr>cfg_region = Some r, cfg_resolution = Some n, cfg_price_type = Some p\<rparr>"
    and u: "fst e = unique_id r p" using flow_wf_entryE [OF assms] by metis
  show ?thesis by (simp add: e u entry_settings_def sensor_uid_unique_id)
qed

lemma example_entries_eq:
  "example_entries =
     [(''FI_VAT'', \<lparr>cfg_region = Some ''FI'', cfg_resolution = Some 15, cfg_price_type = Some ''VAT''\<rparr>),
      (''FI_NO_VAT'', \<lparr>cfg_region = Some ''FI'', cfg_resolution = Some 60, cfg_price_type = Some ''NO_VAT''\<rparr>)]"
  by (simp add: example_entries_def flow_submit_def user_data_schema_def async_step_user_def unique_id_def Let_def
      SUPPORTED_REGIONS_def PRICE_TYPE_OPTIONS_MAP_def PRICE_RESOLUTION_def DEFAULT_PRICE_TYPE_def)

lemma example_entries_reachable: "flow_reachable example_entries"
  unfolding example_entries_def by (intro flow_reachable.submit flow_reachable.init)

section \<open>Properties of the config flow\<close>

text \<open>
  C28. Invariant of the config entries: in every list of entries Home Assistant can hold
  after any submissions and deletions, every entry's data has all three keys with values
  among the form's choices, and no two entries have the same region and price type.
\<close>

theorem flow_entries_distinct:
  assumes "flow_reachable es"
  shows "distinct (map (\<lambda>e. (cfg_region (snd e), cfg_price_type (snd e))) es) \<and> list_all (\<lambda>e. valid_entry (snd e)) es"
proof -
  have wf: "flow_wf es" using assms by (rule flow_reachable_wf)
  have dfst: "inj_on fst (set es)" using wf by (simp add: flow_wf_def distinct_map)
  have "inj_on (\<lambda>e. (cfg_region (snd e), cfg_price_type (snd e))) (set es)"
  proof (rule inj_onI)
    fix e e'
    assume ee: "e \<in> set es" and ee': "e' \<in> set es"
      and eq: "(cfg_region (snd e), cfg_price_type (snd e)) = (cfg_region (snd e'), cfg_price_type (snd e'))"
    have "fst e = fst e'" using flow_wf_pair_eq [OF wf ee ee'] eq by simp
    then show "e = e'" using inj_onD [OF dfst _ ee ee'] by simp
  qed
  moreover have "distinct es" using wf by (simp add: flow_wf_def distinct_map)
  moreover have "list_all (\<lambda>e. valid_entry (snd e)) es"
    using wf by (simp add: list_all_iff flow_wf_def entry_uid_ok_def)
  ultimately show ?thesis by (simp add: distinct_map)
qed

theorem flow_entries_distinct_witness:
  "flow_reachable example_entries \<and>
   distinct (map (\<lambda>e. (cfg_region (snd e), cfg_price_type (snd e))) example_entries) \<and>
   list_all (\<lambda>e. valid_entry (snd e)) example_entries"
  using example_entries_reachable flow_entries_distinct [OF example_entries_reachable] by simp

text \<open>
  C29. The step's abort: for valid form data and any reachable list of entries,
  \<open>async_step_user\<close> aborts with \<open>already_configured\<close> exactly when an entry with the same
  region and price type exists, whatever its resolution; otherwise it creates the entry.
\<close>

theorem async_step_user_abort_iff:
  assumes "flow_reachable es" and "user_data_schema f = Some d"
  shows "async_step_user (map fst es) (Some d) = FlowAbort ''already_configured'' \<longleftrightarrow>
         (\<exists>e\<in>set es. cfg_region (snd e) = cfg_region d \<and> cfg_price_type (snd e) = cfg_price_type d)"
proof -
  have wf: "flow_wf es" using assms(1) by (rule flow_reachable_wf)
  obtain r n p where d: "d = \<lparr>cfg_region = Some r, cfg_resolution = Some n, cfg_price_type = Some p\<rparr>"
    and r: "r \<in> set SUPPORTED_REGIONS"
    using assms(2) by (auto simp: user_data_schema_def Let_def split: if_splits)
  have iff: "fst e = unique_id r p \<longleftrightarrow> cfg_region (snd e) = Some r \<and> cfg_price_type (snd e) = Some p"
    if e: "e \<in> set es" for e
  proof -
    obtain r' n' p' where e': "snd e = \<lparr>cfg_region = Some r', cfg_resolution = Some n', cfg_price_type = Some p'\<rparr>"
      and r': "r' \<in> set SUPPORTED_REGIONS" and u': "fst e = unique_id r' p'" using flow_wf_entryE [OF wf e] by metis
    show ?thesis unfolding e' u' using uid_inj [OF r' r] by auto
  qed
  have "unique_id r p \<in> fst ` set es \<longleftrightarrow>
        (\<exists>e\<in>set es. cfg_region (snd e) = Some r \<and> cfg_price_type (snd e) = Some p)"
    using iff by (metis image_iff)
  then show ?thesis using d by (simp add: async_step_user_def Let_def)
qed

theorem async_step_user_abort_iff_witness:
  "flow_reachable example_entries \<and>
   user_data_schema \<lparr>ui_region = Some ''FI'', ui_resolution = Some 60, ui_price_type = None\<rparr> =
     Some \<lparr>cfg_region = Some ''FI'', cfg_resolution = Some 60, cfg_price_type = Some ''VAT''\<rparr> \<and>
   async_step_user (map fst example_entries)
     (Some \<lparr>cfg_region = Some ''FI'', cfg_resolution = Some 60, cfg_price_type = Some ''VAT''\<rparr>) =
     FlowAbort ''already_configured''"
proof -
  have s: "user_data_schema \<lparr>ui_region = Some ''FI'', ui_resolution = Some 60, ui_price_type = None\<rparr> =
     Some \<lparr>cfg_region = Some ''FI'', cfg_resolution = Some 60, cfg_price_type = Some ''VAT''\<rparr>"
    by (simp add: user_data_schema_def Let_def SUPPORTED_REGIONS_def PRICE_TYPE_OPTIONS_MAP_def DEFAULT_PRICE_TYPE_def)
  show ?thesis
    using example_entries_reachable s async_step_user_abort_iff [OF example_entries_reachable s]
    by (simp add: example_entries_eq)
qed

text \<open>
  C30. The sensors set up from the entries of any reachable list have pairwise distinct
  entity unique ids \<open>spothinta_region_pricetype_price\<close>, so Home Assistant registers
  every one of them.
\<close>

theorem sensor_unique_ids_distinct:
  assumes "flow_reachable es"
  shows "distinct (sensor_unique_ids es)"
proof -
  have wf: "flow_wf es" using assms by (rule flow_reachable_wf)
  have "sensor_unique_ids es = map (\<lambda>u. DOMAIN @ ''_'' @ u @ ''_price'') (map fst es)"
    unfolding sensor_unique_ids_def map_map o_def by (rule map_cong) (simp_all add: flow_wf_sensor_uid [OF wf])
  moreover have "inj (\<lambda>u. DOMAIN @ ''_'' @ u @ ''_price'')" by (rule injI) simp
  moreover have "distinct (map fst es)" using wf by (simp add: flow_wf_def)
  ultimately show ?thesis by (simp only: distinct_map) (metis inj_on_subset subset_UNIV)
qed

theorem sensor_unique_ids_distinct_witness:
  "flow_reachable example_entries \<and> sensor_unique_ids example_entries = [''spothinta_FI_VAT_price'', ''spothinta_FI_NO_VAT_price''] \<and>
   distinct (sensor_unique_ids example_entries)"
proof -
  have "sensor_unique_ids example_entries = [''spothinta_FI_VAT_price'', ''spothinta_FI_NO_VAT_price'']"
    by (simp add: example_entries_eq sensor_unique_ids_def entry_settings_def sensor_entity_description_def DOMAIN_def)
  then show ?thesis using example_entries_reachable sensor_unique_ids_distinct [OF example_entries_reachable] by simp
qed

end
