(* ===== verification/Polling.thy ===== *)
theory Polling
  imports Sensor
begin

text \<open>
  The coordinator's schedule (\<^verbatim>\<open>sensor.py\<close> line 82): Home Assistant calls
  \<open>_async_update_data\<close>, so \<open>fetch_data\<close>, every 120 minutes, whatever the previous call
  returned. \<open>poll_until_request\<close> follows that schedule from a first call at \<open>t\<close> until a
  call goes to the network, and returns the time of that call and the cache after it. It
  is a \<open>partial_function (option)\<close>: for an arbitrary cache or time zone the schedule
  might never issue a request (\<open>None\<close>). Shown: on a well-formed cache, in a zone whose UTC
  offset is at most a day, it returns, no later than the refresh after the third day
  since the region's last fetch.
\<close>

section \<open>The schedule\<close>

text \<open>Line 82, \<open>update_interval=timedelta(minutes=120)\<close>, in microseconds.\<close>

definition update_interval :: int where
  "update_interval = 120 * 60 * usec_per_sec"

text \<open>Successive scheduled calls of \<open>fetch_data(region, price_resolution)\<close> at \<open>t\<close>,
  \<open>t + 120 min\<close>, ..., each on the cache the previous one left, until one issues a
  request.\<close>

partial_function (option) poll_until_request ::
  "tzenv \<Rightarrow> string \<Rightarrow> nat \<Rightarrow> (http_request \<Rightarrow> http_reply) \<Rightarrow> instant \<Rightarrow> api_cache \<Rightarrow> (instant \<times> api_cache) option"
where
  "poll_until_request e region res net t st =
     (case fetch_data e region res False t net t st of
        (_, st', reqs) \<Rightarrow>
          if reqs = [] then poll_until_request e region res net (t + update_interval) st' else Some (t, st'))"

text \<open>A provider answering every request with the three records of \<open>example_series\<close>.\<close>

definition example_provider_poll :: "http_request \<Rightarrow> http_reply" where
  "example_provider_poll req = ReplyJson (JArr (rev example_series))"

section \<open>Lemmas\<close>

lemma update_interval_val: "update_interval = 7200000000"
  by (simp add: update_interval_def usec_per_sec_def)

text \<open>Three days after the last fetch the Helsinki date has moved on, in any zone whose
  UTC offset is at most a day either way.\<close>

lemma fi_date_advances:
  assumes off: "\<forall>x. \<bar>fi_offset e x\<bar> \<le> day_usec" and late: "lf + 3 * day_usec \<le> t"
  shows "fi_date e lf < fi_date e t"
proof -
  have "fi_wall e lf + day_usec \<le> fi_wall e t"
    using off [rule_format, of lf] off [rule_format, of t] late by (simp add: fi_wall_def abs_le_iff)
  then have "(fi_wall e lf + day_usec) div day_usec \<le> fi_wall e t div day_usec"
    by (rule zdiv_mono1) (simp add: day_usec_pos)
  then show ?thesis using day_usec_pos by (simp add: fi_date_def)
qed

text \<open>A call that issues no request found the region's dict with data, a fetch time and
  no refresh due; it leaves that dict but for new aggregates.\<close>

lemma fetch_data_no_request:
  assumes "snd (snd (fetch_data e region res False t net t' st)) = []"
  obtains c mn mx where "st region = Some c" and "\<not> fetch_needed e False c t"
    and "fst (snd (fetch_data e region res False t net t' st)) = st(region \<mapsto> c\<lparr>min_price := mn, max_price := mx\<rparr>)"
proof -
  have nn: "\<not> fetch_needed e False (fst (get_cache_data region st)) t"
    using assms fetch_data_requests [of e region res False t net t' st] by (simp split: if_splits)
  obtain c where c: "st region = Some c"
    using nn by (cases "st region") (auto simp: fetch_needed_def empty_entry_def data_truthy_def)
  then have gc: "get_cache_data region st = (c, st)" by simp
  obtain mn mx where "snd (finish_fetch region c st) = st(region \<mapsto> c\<lparr>min_price := mn, max_price := mx\<rparr>)"
    using finish_fetch_entry by blast
  then show ?thesis using that c nn gc fetch_data_not_needed [OF gc, of e False t res net t'] by simp
qed

text \<open>The loop, unfolded once.\<close>

lemma poll_step:
  "poll_until_request e region res net t st =
     (if snd (snd (fetch_data e region res False t net t st)) = []
      then poll_until_request e region res net (t + update_interval) (fst (snd (fetch_data e region res False t net t st)))
      else Some (t, fst (snd (fetch_data e region res False t net t st))))"
  by (subst poll_until_request.simps) (simp split: prod.splits)

text \<open>The induction behind termination: while the region's dict keeps its last fetch
  \<open>lf\<close>, every call that issues no request is earlier than \<open>lf\<close> plus three days, and the
  next call is 120 minutes later.\<close>

lemma poll_returns_by:
  assumes off: "\<forall>x. \<bar>fi_offset e x\<bar> \<le> day_usec" and wf: "cache_wf st"
    and lf: "\<forall>c. st region = Some c \<longrightarrow> data_truthy (c_data c) \<longrightarrow> last_fetch c = Some lf"
  shows "\<exists>t' st'. poll_until_request e region res net t st = Some (t', st') \<and> t \<le> t' \<and>
           t' \<le> max t (lf + 3 * day_usec + update_interval)"
  using wf lf
proof (induction "nat (lf + 3 * day_usec - t)" arbitrary: t st rule: less_induct)
  case less
  let ?r = "fetch_data e region res False t net t st"
  show ?case
  proof (cases "snd (snd ?r) = []")
    case False
    then show ?thesis by (simp add: poll_step [of e region res net t st])
  next
    case True
    then obtain c mn mx where c: "st region = Some c" and nn: "\<not> fetch_needed e False c t"
      and st': "fst (snd ?r) = st(region \<mapsto> c\<lparr>min_price := mn, max_price := mx\<rparr>)"
      by (rule fetch_data_no_request)
    have dt: "data_truthy (c_data c)" using nn by (simp add: fetch_needed_def split: if_splits)
    then have l: "last_fetch c = Some lf" using less.prems(2) c by simp
    have "\<not> refresh_due e lf t" using nn dt l by (simp add: fetch_needed_def)
    then have "\<not> fi_date e lf < fi_date e t" by (simp add: refresh_due_def Let_def)
    then have early: "t < lf + 3 * day_usec"
      using fi_date_advances [OF off, of lf t] not_le by blast
    have ui: "0 < update_interval" by (simp add: update_interval_val)
    have wf': "cache_wf (fst (snd ?r))" using less.prems(1) by (rule fetch_data_wf)
    have lf': "\<forall>c'. fst (snd ?r) region = Some c' \<longrightarrow> data_truthy (c_data c') \<longrightarrow> last_fetch c' = Some lf"
      using st' l by simp
    have "nat (lf + 3 * day_usec - (t + update_interval)) < nat (lf + 3 * day_usec - t)"
      using early ui by simp
    then obtain t' st'' where
      rec: "poll_until_request e region res net (t + update_interval) (fst (snd ?r)) = Some (t', st'')"
      and b: "t + update_interval \<le> t'" "t' \<le> max (t + update_interval) (lf + 3 * day_usec + update_interval)"
      using less.hyps [OF _ wf' lf'] by blast
    show ?thesis using rec b early ui True by (simp add: poll_step [of e region res net t st])
  qed
qed

text \<open>Without a fetch time a dict with data is never due: no call of the schedule
  issues a request, so the loop does not return.\<close>

section \<open>Properties of the schedule\<close>

text \<open>
  C32. Termination of the refresh schedule: on a well-formed cache (every dict with a
  series has a fetch time, which every reachable cache satisfies) and in a zone whose UTC
  offset is at most a day, the coordinator's two-hourly calls of \<open>fetch_data\<close> from any
  time \<open>t\<close> reach, after finitely many calls, one that goes to the network.
\<close>

theorem poll_until_request_terminates:
  assumes "\<forall>x. \<bar>fi_offset e x\<bar> \<le> day_usec" and "cache_wf st"
  shows "\<exists>t' st'. poll_until_request e region res net t st = Some (t', st') \<and> t \<le> t'"
proof -
  obtain lf where lf: "\<forall>c. st region = Some c \<longrightarrow> data_truthy (c_data c) \<longrightarrow> last_fetch c = Some lf"
  proof (cases "st region")
    case (Some c)
    have "entry_wf c" by (rule cache_wf_entry [OF assms(2) Some])
    then show ?thesis using that Some by (cases "last_fetch c") (auto simp: entry_wf_def data_truthy_def)
  qed (use that in simp)
  show ?thesis using poll_returns_by [OF assms lf, of res net t] by blast
qed

text \<open>
  C33. Bound on the wait: if the region's dict holds a series fetched at \<open>lf\<close>, the
  first scheduled call that goes to the network is at \<open>t\<close> or later and no later than
  \<open>lf\<close> plus three days plus one interval (or at \<open>t\<close> itself when that is later).
\<close>

theorem poll_until_request_bound:
  assumes "\<forall>x. \<bar>fi_offset e x\<bar> \<le> day_usec" and "cache_wf st"
    and "st region = Some c" and "data_truthy (c_data c)" and "last_fetch c = Some lf"
  shows "\<exists>t' st'. poll_until_request e region res net t st = Some (t', st') \<and> t \<le> t' \<and>
           t' \<le> max t (lf + 3 * day_usec + update_interval)"
  using poll_returns_by [OF assms(1,2)] assms(3-5) by simp

end
