(* ===== verification/Helsinki.thy ===== *)
theory Helsinki
  imports Polling
begin

text \<open>
  \<open>FINNISH_TIMEZONE = pytz.timezone('Europe/Helsinki')\<close> (\<^verbatim>\<open>spothinta_api.py\<close> line
  34) as a concrete time-zone environment: Eastern European Time, \<open>+2 h\<close>, with summer
  time, \<open>+3 h\<close>, from the last Sunday of March 01:00 UTC to the last Sunday of October
  01:00 UTC (the EU rule pytz's tz database applies to Helsinki since 1983). The rest of
  the development takes the zone as a parameter and states what it needs of it:
  \<open>tz_regular\<close> (theory \<open>Refresh\<close>) and an offset of at most a day (theory
  \<open>Polling\<close>). This theory proves that every zone whose offset is \<open>+2 h\<close> or \<open>+3 h\<close>
  and changes only at 01:00 UTC is regular, so Helsinki is, and it applies the properties
  that assume these facts to Helsinki across its 2024 change to summer time.
\<close>

section \<open>The zone\<close>

text \<open>The year of a day number (days since 1970-01-01), by the era-based inverse of
  \<open>days_from_civil\<close>; the day number of the last Sunday of a month (1970-01-01 was a
  Thursday); whether a UTC day is in summer time from its 01:00 UTC on.\<close>

definition civil_year :: "int \<Rightarrow> int" where
  "civil_year d =
     (let z = d + 719468;
          era = z div 146097;
          doe = z - era * 146097;
          yoe = (doe - doe div 1460 + doe div 36524 - doe div 146096) div 365;
          doy = doe - (365 * yoe + yoe div 4 - yoe div 100);
          mp = (5 * doy + 2) div 153
      in yoe + era * 400 + (if mp < 10 then 0 else 1))"

definition last_sunday :: "int \<Rightarrow> int \<Rightarrow> int" where
  "last_sunday y m =
     (let l = days_from_civil y m (int (days_in_month (nat y) (nat m))) in l - (l + 4) mod 7)"

definition eu_summer_day :: "int \<Rightarrow> bool" where
  "eu_summer_day k = (let y = civil_year k in last_sunday y 3 \<le> k \<and> k < last_sunday y 10)"

text \<open>The offset in force at an instant: the summer-time test is on the day of \<open>t\<close>
  counted from 01:00 UTC, so the offset changes only at 01:00 UTC.\<close>

definition helsinki_offset :: "instant \<Rightarrow> int" where
  "helsinki_offset t = (if eu_summer_day ((t - 3600000000) div day_usec) then 10800000000 else 7200000000)"

text \<open>The host's local zone when it is Helsinki as well (the naive \<open>datetime.now()\<close> of
  the sensor): a wall clock is read with the summer offset where that is consistent, else
  the winter one; an ambiguous hour in October is read as summer time (\<open>fold=0\<close>).\<close>

definition helsinki_local_to_utc :: "wall \<Rightarrow> instant" where
  "helsinki_local_to_utc w =
     (if helsinki_offset (w - 10800000000) = 10800000000 then w - 10800000000 else w - 7200000000)"

definition helsinki_tz :: tzenv where
  "helsinki_tz = \<lparr>fi_offset = helsinki_offset, sys_local_to_utc = helsinki_local_to_utc\<rparr>"

text \<open>Summer time 2024: 2024-03-31 to 2024-10-27.\<close>

definition dst_2024_start :: instant where "dst_2024_start = 1711846800000000"

definition dst_2024_end :: instant where "dst_2024_end = 1729990800000000"

section \<open>Regularity\<close>

lemma day_div_bounds:
  "(a div day_usec) * day_usec \<le> a" "a < (a div day_usec) * day_usec + day_usec"
  "a mod day_usec = a - (a div day_usec) * day_usec"
proof -
  have "0 \<le> a mod day_usec" "a mod day_usec < day_usec"
    using day_usec_pos by (simp_all add: pos_mod_sign pos_mod_bound)
  moreover have "(a div day_usec) * day_usec + a mod day_usec = a" by (rule div_mult_mod_eq)
  ultimately show "(a div day_usec) * day_usec \<le> a" "a < (a div day_usec) * day_usec + day_usec"
    "a mod day_usec = a - (a div day_usec) * day_usec" by linarith+
qed

text \<open>The arithmetic of one change of offset: \<open>x\<close> in the block \<open>kx\<close> of days starting
  at \<open>H\<close> past midnight UTC, \<open>y\<close> in a later block, both offsets between \<open>2H\<close> and \<open>3H\<close>,
  and a day longer than \<open>4H\<close>: the local day of \<open>y\<close> is not earlier than that of \<open>x\<close>, and
  when they are the same, \<open>x\<close> is less than \<open>4H\<close> past local midnight.\<close>

lemma block_change:
  fixes D H c kx ky qx qy x y ox oy :: int
  assumes H: "0 < H" "4 * H < D" "4 * H \<le> c"
    and kx: "kx * D \<le> x - H" "x - H < kx * D + D" and ky: "ky * D \<le> y - H" and k: "kx < ky"
    and qx: "qx * D \<le> x + ox" "x + ox < qx * D + D" and qy: "y + oy < qy * D + D"
    and o: "2 * H \<le> ox" "ox \<le> 3 * H" "2 * H \<le> oy"
  shows "qx \<le> qy" and "qx = qy \<Longrightarrow> x + ox - qx * D < c"
proof -
  have D: "0 < D" using H by linarith
  have a: "kx * D + D \<le> ky * D" using mult_right_mono [OF _ less_imp_le [OF D], of "kx + 1" ky] k
    by (simp add: algebra_simps)
  have "kx * D < qy * D" using a ky qy o H by linarith
  then have "kx < qy" using D by simp
  then have lo: "kx + 1 \<le> qy" by linarith
  have b: "(kx + 2) * D = kx * D + 2 * D" by (simp add: algebra_simps)
  have "qx * D < (kx + 2) * D" unfolding b using kx qx o H by linarith
  then have "qx < kx + 2" using D by simp
  then have hi: "qx \<le> kx + 1" by linarith
  show "qx \<le> qy" using lo hi by linarith
  assume "qx = qy"
  then have "qx = kx + 1" using lo hi by linarith
  then have "qx * D = kx * D + D" by (simp add: algebra_simps)
  then show "x + ox - qx * D < c" using kx o H by linarith
qed

text \<open>A zone whose offset is \<open>+2 h\<close> or \<open>+3 h\<close> and changes only at 01:00 UTC is regular:
  the change happens at 03:00 or 04:00 local time, never across local midnight and never
  after 14:30.\<close>

lemma block_tz_regular:
  assumes off: "\<And>t. fi_offset e t = (if S ((t - 3600000000) div day_usec) then 10800000000 else 7200000000)"
  shows "tz_regular e"
proof -
  let ?k = "\<lambda>t. (t - 3600000000) div day_usec"
  have hyp: "0 < (3600000000::int)" "4 * 3600000000 < day_usec" "4 * 3600000000 \<le> cutover"
    by (simp_all add: day_usec_val cutover_val)
  have rng: "2 * 3600000000 \<le> fi_offset e t" "fi_offset e t \<le> 3 * 3600000000" for t
    using off [of t] by simp_all
  have chg: "fi_date e x \<le> fi_date e y" "fi_date e x = fi_date e y \<Longrightarrow> fi_tod e x < cutover"
    if k: "?k x < ?k y" for x y
  proof -
    note bc = block_change [OF hyp day_div_bounds(1,2) [of "x - 3600000000"] day_div_bounds(1) [of "y - 3600000000"] k
        day_div_bounds(1,2) [of "x + fi_offset e x"] day_div_bounds(2) [of "y + fi_offset e y"]
        rng(1) [of x] rng(2) [of x] rng(1) [of y]]
    show "fi_date e x \<le> fi_date e y" using bc(1) by (simp add: fi_date_def fi_wall_def)
    show "fi_tod e x < cutover" if "fi_date e x = fi_date e y"
      using bc(2) that day_div_bounds(3) [of "x + fi_offset e x"] by (simp add: fi_date_def fi_tod_def fi_wall_def)
  qed
  have same: "fi_offset e x = fi_offset e y" if "?k x = ?k y" for x y
    using off [of x] off [of y] that by simp
  have mono: "?k x \<le> ?k y" if "x \<le> y" for x y
    using that day_usec_pos by (simp add: zdiv_mono1)
  show ?thesis
    unfolding tz_regular_def
  proof (intro conjI allI impI)
    fix x y :: int
    assume xy: "x \<le> y"
    show "fi_date e x \<le> fi_date e y"
    proof (cases "?k x = ?k y")
      case True
      then have "fi_wall e x \<le> fi_wall e y" using same [OF True] xy by (simp add: fi_wall_def)
      then show ?thesis using day_usec_pos by (simp add: fi_date_def zdiv_mono1)
    next
      case False
      then show ?thesis using chg(1) mono [OF xy] by simp
    qed
  next
    fix x y :: int
    assume xy: "x \<le> y" and d: "fi_date e x = fi_date e y" and c: "cutover \<le> fi_tod e x"
    show "fi_offset e x = fi_offset e y"
    proof (cases "?k x = ?k y")
      case True
      then show ?thesis by (rule same)
    next
      case False
      then have "?k x < ?k y" using mono [OF xy] by simp
      then show ?thesis using chg(2) d c by fastforce
    qed
  qed
qed

lemma helsinki_tz_regular: "tz_regular helsinki_tz"
  by (rule block_tz_regular [where S = eu_summer_day]) (simp add: helsinki_tz_def helsinki_offset_def)

lemma helsinki_offset_bounded: "\<bar>fi_offset helsinki_tz x\<bar> \<le> day_usec"
  by (simp add: helsinki_tz_def helsinki_offset_def day_usec_val)

lemma helsinki_transitions_2024:
  "fi_offset helsinki_tz (dst_2024_start - 1) = 7200000000" "fi_offset helsinki_tz dst_2024_start = 10800000000"
  "fi_offset helsinki_tz (dst_2024_end - 1) = 10800000000" "fi_offset helsinki_tz dst_2024_end = 7200000000"
  by code_simp+

section \<open>The properties that assume a regular zone, at Helsinki\<close>

text \<open>C7 across the change to summer time: a refresh due at 15:00 on 2024-03-30 (EET)
  is still due at 15:00 on 2024-03-31 (EEST), after the clocks went forward.\<close>

theorem refresh_due_stays_due_dst_witness:
  "tz_regular helsinki_tz \<and> refresh_due helsinki_tz 1711800000000000 1711803600000000 \<and>
   fi_offset helsinki_tz 1711886400000000 = 10800000000 \<and>
   refresh_due helsinki_tz 1711800000000000 1711886400000000"
proof -
  have due: "refresh_due helsinki_tz 1711800000000000 1711803600000000" by code_simp
  have o: "fi_offset helsinki_tz 1711886400000000 = 10800000000" by code_simp
  have "refresh_due helsinki_tz 1711800000000000 1711886400000000"
    by (rule refresh_due_stays_due [OF helsinki_tz_regular _ _ due]) simp_all
  then show ?thesis using helsinki_tz_regular due o by simp
qed

text \<open>C32 at Helsinki, from an empty cache.\<close>

theorem poll_until_request_terminates_helsinki_witness:
  "(\<forall>x. \<bar>fi_offset helsinki_tz x\<bar> \<le> day_usec) \<and> cache_wf Map.empty \<and>
   (\<exists>t' st'. poll_until_request helsinki_tz ''FI'' 15 example_provider_poll dst_2024_start Map.empty = Some (t', st') \<and>
             dst_2024_start \<le> t')"
proof -
  have o: "\<forall>x. \<bar>fi_offset helsinki_tz x\<bar> \<le> day_usec" using helsinki_offset_bounded by blast
  have w: "cache_wf Map.empty" by (simp add: cache_wf_def)
  show ?thesis using o w poll_until_request_terminates [OF o w] by blast
qed

text \<open>C33 at Helsinki: a series fetched at 15:00 on 2024-03-30, the schedule started an
  hour later, across the change to summer time.\<close>

theorem poll_until_request_bound_helsinki_witness:
  "(\<forall>x. \<bar>fi_offset helsinki_tz x\<bar> \<le> day_usec) \<and>
   cache_wf [''FI'' \<mapsto> empty_entry\<lparr>c_data := Some example_series, last_fetch := Some 1711803600000000\<rparr>] \<and>
   data_truthy (c_data (empty_entry\<lparr>c_data := Some example_series, last_fetch := Some 1711803600000000\<rparr>)) \<and>
   (\<exists>t' st'. poll_until_request helsinki_tz ''FI'' 15 example_provider_poll 1711807200000000
               [''FI'' \<mapsto> empty_entry\<lparr>c_data := Some example_series, last_fetch := Some 1711803600000000\<rparr>] = Some (t', st') \<and>
             1711807200000000 \<le> t' \<and> t' \<le> max 1711807200000000 (1711803600000000 + 3 * day_usec + update_interval))"
proof -
  let ?c = "empty_entry\<lparr>c_data := Some example_series, last_fetch := Some 1711803600000000\<rparr>"
  have o: "\<forall>x. \<bar>fi_offset helsinki_tz x\<bar> \<le> day_usec" using helsinki_offset_bounded by blast
  have w: "cache_wf [''FI'' \<mapsto> ?c]"
    by (simp add: cache_wf_def entry_wf_def stored_ok_def uniform_kind_def example_simps item_datetime_def py_simps
        empty_entry_def)
  have s: "[''FI'' \<mapsto> ?c] ''FI'' = Some ?c" by simp
  have d: "data_truthy (c_data ?c)" by (simp add: data_truthy_def example_series_def)
  have l: "last_fetch ?c = Some 1711803600000000" by simp
  show ?thesis using o w d poll_until_request_bound [OF o w s d l, of 15 example_provider_poll 1711807200000000] by blast
qed

end
