(* ===== verification/Spec2Isabelle.thy ===== *)
theory Spec2Isabelle
  imports Installation Executor ConfigFlow Helsinki
begin

text \<open>
  Verification library of the spot-hinta.fi Home Assistant integration
  (\<^verbatim>\<open>src/custom_components/spothinta\<close>). It models the price engine of
  \<^verbatim>\<open>spothinta_api.py\<close> (class \<open>SpotHintaAPI\<close>) as executable HOL functions and proves
  what makes it correct, and the Home Assistant side of \<^verbatim>\<open>sensor.py\<close> and
  \<^verbatim>\<open>__init__.py\<close> (coordinators, sensors, setup and unload) as a transition system on
  an explicit store of API objects, and the config flow of \<^verbatim>\<open>config_flow.py\<close> with the
  config entries it creates.

  \<^bold>\<open>The program.\<close> One \<open>SpotHintaAPI\<close> object is shared by all sensors. Its state is the
  dict \<open>_data_cache\<close>: region code \<open>\<rightarrow>\<close> a dict with the sorted provider reply
  (\<open>_data\<close>), the time of the last successful request (\<open>last_fetch\<close>) and the minimum
  and maximum VAT price. A coordinator per config entry calls \<open>fetch_data\<close> every two
  hours; it asks the provider for new data only when the refresh rule (14:30 Helsinki
  time, or a new Helsinki day) says so, sorts and stores the reply, and recomputes the
  aggregates. A sensor calls \<open>calculate_current_price\<close> every quarter hour; it reads the
  price in force from the cached series, with a fallback to the last record. The
  coordinator's \<open>data\<close> is the region's dict of the cache itself, and the sensor writes
  its price into it and reports it from there. Config entries (region, resolution, price
  type) come from the config flow, whose unique id is region and price type; each entry
  gets one coordinator and one sensor.

  \<^bold>\<open>Theories.\<close>
  \<^item> \<open>Prelude\<close>: the time scale (instants and wall clocks in microseconds), the
    collections \<open>py_simps\<close> and \<open>wf_simps\<close>, facts on sorted lists and the folds behind
    \<open>min\<close>/\<open>max\<close>.
  \<^item> \<open>PyValues\<close>: decoded JSON values, Python's exceptions, truthiness, \<open>x[k]\<close>,
    \<open>dict.get\<close>, \<open>float()\<close>, \<open>min\<close>/\<open>max\<close>.
  \<^item> \<open>PyDateTime\<close>: naive and aware datetimes, \<open>datetime.fromisoformat\<close> (the subset
    the provider uses, with calendar validation), \<open>astimezone\<close>, and the time-zone
    environment \<open>tzenv\<close> (pytz's Europe/Helsinki and the host's local zone, both
    parameters).
  \<^item> \<open>Store\<close>: \<^verbatim>\<open>const.py\<close>; the cache (\<open>cache_entry\<close>, \<open>api_cache\<close>),
    \<open>_get_cache_data\<close>, \<open>_get_price_keys\<close>; the read of a record's timestamp; the
    well-formedness \<open>entry_wf\<close>/\<open>cache_wf\<close>.
  \<^item> \<open>Refresh\<close>: the refresh rule of \<open>fetch_data\<close> (lines 134--161):
    \<open>refresh_due\<close>, \<open>fetch_needed\<close>.
  \<^item> \<open>Resolver\<close>: \<open>calculate_current_price\<close> (\<open>scan_prices\<close>, \<open>fallback_price\<close>), its
    specification \<open>resolve_spec\<close> and the refinement proof.
  \<^item> \<open>Aggregates\<close>: \<open>_process_data\<close> (\<open>vat_price_list\<close>, \<open>process_data\<close>) and its
    specification \<open>aggregates_spec\<close>.
  \<^item> \<open>Fetch\<close>: \<open>fetch_data\<close> with the network as a parameter (\<open>http_request\<close>,
    \<open>http_reply\<close>), the sort of the reply (\<open>sort_records\<close>, \<open>sort_reply\<close>),
    \<open>finish_fetch\<close>, and the case rule \<open>fetch_data_outcomes\<close>.
  \<^item> \<open>Sensor\<close>: \<^verbatim>\<open>sensor.py\<close> and \<^verbatim>\<open>__init__.py\<close>: the coordinator
    (\<open>new_coordinator\<close>, \<open>async_update_data\<close>, \<open>coordinator_refresh\<close>), its data as a
    reference (\<open>coord_data\<close>, \<open>coord_dict\<close>, \<open>coord_write\<close>), the sensor
    (\<open>sensor_state\<close>, \<open>async_update_state\<close>, \<open>write_ha_state\<close>,
    \<open>async_added_to_hass\<close>, the entity description \<open>sensor_entity_description\<close> and
    \<open>extra_state_attributes\<close>), \<open>async_setup_entry\<close> with \<open>entry_settings\<close> (the
    \<open>entry.data.get\<close> defaults) and \<open>ensure_api\<close>, and \<open>async_unload_entry\<close>, on the
    \<open>host\<close> record: API objects by number, the one \<open>hass.data\<close> holds, and per config
    entry its coordinator, its sensor's price type and the state written.
  \<^item> \<open>Host\<close>: the integration's forwarding \<open>async_setup_entry\<close> of
    \<^verbatim>\<open>__init__.py\<close> (\<open>init_async_setup_entry\<close>); the Home Assistant events
    (\<open>host_op\<close>: setup followed by the sensor's immediate update, two-hourly refresh, quarter-hour tick, unload) as \<open>host_step\<close>,
    runs \<open>host_run\<close>, reachable hosts \<open>reachable_host\<close>, and the store invariant
    \<open>host_wf\<close> with its preservation by every step.
  \<^item> \<open>Installation\<close>: example installations evaluated step by step (two FI entries
    sharing the region dict, two resolutions, a reload), and the properties of reachable
    hosts (C18--C24, C31, C34).
  \<^item> \<open>ConfigFlow\<close>: \<^verbatim>\<open>config_flow.py\<close>: \<open>STEP_USER_DATA_SCHEMA\<close> as
    \<open>user_data_schema\<close> (defaults and \<open>vol.In\<close>), \<open>async_step_user\<close> with its
    \<open>unique_id\<close> and abort, and the list of config entries Home Assistant keeps
    (\<open>flow_submit\<close>, \<open>flow_reachable\<close>), with the invariant \<open>flow_wf\<close> (C28--C30).
  \<^item> \<open>Polling\<close>: the coordinator's schedule (\<^verbatim>\<open>sensor.py\<close> line 82,
    \<open>update_interval\<close>): \<open>poll_until_request\<close>, the two-hourly calls of \<open>fetch_data\<close> until
    one goes to the network, as a \<open>partial_function (option)\<close> (C32, C33).
  \<^item> \<open>Helsinki\<close>: \<open>FINNISH_TIMEZONE\<close> as a concrete zone (\<open>helsinki_tz\<close>: EET/EEST
    with the EU summer-time rule), the proof that every zone switching between \<open>+2 h\<close>
    and \<open>+3 h\<close> only at 01:00 UTC is regular (\<open>block_tz_regular\<close>), and the
    properties that assume a regular zone (C7, C32, C33) applied to Helsinki across its
    2024 change to summer time.
  \<^item> \<open>Executor\<close>: concurrent \<open>fetch_data\<close> calls in Home Assistant's executor: a call
    split at its blocking request into \<open>job_check\<close> and \<open>job_reply\<close> on the shared cache
    (\<open>exec_state\<close>), any interleaving \<open>exec_step\<close>, and the serial composition
    \<open>job_serial\<close>.
  \<^item> this theory: the two operations of \<open>SpotHintaAPI\<close> as steps on the cache, reachable
    caches, and the properties across components.

  \<^bold>\<open>Correspondence.\<close> A Python method that mutates \<open>self._data_cache\<close> becomes a function
  from the cache before to its result and the cache after; an exception that leaves a
  method is an \<open>Inl\<close> value of \<open>pyexc + _\<close>; a caught exception is a branch of the
  model (\<open>scan_prices\<close> skips, \<open>fallback_price\<close> catches only \<open>ValueError\<close>). Clock
  readings and the network are inputs: \<open>fetch_data\<close> takes the two clock readings of the
  method and a function from request to reply, and returns the requests it issued.

  \<^bold>\<open>What is proved.\<close> The resolver computes the specification's answer on every
  well-formed series (refinement); every reachable cache is well-formed (sorted series,
  readable timestamps of one kind, a fetch time for every series); the sort is a
  permutation into ascending order; failed requests change nothing; the refresh rule is
  characterised within a Helsinki day, fires on a new day, and stays due until a fetch
  succeeds; after a fetch made after 14:30 no further request is made that day; the
  aggregates are the least and greatest VAT price; the network is used exactly when the
  rule says so. For any series the code departs from the specification where the record
  in force is malformed: \<open>null\<close> leads to the fallback to the last record (C13), a value
  \<open>float()\<close> rejects keeps the previous price (C14); and an install whose aggregates
  raise leaves the new series beside stale aggregates (C17).
  On the Home Assistant side (\<open>Host\<close>, \<open>Installation\<close>, C18--C24, C31, C34): every
  reachable host keeps its caches well-formed and every loaded coordinator aliases its
  own region's dict; hence the sensors of one region always report the same state
  whatever their price type, and a tick of one sensor sets the state of every other
  sensor of its region to its own price (C34); a sensor tick writes the resolver's price
  on every branch; an entry set up at any resolution on a region whose dict needs no
  fetch makes no request and is served the series that dict holds, fetched for
  whatever resolution (C21); after an
  unload the next setup gets a new, empty API object, different from the one the other
  entries keep (C22); a run makes at most one request per setup or refresh; a failed due
  refresh keeps the cache and makes the sensor unavailable; a due refresh answered with
  a usable series makes the sensor available again from any reachable host (C31),
  reporting the last price written into the shared dict. For concurrent calls
  (\<open>Executor\<close>, C25--C27): N calls that pass their check before the first store make
  N requests (the spec requires one); serialized calls after a successful afternoon
  fetch make none; every interleaving keeps the cache well-formed (the lemma
  \<open>job_serial_fetch_data\<close> shows that a call nothing interleaves with is exactly
  \<open>fetch_data\<close>). For the config flow (\<open>ConfigFlow\<close>, C28--C30): every reachable list
  of entries holds valid data with distinct (region, price type); the step aborts exactly
  when that pair is configured, whatever the resolution; the sensors of the entries have
  distinct entity unique ids. For the schedule (\<open>Polling\<close>, C32, C33): on a well-formed
  cache the two-hourly calls reach a request (termination), no later than three days and
  one interval after the region's last fetch; the invariant is needed, since a dict with
  data but no fetch time is never due.

  \<^bold>\<open>Bounds and assumptions.\<close> There is no loop without a bound: every loop of the code
  runs over a list and is structural recursion, so every definition is total and
  executable. The lemmas about days need the Helsinki zone to be regular
  (\<open>tz_regular\<close>: the local date never goes back, and the offset does not change
  between 14:30 and midnight); theory \<open>Helsinki\<close> proves it of Europe/Helsinki
  (\<open>helsinki_tz_regular\<close>), whose offset changes at 03:00/04:00 local time. Most
  witnesses use the fixed UTC+2 zone of a Helsinki winter; those of C7, C32 and C33 use
  \<open>helsinki_tz\<close> across 2024-03-31. The schedule's loop is the one place where a model may not
  return: it is a \<open>partial_function (option)\<close>, and its termination is proved (not
  assumed) for zones whose offset is at most a day either way, which every real zone
  satisfies (the largest offsets are +14 h and -12 h); three days is then enough for the
  Helsinki date to move on whatever the offsets at the two instants.

  \<^bold>\<open>Not modelled.\<close> Logging (no effect on state); \<open>float()\<close> on strings beyond plain
  decimals, and \<open>fromisoformat\<close> beyond the format the provider sends (both
  under-approximated: such strings raise \<open>ValueError\<close> in the model); JSON \<open>NaN\<close> and
  infinities; of the Home Assistant platform, everything but what the code relies on:
  \<open>DataUpdateCoordinator\<close>'s refresh and availability, entity state writes, and the
  triggers the spec describes (\<open>host_step\<close>); in \<open>Host\<close> each event is one atomic
  step, and the interleaving of calls is studied on the API alone in \<open>Executor\<close>, at
  the granularity of the blocking request (a thread switch between two stores of one
  step is not modelled); \<open>last_refresh_utc\<close> is kept as an instant, not its
  \<open>isoformat()\<close> string (sensor.py line 190): nothing in the code reads it back, so the
  string adds no behaviour, and its round trip would need the inverse of
  \<open>days_from_civil\<close> proved; the tz database before 1983 and outside the EU rule; the
  config flow's form rendering and translations, and the flow manager beyond its
  documented contract (validate, run the step, store a created entry, delete on
  request).

  \<^bold>\<open>Coverage.\<close> Every function and method of the five source files is modelled;
  what the map leaves out is imports, logging, docstrings, comments, and the constants
  no modelled behaviour reads (\<open>ATTRIBUTION\<close>, \<open>SERVICE_UPDATE_PRICES\<close>, the
  \<open>CONF_\<close> keys, which are the field names of \<open>entry_config\<close> and \<open>form_input\<close>).
\<close>

section \<open>The operations of \<open>SpotHintaAPI\<close> as steps\<close>

text \<open>The two public operations, with every input the environment supplies: clock
  readings, the network's answer, and the arguments.\<close>

datatype api_op =
    OpFetchData string nat bool instant "http_request \<Rightarrow> http_reply" instant
  | OpCurrentPrice string nat string pydt

fun api_step :: "tzenv \<Rightarrow> api_op \<Rightarrow> api_cache \<Rightarrow> api_cache" where
  "api_step e (OpFetchData region res force now net t_done) st =
     fst (snd (fetch_data e region res force now net t_done st))"
| "api_step e (OpCurrentPrice region res price_type now_dt) st =
     snd (calculate_current_price e region res price_type now_dt st)"

text \<open>The caches an API object can reach from its creation (\<open>_data_cache = {}\<close>).\<close>

inductive reachable :: "tzenv \<Rightarrow> api_cache \<Rightarrow> bool" for e :: tzenv where
  init: "reachable e Map.empty"
| step: "reachable e st \<Longrightarrow> reachable e (api_step e op st)"

section \<open>Lemmas\<close>

lemma api_step_wf: "cache_wf st \<Longrightarrow> cache_wf (api_step e op st)"
  by (cases op) (simp_all add: fetch_data_wf calculate_current_price_wf)

lemma get_cache_data_keeps:
  "st r = Some c \<Longrightarrow> snd (get_cache_data region st) r = Some c"
  by (cases "st region") (auto simp: get_cache_data_def)

section \<open>Properties across components\<close>

text \<open>
  C2. Invariant: every cache reachable from an empty one by any sequence of
  \<open>fetch_data\<close> and \<open>calculate_current_price\<close> calls, with any clock readings and any
  replies, is well-formed: each region's series has readable timestamps of one kind in
  ascending order, and each region with a series has a last-fetch time.
\<close>

theorem reachable_cache_wf:
  assumes "reachable e st"
  shows "cache_wf st"
  using assms
proof (induction rule: reachable.induct)
  case init
  then show ?case by (simp add: cache_wf_def)
next
  case (step st op)
  then show ?case by (simp add: api_step_wf)
qed

theorem reachable_cache_wf_witness:
  "reachable helsinki_winter
     (api_step helsinki_winter
        (OpFetchData ''FI'' 15 False 1709643600000000 (\<lambda>_. ReplyJson (JArr (rev example_series))) 1709643601000000)
        Map.empty) \<and>
   cache_wf (api_step helsinki_winter
        (OpFetchData ''FI'' 15 False 1709643600000000 (\<lambda>_. ReplyJson (JArr (rev example_series))) 1709643601000000)
        Map.empty)"
proof -
  have r: "reachable helsinki_winter
     (api_step helsinki_winter
        (OpFetchData ''FI'' 15 False 1709643600000000 (\<lambda>_. ReplyJson (JArr (rev example_series))) 1709643601000000)
        Map.empty)"
    by (rule reachable.step [OF reachable.init])
  show ?thesis using r reachable_cache_wf [OF r] by simp
qed

text \<open>
  C11. At most one request per region and afternoon: if a region's data was fetched at
  \<open>lf\<close>, at or after 14:30 Helsinki time, then no call of \<open>fetch_data\<close> (without
  \<open>force_update\<close>) later that Helsinki day (same UTC offset) issues a request.
\<close>

theorem no_second_request_same_day:
  assumes "st region = Some c" and "data_truthy (c_data c)" and "last_fetch c = Some lf"
    and "fi_date e lf = fi_date e now" and "fi_offset e lf = fi_offset e now"
    and "cutover \<le> fi_tod e lf"
  shows "snd (snd (fetch_data e region res False now net t st)) = []"
proof -
  have "\<not> lf < fetch_time_today e now"
    using stale_same_day_iff [OF assms(4,5)] assms(6) by simp
  then have "\<not> refresh_due e lf now"
    using assms(4) by (simp add: refresh_due_def Let_def)
  then have "\<not> fetch_needed e False c now"
    using assms(2,3) by (simp add: fetch_needed_def)
  then show ?thesis
    using assms(1) by (simp add: fetch_data_requests)
qed

theorem no_second_request_same_day_witness:
  "[''FI'' \<mapsto> empty_entry\<lparr>c_data := Some example_series, last_fetch := Some 1709643601000000\<rparr>] ''FI'' =
     Some (empty_entry\<lparr>c_data := Some example_series, last_fetch := Some 1709643601000000\<rparr>) \<and>
   data_truthy (Some example_series) \<and>
   fi_date helsinki_winter 1709643601000000 = fi_date helsinki_winter 1709672400000000 \<and>
   cutover \<le> fi_tod helsinki_winter 1709643601000000 \<and>
   snd (snd (fetch_data helsinki_winter ''FI'' 15 False 1709672400000000 (\<lambda>_. ReplyFailed) 1709672401000000
               [''FI'' \<mapsto> empty_entry\<lparr>c_data := Some example_series, last_fetch := Some 1709643601000000\<rparr>])) = []"
proof -
  let ?c = "empty_entry\<lparr>c_data := Some example_series, last_fetch := Some 1709643601000000\<rparr>"
  have st: "[''FI'' \<mapsto> ?c] ''FI'' = Some ?c" by simp
  have dt: "data_truthy (c_data ?c)" by (simp add: data_truthy_def example_series_def)
  have lf: "last_fetch ?c = Some 1709643601000000" by simp
  have d: "fi_date helsinki_winter 1709643601000000 = fi_date helsinki_winter 1709672400000000"
    by (simp add: helsinki_winter_def fi_date_def fi_wall_def day_usec_val)
  have o: "fi_offset helsinki_winter 1709643601000000 = fi_offset helsinki_winter 1709672400000000"
    by (simp add: helsinki_winter_def)
  have t: "cutover \<le> fi_tod helsinki_winter 1709643601000000"
    by (simp add: helsinki_winter_def fi_tod_def fi_wall_def day_usec_val cutover_val)
  show ?thesis
    using st dt d t no_second_request_same_day [where st = "[''FI'' \<mapsto> ?c]" and region = "''FI''", OF st dt lf d o t]
    by simp
qed

text \<open>
  C12. Per-region state machine: a region never goes back to having no series. Once its
  dict holds a series (after the first successful fetch), every later step, including a
  failed request, an unsortable reply or a \<open>TypeError\<close> of \<open>_process_data\<close>, leaves it a
  dict with a series, and a region with a fetch time keeps one.
\<close>

theorem api_step_never_unpopulates:
  assumes "st r = Some c" and "c_data c \<noteq> None"
  shows "\<exists>c'. api_step e op st r = Some c' \<and> c_data c' \<noteq> None \<and>
           (last_fetch c \<noteq> None \<longrightarrow> last_fetch c' \<noteq> None)"
proof (cases op)
  case (OpCurrentPrice region res pt now_dt)
  then show ?thesis
    using get_cache_data_keeps [where st = st and r = r, OF assms(1)] assms(2)
    by (simp add: calculate_current_price_state)
next
  case (OpFetchData region res force now net t)
  obtain c0 st1 where gc: "get_cache_data region st = (c0, st1)"
    by (cases "get_cache_data region st")
  have st1: "st1 r = Some c"
    using get_cache_data_keeps [where st = st and r = r, OF assms(1), of region] gc by simp
  have c0: "r = region \<Longrightarrow> c0 = c"
    using assms(1) gc by simp
  from gc show ?thesis
  proof (cases rule: fetch_data_outcomes [where e = e and force = force and now = now and net = net and res = res and t = t])
    case served
    obtain mn mx where "snd (finish_fetch region c0 st1) = st1(region \<mapsto> c0\<lparr>min_price := mn, max_price := mx\<rparr>)"
      using finish_fetch_entry by blast
    with served OpFetchData st1 c0 assms(2) show ?thesis by auto
  next
    case failed
    with OpFetchData st1 show ?thesis using assms(2) by simp
  next
    case (unsortable body ex)
    with OpFetchData st1 show ?thesis using assms(2) by simp
  next
    case (installed body items)
    let ?c1 = "c0\<lparr>c_data := Some items, last_fetch := Some t\<rparr>"
    obtain mn mx where "snd (finish_fetch region ?c1 st1) = st1(region \<mapsto> ?c1\<lparr>min_price := mn, max_price := mx\<rparr>)"
      using finish_fetch_entry by blast
    with installed OpFetchData st1 assms(2) show ?thesis by auto
  qed
qed

theorem api_step_never_unpopulates_witness:
  "[''FI'' \<mapsto> empty_entry\<lparr>c_data := Some example_series, last_fetch := Some 1709643601000000\<rparr>] ''FI'' =
     Some (empty_entry\<lparr>c_data := Some example_series, last_fetch := Some 1709643601000000\<rparr>) \<and>
   c_data (the (api_step helsinki_winter (OpFetchData ''FI'' 15 True 1709672400000000 (\<lambda>_. ReplyFailed) 1709672401000000)
     [''FI'' \<mapsto> empty_entry\<lparr>c_data := Some example_series, last_fetch := Some 1709643601000000\<rparr>] ''FI'')) \<noteq> None"
proof -
  let ?c = "empty_entry\<lparr>c_data := Some example_series, last_fetch := Some 1709643601000000\<rparr>"
  have st: "[''FI'' \<mapsto> ?c] ''FI'' = Some ?c" by simp
  have d: "c_data ?c \<noteq> None" by simp
  show ?thesis
    using st api_step_never_unpopulates [where st = "[''FI'' \<mapsto> ?c]" and r = "''FI''", OF st d,
        of helsinki_winter "OpFetchData ''FI'' 15 True 1709672400000000 (\<lambda>_. ReplyFailed) 1709672401000000"]
    by auto
qed

end
